theory Spec2Isabelle
  imports Complex_Main "HOL-Library.Sublist"
begin

section \<open>JavaScript values\<close>

text \<open>
  A thrown \<^verbatim>\<open>Error\<close> object, by its message. Every \<^verbatim>\<open>throw\<close> of the services and every
  rejected promise of a collaborator is a value of this type.
\<close>

datatype js_error = Error string

text \<open>
  A JSON value as \<^verbatim>\<open>JSON.parse\<close> returns it. \<open>JNum m e\<close> is the double nearest to
  \<open>m * 10 ^ e\<close> (an infinity beyond the range of doubles); the services never compute
  with such a number, they only ask whether it is zero. An object keeps its properties
  in source order.
\<close>

datatype json =
    JNull
  | JBool bool
  | JNum int int
  | JStr string
  | JArr "json list"
  | JObj "(string \<times> json) list"

text \<open>Reading a property: \<open>None\<close> is \<^verbatim>\<open>undefined\<close>. A later duplicate key wins.\<close>

fun js_get :: "json \<Rightarrow> string \<Rightarrow> json option" where
  "js_get (JObj kvs) k = map_of (rev kvs) k"
| "js_get v k = None"

text \<open>
  Whether \<open>m * 10 ^ e\<close> rounds to zero as a double: it does when its magnitude is at
  most \<open>2 ^ - 1075\<close>, half the least positive double.
\<close>

definition rounds_to_zero :: "int \<Rightarrow> int \<Rightarrow> bool" where
  "rounds_to_zero m e = (if 0 \<le> e then m = 0 else \<bar>m\<bar> * 2 ^ 1075 \<le> 10 ^ nat (- e))"

text \<open>Truthiness of a value that may be \<^verbatim>\<open>undefined\<close>.\<close>

fun js_truthy :: "json option \<Rightarrow> bool" where
  "js_truthy None = False"
| "js_truthy (Some JNull) = False"
| "js_truthy (Some (JBool b)) = b"
| "js_truthy (Some (JNum m e)) = (\<not> rounds_to_zero m e)"
| "js_truthy (Some (JStr s)) = (s \<noteq> [])"
| "js_truthy (Some (JArr xs)) = True"
| "js_truthy (Some (JObj kvs)) = True"

text \<open>\<^verbatim>\<open>v || null\<close>\<close>

definition or_null :: "json option \<Rightarrow> json" where
  "or_null v = (if js_truthy v then the v else JNull)"

text \<open>\<^verbatim>\<open>Array.isArray(v) ? v : []\<close>\<close>

fun array_or_empty :: "json option \<Rightarrow> json" where
  "array_or_empty (Some (JArr xs)) = JArr xs"
| "array_or_empty v = JArr []"

text \<open>
  The integer \<^verbatim>\<open>String.prototype.substring\<close> reads from its argument
  (\<^verbatim>\<open>ToIntegerOrInfinity\<close>; \<^verbatim>\<open>NaN\<close> reads as 0).
\<close>

datatype js_integer = Finite int | PlusInfinity | MinusInfinity

text \<open>\<^verbatim>\<open>s.substring(0, e)\<close>: the end is clamped to \<open>0 .. length s\<close>.\<close>

fun substring0 :: "string \<Rightarrow> js_integer \<Rightarrow> string" where
  "substring0 s (Finite n) = take (nat n) s"
| "substring0 s PlusInfinity = s"
| "substring0 s MinusInfinity = []"

text \<open>
  A number as \<^verbatim>\<open>Number(config.tokenLimit)\<close> or a token count of \<^verbatim>\<open>serviceUtils\<close> may give
  it: a rational (the rounding of doubles is not modelled), an infinity, or \<^verbatim>\<open>NaN\<close>; with
  \<^verbatim>\<open>a + b\<close>, \<^verbatim>\<open>a - b\<close>, \<^verbatim>\<open>a <= b\<close>, \<^verbatim>\<open>a < b\<close> and \<^verbatim>\<open>Math.min(a, b)\<close>. A comparison with
  \<^verbatim>\<open>NaN\<close> is false, and \<^verbatim>\<open>NaN\<close> spreads through the arithmetic.
\<close>

datatype js_number = Num rat | Infinity | NegInfinity | NaN

fun js_add :: "js_number \<Rightarrow> js_number \<Rightarrow> js_number" where
  "js_add (Num x) (Num y) = Num (x + y)"
| "js_add NaN b = NaN"
| "js_add a NaN = NaN"
| "js_add Infinity NegInfinity = NaN"
| "js_add NegInfinity Infinity = NaN"
| "js_add Infinity b = Infinity"
| "js_add NegInfinity b = NegInfinity"
| "js_add (Num x) b = b"

fun js_neg :: "js_number \<Rightarrow> js_number" where
  "js_neg (Num x) = Num (- x)"
| "js_neg Infinity = NegInfinity"
| "js_neg NegInfinity = Infinity"
| "js_neg NaN = NaN"

definition js_sub :: "js_number \<Rightarrow> js_number \<Rightarrow> js_number" where
  "js_sub a b = js_add a (js_neg b)"

fun js_le :: "js_number \<Rightarrow> js_number \<Rightarrow> bool" where
  "js_le (Num x) (Num y) = (x \<le> y)"
| "js_le NaN b = False"
| "js_le a NaN = False"
| "js_le NegInfinity b = True"
| "js_le a Infinity = True"
| "js_le a b = False"

fun js_less :: "js_number \<Rightarrow> js_number \<Rightarrow> bool" where
  "js_less (Num x) (Num y) = (x < y)"
| "js_less NaN b = False"
| "js_less a NaN = False"
| "js_less Infinity b = False"
| "js_less a NegInfinity = False"
| "js_less a b = True"

definition js_min :: "js_number \<Rightarrow> js_number \<Rightarrow> js_number" where
  "js_min a b = (if a = NaN \<or> b = NaN then NaN else if js_le a b then a else b)"

text \<open>\<^verbatim>\<open>Math.ceil(text.length / 4)\<close>, the free-text backend's token estimate.\<close>

definition estimateTokens :: "string \<Rightarrow> int" where
  "estimateTokens s = int ((length s + 3) div 4)"

text \<open>
  External contextual data handed in as \<^verbatim>\<open>options.externalApiData\<close>: a text, or an
  object or array (\<^verbatim>\<open>typeof apiData === 'object'\<close>).
\<close>

datatype api_data = ApiText string | ApiObject json

fun api_truthy :: "api_data option \<Rightarrow> bool" where
  "api_truthy None = False"
| "api_truthy (Some (ApiText s)) = (s \<noteq> [])"
| "api_truthy (Some (ApiObject v)) = True"

text \<open>
  A promise object that has not been awaited: in a template literal it renders as the
  fixed text below, and it is always truthy.
\<close>

datatype 'a promise = Promise 'a

definition promise_to_string :: "'a promise \<Rightarrow> string" where
  "promise_to_string p = ''[object Promise]''"

section \<open>A model of \<^verbatim>\<open>JSON.parse\<close>\<close>

text \<open>
  The services take \<^verbatim>\<open>JSON.parse\<close> as a parameter; this parser is the instance used
  on concrete inputs. It follows the JSON grammar on texts of code units below 256 and
  answers with the value, with \<open>SyntaxError\<close> when \<^verbatim>\<open>JSON.parse\<close> throws, or with
  \<open>Unmodelled\<close>: a text that holds an escape above \<^verbatim>\<open>\u00FF\<close> may have a value that the
  strings here cannot hold, and nothing is said about it. The recursion is bounded by
  the length of the text, since every call reads at least one character.
\<close>

datatype parse_outcome = Parsed json | SyntaxError | Unmodelled

text \<open>A character by its code unit.\<close>

definition code :: "char \<Rightarrow> nat" where
  "code c = of_char c"

definition is_json_ws :: "char \<Rightarrow> bool" where
  "is_json_ws c = (code c = 32 \<or> code c = 9 \<or> code c = 10 \<or> code c = 13)"

definition is_digit :: "char \<Rightarrow> bool" where
  "is_digit c = (48 \<le> code c \<and> code c \<le> 57)"

definition digits_val :: "string \<Rightarrow> nat" where
  "digits_val ds = foldl (\<lambda>a c. 10 * a + (code c - 48)) 0 ds"

definition hex_val :: "char \<Rightarrow> nat option" where
  "hex_val c =
     (if 48 \<le> code c \<and> code c \<le> 57 then Some (code c - 48)
      else if 97 \<le> code c \<and> code c \<le> 102 then Some (code c - 87)
      else if 65 \<le> code c \<and> code c \<le> 70 then Some (code c - 55)
      else None)"

text \<open>The characters of a string literal after its opening quote, up to the closing one.\<close>

fun parse_chars :: "string \<Rightarrow> (string \<times> string) option" where
  "parse_chars [] = None"
| "parse_chars (c # cs) =
     (if c = CHR 0x22 then Some ([], cs)
      else if code c < 32 then None
      else if c = CHR 0x5C then
        (case cs of
           [] \<Rightarrow> None
         | e # r \<Rightarrow>
             if e = CHR ''u'' then
               (case r of
                  h1 # h2 # h3 # h4 # r' \<Rightarrow>
                    (case (hex_val h1, hex_val h2, hex_val h3, hex_val h4) of
                       (Some a, Some b, Some c', Some d) \<Rightarrow>
                         if a = 0 \<and> b = 0 then
                           (case parse_chars r' of
                              None \<Rightarrow> None
                            | Some (s, rest) \<Rightarrow> Some (char_of (16 * c' + d) # s, rest))
                         else None
                     | _ \<Rightarrow> None)
                | _ \<Rightarrow> None)
             else
               (case
                  (if e = CHR 0x22 then Some (CHR 0x22)
                   else if e = CHR 0x5C then Some (CHR 0x5C)
                   else if e = CHR ''/'' then Some (CHR ''/'')
                   else if e = CHR ''b'' then Some (CHR 0x08)
                   else if e = CHR ''f'' then Some (CHR 0x0C)
                   else if e = CHR ''n'' then Some (CHR 0x0A)
                   else if e = CHR ''r'' then Some (CHR 0x0D)
                   else if e = CHR ''t'' then Some (CHR 0x09)
                   else None)
                of
                  None \<Rightarrow> None
                | Some x \<Rightarrow>
                    (case parse_chars r of
                       None \<Rightarrow> None
                     | Some (s, rest) \<Rightarrow> Some (x # s, rest))))
      else
        (case parse_chars cs of
           None \<Rightarrow> None
         | Some (s, rest) \<Rightarrow> Some (c # s, rest)))"

text \<open>A number token at the head of the text.\<close>

definition parse_number :: "string \<Rightarrow> (json \<times> string) option" where
  "parse_number s =
     (let neg = (s \<noteq> [] \<and> hd s = CHR ''-'');
          s1 = (if neg then tl s else s);
          ip = takeWhile is_digit s1;
          s2 = dropWhile is_digit s1
      in if ip = [] \<or> (hd ip = CHR ''0'' \<and> length ip > 1) then None
         else
           (let has_frac = (s2 \<noteq> [] \<and> hd s2 = CHR ''.'');
                fp = (if has_frac then takeWhile is_digit (tl s2) else []);
                s3 = (if has_frac then dropWhile is_digit (tl s2) else s2)
            in if has_frac \<and> fp = [] then None
               else
                 (let has_exp = (s3 \<noteq> [] \<and> (hd s3 = CHR ''e'' \<or> hd s3 = CHR ''E''));
                      s4 = (if has_exp then tl s3 else s3);
                      eneg = (has_exp \<and> s4 \<noteq> [] \<and> hd s4 = CHR ''-'');
                      s5 = (if has_exp \<and> s4 \<noteq> [] \<and> (hd s4 = CHR ''-'' \<or> hd s4 = CHR ''+'')
                            then tl s4 else s4);
                      ep = (if has_exp then takeWhile is_digit s5 else []);
                      s6 = (if has_exp then dropWhile is_digit s5 else s3)
                  in if has_exp \<and> ep = [] then None
                     else
                       (let m = int (digits_val (ip @ fp));
                            e = (if eneg then - int (digits_val ep) else int (digits_val ep))
                                - int (length fp)
                        in Some ((if rounds_to_zero m e then JNum 0 0
                                  else JNum (if neg then - m else m) e), s6)))))"

fun parse_value :: "nat \<Rightarrow> string \<Rightarrow> (json \<times> string) option"
  and parse_elements :: "nat \<Rightarrow> string \<Rightarrow> (json list \<times> string) option"
  and parse_members :: "nat \<Rightarrow> string \<Rightarrow> ((string \<times> json) list \<times> string) option"
where
  "parse_value 0 s = None"
| "parse_value (Suc n) s =
     (case dropWhile is_json_ws s of
        [] \<Rightarrow> None
      | c # cs \<Rightarrow>
          if c = CHR ''{'' then
            (case dropWhile is_json_ws cs of
               [] \<Rightarrow> None
             | d # ds \<Rightarrow>
                 if d = CHR ''}'' then Some (JObj [], ds)
                 else
                   (case parse_members n (d # ds) of
                      None \<Rightarrow> None
                    | Some (kvs, rest) \<Rightarrow> Some (JObj kvs, rest)))
          else if c = CHR ''['' then
            (case dropWhile is_json_ws cs of
               [] \<Rightarrow> None
             | d # ds \<Rightarrow>
                 if d = CHR '']'' then Some (JArr [], ds)
                 else
                   (case parse_elements n (d # ds) of
                      None \<Rightarrow> None
                    | Some (vs, rest) \<Rightarrow> Some (JArr vs, rest)))
          else if c = CHR 0x22 then
            (case parse_chars cs of
               None \<Rightarrow> None
             | Some (str, rest) \<Rightarrow> Some (JStr str, rest))
          else if take 4 (c # cs) = ''null'' then Some (JNull, drop 4 (c # cs))
          else if take 4 (c # cs) = ''true'' then Some (JBool True, drop 4 (c # cs))
          else if take 5 (c # cs) = ''false'' then Some (JBool False, drop 5 (c # cs))
          else parse_number (c # cs))"
| "parse_elements 0 s = None"
| "parse_elements (Suc n) s =
     (case parse_value n s of
        None \<Rightarrow> None
      | Some (v, rest) \<Rightarrow>
          (case dropWhile is_json_ws rest of
             [] \<Rightarrow> None
           | c # cs \<Rightarrow>
               if c = CHR '']'' then Some ([v], cs)
               else if c = CHR '','' then
                 (case parse_elements n cs of
                    None \<Rightarrow> None
                  | Some (vs, rest') \<Rightarrow> Some (v # vs, rest'))
               else None))"
| "parse_members 0 s = None"
| "parse_members (Suc n) s =
     (case dropWhile is_json_ws s of
        [] \<Rightarrow> None
      | q # qs \<Rightarrow>
          if q \<noteq> CHR 0x22 then None
          else
            (case parse_chars qs of
               None \<Rightarrow> None
             | Some (k, r1) \<Rightarrow>
                 (case dropWhile is_json_ws r1 of
                    [] \<Rightarrow> None
                  | c # cs \<Rightarrow>
                      if c \<noteq> CHR '':'' then None
                      else
                        (case parse_value n cs of
                           None \<Rightarrow> None
                         | Some (v, r2) \<Rightarrow>
                             (case dropWhile is_json_ws r2 of
                                [] \<Rightarrow> None
                              | e # es \<Rightarrow>
                                  if e = CHR ''}'' then Some ([(k, v)], es)
                                  else if e = CHR '','' then
                                    (case parse_members n es of
                                       None \<Rightarrow> None
                                     | Some (kvs, r3) \<Rightarrow> Some ((k, v) # kvs, r3))
                                  else None)))))"

text \<open>
  Whether the text holds \<^verbatim>\<open>\u\<close> followed by two characters other than \<^verbatim>\<open>00\<close>. Such a
  text is left undecided, so \<open>parse_chars\<close> is only asked about escapes up to
  \<^verbatim>\<open>\u00FF\<close>.
\<close>

fun wide_escape :: "string \<Rightarrow> bool" where
  "wide_escape (b # u # h1 # h2 # r) =
     ((b = CHR 0x5C \<and> u = CHR ''u'' \<and> (h1 \<noteq> CHR ''0'' \<or> h2 \<noteq> CHR ''0''))
      \<or> wide_escape (u # h1 # h2 # r))"
| "wide_escape s = False"

definition json_parse :: "string \<Rightarrow> parse_outcome" where
  "json_parse s =
     (if wide_escape s then Unmodelled
      else
        (case parse_value (Suc (length s)) s of
           None \<Rightarrow> SyntaxError
         | Some (v, rest) \<Rightarrow> if dropWhile is_json_ws rest = [] then Parsed v else SyntaxError))"

text \<open>
  The parser as a value for the parameter, where \<open>None\<close> is a thrown error. It stands
  for \<^verbatim>\<open>JSON.parse\<close> on the texts the parser decides; on an undecided text it answers
  \<open>None\<close> as well, which is not claimed of \<^verbatim>\<open>JSON.parse\<close>, and no example parses such a
  text.
\<close>

definition parse_or_throw :: "string \<Rightarrow> json option" where
  "parse_or_throw s = (case json_parse s of Parsed v \<Rightarrow> Some v | SyntaxError \<Rightarrow> None | Unmodelled \<Rightarrow> None)"



section \<open>The free-text normaliser\<close>

text \<open>
  Three character classes of the regular expressions: \<^verbatim>\<open>\s\<close> (on code units below
  256), \<^verbatim>\<open>[a-zA-Z0-9_]\<close> and \<^verbatim>\<open>['"]\<close>.
\<close>

definition is_js_space :: "char \<Rightarrow> bool" where
  "is_js_space c = (code c = 9 \<or> code c = 10 \<or> code c = 11 \<or> code c = 12 \<or> code c = 13
     \<or> code c = 32 \<or> code c = 160)"

definition is_word_char :: "char \<Rightarrow> bool" where
  "is_word_char c = ((97 \<le> code c \<and> code c \<le> 122) \<or> (65 \<le> code c \<and> code c \<le> 90)
     \<or> (48 \<le> code c \<and> code c \<le> 57) \<or> code c = 95)"

definition is_quote :: "char \<Rightarrow> bool" where
  "is_quote c = (c = CHR 0x27 \<or> c = CHR 0x22)"

text \<open>
  \<^verbatim>\<open>response.match(/\{[\s\S]*\}/)\<close>: the star is greedy, so the match runs from the first
  opening brace to the last closing brace after it.
\<close>

definition match_json_span :: "string \<Rightarrow> string option" where
  "match_json_span response =
     (let t = dropWhile (\<lambda>c. c \<noteq> CHR ''{'') response
      in if CHR ''}'' \<in> set t then Some (rev (dropWhile (\<lambda>c. c \<noteq> CHR ''}'') (rev t))) else None)"

text \<open>\<^verbatim>\<open>s.replace(/,\s*X/g, 'X')\<close> for a closing character \<open>X\<close>.\<close>

function strip_comma_before :: "char \<Rightarrow> string \<Rightarrow> string" where
  "strip_comma_before x [] = []"
| "strip_comma_before x (c # cs) =
     (if c = CHR '','' \<and> (case dropWhile is_js_space cs of [] \<Rightarrow> False | d # ds \<Rightarrow> d = x)
      then x # strip_comma_before x (tl (dropWhile is_js_space cs))
      else c # strip_comma_before x cs)"
  by pat_completeness auto
termination
proof (relation "measure (\<lambda>(x, s). length s)")
  fix x :: char and c :: char and cs :: string
  have "length (tl (dropWhile is_js_space cs)) \<le> length cs"
    using length_dropWhile_le [of is_js_space cs] by simp
  then show "((x, tl (dropWhile is_js_space cs)), (x, c # cs)) \<in> measure (\<lambda>(x, s). length s)"
    by simp
qed simp_all

text \<open>
  A match of \<^verbatim>\<open>/(['"])?([a-zA-Z0-9_]+)(['"])?\s*:/\<close> at the head of the text: the word
  it captures and the text after the colon. Every quantifier is greedy, and no shorter
  choice can reach the colon, so there is one way to match.
\<close>

definition match_key :: "string \<Rightarrow> (string \<times> string) option" where
  "match_key s =
     (let s1 = (case s of [] \<Rightarrow> s | c # cs \<Rightarrow> if is_quote c then cs else s);
          w = takeWhile is_word_char s1;
          s2 = dropWhile is_word_char s1;
          s3 = (case s2 of [] \<Rightarrow> s2 | c # cs \<Rightarrow> if is_quote c then cs else s2);
          s4 = dropWhile is_js_space s3
      in if w \<noteq> [] \<and> s4 \<noteq> [] \<and> hd s4 = CHR '':'' then Some (w, tl s4) else None)"

lemma match_key_shorter:
  assumes "match_key s = Some (w, rest)"
  shows "length rest < length s"
proof -
  define s1 where "s1 = (case s of [] \<Rightarrow> s | c # cs \<Rightarrow> if is_quote c then cs else s)"
  define s2 where "s2 = dropWhile is_word_char s1"
  define s3 where "s3 = (case s2 of [] \<Rightarrow> s2 | c # cs \<Rightarrow> if is_quote c then cs else s2)"
  define s4 where "s4 = dropWhile is_js_space s3"
  have r: "rest = tl s4" and ne: "s4 \<noteq> []"
    using assms unfolding match_key_def Let_def s1_def s2_def s3_def s4_def
    by (auto split: if_splits)
  have "length s1 \<le> length s" unfolding s1_def by (auto split: list.splits)
  moreover have "length s2 \<le> length s1" unfolding s2_def by (rule length_dropWhile_le)
  moreover have "length s3 \<le> length s2" unfolding s3_def by (auto split: list.splits)
  moreover have "length s4 \<le> length s3" unfolding s4_def by (rule length_dropWhile_le)
  moreover have "length (tl s4) < length s4" using ne by (cases s4) simp_all
  ultimately show ?thesis using r by simp
qed

text \<open>The global replacement of each match by \<^verbatim>\<open>"$2":\<close>.\<close>

function quote_keys :: "string \<Rightarrow> string" where
  "quote_keys [] = []"
| "quote_keys (c # cs) =
     (case match_key (c # cs) of
        Some (w, rest) \<Rightarrow> [CHR 0x22] @ w @ [CHR 0x22, CHR '':''] @ quote_keys rest
      | None \<Rightarrow> c # quote_keys cs)"
  by pat_completeness auto
termination
  by (relation "measure length") (auto dest: match_key_shorter)

text \<open>\<^verbatim>\<open>OllamaService._sanitizeJsonString\<close>\<close>

definition sanitizeJsonString :: "string \<Rightarrow> string" where
  "sanitizeJsonString jsonStr =
     quote_keys (strip_comma_before (CHR '']'') (strip_comma_before (CHR ''}'') jsonStr))"


text \<open>The canonical empty result \<^verbatim>\<open>{ tags: [], correspondent: null }\<close>.\<close>

definition empty_document :: json where
  "empty_document = JObj [(''tags'', JArr []), (''correspondent'', JNull)]"

text \<open>The record built from a directly parsed object, and from a repaired one.\<close>

definition parsed_fields :: "json \<Rightarrow> json" where
  "parsed_fields result = JObj
     [(''tags'', array_or_empty (js_get result ''tags'')),
      (''correspondent'', or_null (js_get result ''correspondent'')),
      (''title'', or_null (js_get result ''title'')),
      (''document_date'', or_null (js_get result ''document_date'')),
      (''document_type'', or_null (js_get result ''document_type'')),
      (''language'', or_null (js_get result ''language'')),
      (''custom_fields'', or_null (js_get result ''custom_fields''))]"

definition sanitized_fields :: "json \<Rightarrow> json" where
  "sanitized_fields sanitizedResult = JObj
     [(''tags'', array_or_empty (js_get sanitizedResult ''tags'')),
      (''correspondent'', or_null (js_get sanitizedResult ''correspondent'')),
      (''title'', or_null (js_get sanitizedResult ''title'')),
      (''document_date'', or_null (js_get sanitizedResult ''document_date'')),
      (''language'', or_null (js_get sanitizedResult ''language''))]"

text \<open>
  One \<^verbatim>\<open>try { JSON.parse(...); return {...} } catch\<close>: the catch is entered when the
  parse throws, and also when the parsed value is \<^verbatim>\<open>null\<close>, whose property read throws.
\<close>

definition parse_attempt :: "(string \<Rightarrow> json option) \<Rightarrow> string \<Rightarrow> json option" where
  "parse_attempt parse jsonStr =
     (case parse jsonStr of
        None \<Rightarrow> None
      | Some result \<Rightarrow> if result = JNull then None else Some result)"

text \<open>
  \<^verbatim>\<open>OllamaService._parseResponse\<close>, with \<^verbatim>\<open>JSON.parse\<close> as the parameter \<open>parse\<close>. The
  second component lists the texts handed to \<^verbatim>\<open>JSON.parse\<close>, in order.
\<close>

definition parseResponse :: "(string \<Rightarrow> json option) \<Rightarrow> string \<Rightarrow> json \<times> string list" where
  "parseResponse parse response =
     (case match_json_span response of
        None \<Rightarrow> (empty_document, [])
      | Some jsonStr \<Rightarrow>
          (case parse_attempt parse jsonStr of
             Some result \<Rightarrow> (parsed_fields result, [jsonStr])
           | None \<Rightarrow>
               (let sanitized = sanitizeJsonString jsonStr in
                case parse_attempt parse sanitized of
                  Some sanitizedResult \<Rightarrow> (sanitized_fields sanitizedResult, [jsonStr, sanitized])
                | None \<Rightarrow> (empty_document, [jsonStr, sanitized]))))"

text \<open>
  The spec's words, for comparison: "the first balanced \<^verbatim>\<open>{...}\<close> span". \<open>balanced_end d s\<close>
  reads \<open>s\<close> at nesting depth \<open>d\<close> up to the brace that closes the span.
\<close>

fun balanced_end :: "nat \<Rightarrow> string \<Rightarrow> string option" where
  "balanced_end d [] = None"
| "balanced_end d (c # cs) =
     (if c = CHR ''{'' then map_option ((#) c) (balanced_end (Suc d) cs)
      else if c = CHR ''}'' then
        (if d \<le> 1 then Some [c] else map_option ((#) c) (balanced_end (d - 1) cs))
      else map_option ((#) c) (balanced_end d cs))"

fun spec_first_balanced_span :: "string \<Rightarrow> string option" where
  "spec_first_balanced_span [] = None"
| "spec_first_balanced_span (c # cs) =
     (if c = CHR ''{'' then
        (case balanced_end 1 cs of
           Some t \<Rightarrow> Some (c # t)
         | None \<Rightarrow> spec_first_balanced_span cs)
      else spec_first_balanced_span cs)"

text \<open>
  The input of the spec's example: a fenced block holding an object with bare keys and a
  trailing comma.
\<close>

definition fenced_example :: string where
  \<open>fenced_example = ''```json\<newline>{tags: ["A"], correspondent: "X",}\<newline>```''\<close>

section \<open>The free-text adapter: truncation helpers\<close>

text \<open>
  \<^verbatim>\<open>OllamaService._validateAndTruncateExternalApiData\<close>, the part after the data has been
  serialised: the estimate is a quarter of the length, rounded up, and an oversized text
  is cut to \<open>maxTokens * 4\<close> characters.
\<close>

definition truncateDataString :: "string \<Rightarrow> int \<Rightarrow> string" where
  "truncateDataString dataString maxTokens =
     (let dataTokens = estimateTokens dataString in
      if dataTokens > maxTokens then
        (let maxChars = maxTokens * 4 in substring0 dataString (Finite maxChars))
      else dataString)"

text \<open>
  The whole helper: a falsy value gives \<^verbatim>\<open>null\<close> (here \<open>None\<close>); an object is serialised
  with \<^verbatim>\<open>JSON.stringify(apiData, null, 2)\<close>, passed in as \<open>stringify2\<close>; a text is taken
  as it is.
\<close>

definition ollama_validateAndTruncateExternalApiData ::
  "(json \<Rightarrow> string) \<Rightarrow> api_data option \<Rightarrow> int \<Rightarrow> string option" where
  "ollama_validateAndTruncateExternalApiData stringify2 apiData maxTokens =
     (if \<not> api_truthy apiData then None
      else
        (let dataString = (case the apiData of ApiObject v \<Rightarrow> stringify2 v | ApiText s \<Rightarrow> s)
         in Some (truncateDataString dataString maxTokens)))"

text \<open>
  \<^verbatim>\<open>OllamaService._truncateContent\<close>. The argument \<open>maxLength\<close> is
  \<^verbatim>\<open>process.env.CONTENT_MAX_LENGTH\<close>: \<open>None\<close> when the variable is unset or empty, else
  the integer \<^verbatim>\<open>substring\<close> reads from its text.
\<close>

definition truncateContentTo :: "js_integer option \<Rightarrow> string \<Rightarrow> string" where
  "truncateContentTo maxLength content =
     (case maxLength of
        Some n \<Rightarrow> substring0 content n
      | None \<Rightarrow> content)"

section \<open>Effects\<close>

text \<open>
  What a service does to the outside that the claims speak about: a call of
  \<^verbatim>\<open>truncateToTokenLimit(text, limit, model)\<close>, a chat-completion request (its messages as
  role and content, and \<^verbatim>\<open>max_tokens\<close>), a request to Ollama's \<^verbatim>\<open>/api/generate\<close> (prompt,
  system prompt, \<^verbatim>\<open>num_ctx\<close>, and which schema was sent as \<^verbatim>\<open>format\<close>), a call of the
  active service's \<^verbatim>\<open>generateText(prompt)\<close>.
\<close>

datatype schema = DocumentAnalysisSchema | PlaygroundSchema

datatype event =
    Truncate string js_number "string option"
  | ChatCompletion "(string \<times> string) list" "nat option"
  | OllamaGenerate string string js_number schema
  | GenerateText string

text \<open>
  An asynchronous computation: what it returns or throws, and the events it caused, in
  order. A \<^verbatim>\<open>try\<close>/\<^verbatim>\<open>catch\<close> is \<open>io_catch\<close>; an \<^verbatim>\<open>await\<close> in sequence is \<open>io_bind\<close>.
\<close>

type_synonym 'a io = "(js_error + 'a) \<times> event list"

definition io_return :: "'a \<Rightarrow> 'a io" where
  "io_return x = (Inr x, [])"

definition io_throw :: "js_error \<Rightarrow> 'a io" where
  "io_throw e = (Inl e, [])"

definition io_lift :: "js_error + 'a \<Rightarrow> 'a io" where
  "io_lift r = (r, [])"

definition io_emit :: "event \<Rightarrow> unit io" where
  "io_emit ev = (Inr (), [ev])"

definition io_bind :: "'a io \<Rightarrow> ('a \<Rightarrow> 'b io) \<Rightarrow> 'b io" where
  "io_bind m f =
     (case m of
        (Inl e, l) \<Rightarrow> (Inl e, l)
      | (Inr x, l) \<Rightarrow> (case f x of (r, l') \<Rightarrow> (r, l @ l')))"

definition io_catch :: "'a io \<Rightarrow> (js_error \<Rightarrow> 'a io) \<Rightarrow> 'a io" where
  "io_catch m h =
     (case m of
        (Inl e, l) \<Rightarrow> (case h e of (r, l') \<Rightarrow> (r, l @ l'))
      | (Inr x, l) \<Rightarrow> (Inr x, l))"

fun message :: "js_error \<Rightarrow> string" where
  "message (Error m) = m"

text \<open>
  Three ways to speak about a computation: \<open>returns m P\<close> says that a value it returns
  satisfies \<open>P\<close>; \<open>emits m Q\<close> says that each of its events satisfies \<open>Q\<close>;
  \<open>sends m ev P\<close> says that, if it caused the event \<open>ev\<close>, its outcome satisfies \<open>P\<close>.
\<close>

definition returns :: "'a io \<Rightarrow> ('a \<Rightarrow> bool) \<Rightarrow> bool" where
  "returns m P = (case fst m of Inl e \<Rightarrow> True | Inr x \<Rightarrow> P x)"

definition emits :: "'a io \<Rightarrow> (event \<Rightarrow> bool) \<Rightarrow> bool" where
  "emits m Q = list_all Q (snd m)"

definition sends :: "'a io \<Rightarrow> event \<Rightarrow> (js_error + 'a \<Rightarrow> bool) \<Rightarrow> bool" where
  "sends m ev P = (ev \<in> set (snd m) \<longrightarrow> P (fst m))"

section \<open>Strings\<close>

text \<open>\<^verbatim>\<open>xs.join(sep)\<close> and \<^verbatim>\<open>s.split(d)\<close> for a one-character separator.\<close>

fun js_join :: "string \<Rightarrow> string list \<Rightarrow> string" where
  "js_join sep [] = []"
| "js_join sep [x] = x"
| "js_join sep (x # y # ys) = x @ sep @ js_join sep (y # ys)"

fun split_on :: "char \<Rightarrow> string \<Rightarrow> string list" where
  "split_on d [] = [[]]"
| "split_on d (c # cs) =
     (if c = d then [] # split_on d cs
      else (case split_on d cs of [] \<Rightarrow> [[c]] | x # xs \<Rightarrow> (c # x) # xs))"

text \<open>A string that may be \<^verbatim>\<open>undefined\<close>, as string concatenation renders it.\<close>

fun js_text :: "string option \<Rightarrow> string" where
  "js_text None = ''undefined''"
| "js_text (Some s) = s"

fun string_truthy :: "string option \<Rightarrow> bool" where
  "string_truthy None = False"
| "string_truthy (Some s) = (s \<noteq> [])"

text \<open>The decimal numeral of a natural number.\<close>

function string_of_nat :: "nat \<Rightarrow> string" where
  "string_of_nat n =
     (if n < 10 then [char_of (48 + n)]
      else string_of_nat (n div 10) @ [char_of (48 + n mod 10)])"
  by pat_completeness auto
termination
  by (relation "measure id") auto

declare string_of_nat.simps [simp del]

text \<open>
  \<^verbatim>\<open>s.replace(pattern, replacement)\<close> for a string pattern: the first occurrence is
  replaced, and the replacement text is read for \<^verbatim>\<open>$$\<close>, \<^verbatim>\<open>$&\<close>, the text before and the
  text after the match.
\<close>

fun get_substitution :: "string \<Rightarrow> string \<Rightarrow> string \<Rightarrow> string \<Rightarrow> string" where
  "get_substitution matched pre post (c # d # r) =
     (if c = CHR ''$'' \<and> d = CHR ''$'' then CHR ''$'' # get_substitution matched pre post r
      else if c = CHR ''$'' \<and> d = CHR ''&'' then matched @ get_substitution matched pre post r
      else if c = CHR ''$'' \<and> d = CHR 0x60 then pre @ get_substitution matched pre post r
      else if c = CHR ''$'' \<and> d = CHR 0x27 then post @ get_substitution matched pre post r
      else c # get_substitution matched pre post (d # r))"
| "get_substitution matched pre post r = r"

fun split_at_first :: "string \<Rightarrow> string \<Rightarrow> (string \<times> string) option" where
  "split_at_first pat [] = (if pat = [] then Some ([], []) else None)"
| "split_at_first pat (c # cs) =
     (if take (length pat) (c # cs) = pat then Some ([], drop (length pat) (c # cs))
      else (case split_at_first pat cs of
              None \<Rightarrow> None
            | Some (b, a) \<Rightarrow> Some (c # b, a)))"

definition js_replace :: "string \<Rightarrow> string \<Rightarrow> string \<Rightarrow> string" where
  "js_replace pat replacement s =
     (case split_at_first pat s of
        None \<Rightarrow> s
      | Some (b, a) \<Rightarrow> b @ get_substitution pat b a replacement @ a)"

text \<open>\<^verbatim>\<open>JSON.stringify(s)\<close> for a string \<open>s\<close>.\<close>

definition hex_digit :: "nat \<Rightarrow> char" where
  "hex_digit n = (if n < 10 then char_of (48 + n) else char_of (87 + n))"

fun json_escape :: "string \<Rightarrow> string" where
  "json_escape [] = []"
| "json_escape (c # cs) =
     (if c = CHR 0x22 then [CHR 0x5C, CHR 0x22]
      else if c = CHR 0x5C then [CHR 0x5C, CHR 0x5C]
      else if c = CHR 0x08 then [CHR 0x5C, CHR ''b'']
      else if c = CHR 0x0C then [CHR 0x5C, CHR ''f'']
      else if c = CHR 0x0A then [CHR 0x5C, CHR ''n'']
      else if c = CHR 0x0D then [CHR 0x5C, CHR ''r'']
      else if c = CHR 0x09 then [CHR 0x5C, CHR ''t'']
      else if code c < 32 then
        [CHR 0x5C, CHR ''u'', CHR ''0'', CHR ''0'', hex_digit (code c div 16), hex_digit (code c mod 16)]
      else [c])
     @ json_escape cs"

definition json_quote :: "string \<Rightarrow> string" where
  "json_quote s = [CHR 0x22] @ json_escape s @ [CHR 0x22]"

section \<open>The world around the services\<close>

text \<open>
  An entry of the existing-correspondents or document-types list: a name, or an object
  with an optional \<^verbatim>\<open>name\<close>.
\<close>

datatype entry = EntryText string | EntryObject "string option"

text \<open>
  The fourth argument of \<^verbatim>\<open>processRestrictionsInPrompt\<close>: the structured-output adapter
  passes \<^verbatim>\<open>config\<close> there, the free-text adapter the document types (and \<^verbatim>\<open>config\<close> fifth).
\<close>

datatype fourth_argument = FourthConfig | FourthDocumentTypes "entry list"

record metrics =
  promptTokens :: int
  completionTokens :: int
  totalTokens :: int

text \<open>
  A chat-completion response: \<open>message_content\<close> is
  \<^verbatim>\<open>response?.choices?.[0]?.message?.content\<close> (\<open>None\<close> when a link is missing), \<open>usage\<close> is
  \<^verbatim>\<open>response.usage\<close> with its three counts.
\<close>

record chat_response =
  message_content :: "string option"
  usage :: "metrics option"

text \<open>
  Everything the two adapters read from outside their own code, as one value:
  \<^item> \<^verbatim>\<open>config\<close>: \<open>aiProvider\<close>, \<open>tokenLimit\<close> and \<open>responseTokens\<close> (after \<^verbatim>\<open>Number(...)\<close>,
    so \<^verbatim>\<open>NaN\<close> for a text that is no number),
    \<open>useExistingData\<close>, \<open>restrictToExistingTags\<close>, \<open>restrictToExistingCorrespondents\<close>,
    \<open>mustHavePrompt\<close>, \<open>specialPromptPreDefinedTags\<close>;
  \<^item> \<^verbatim>\<open>process.env\<close>: \<open>SYSTEM_PROMPT\<close>, \<open>USE_PROMPT_TAGS\<close>, \<open>PROMPT_TAGS\<close>, \<open>CUSTOM_FIELDS\<close>,
    \<open>AZURE_DEPLOYMENT_NAME\<close> (\<open>None\<close> when unset), and \<open>CONTENT_MAX_LENGTH\<close> (\<open>None\<close> when
    unset or empty, else the integer \<^verbatim>\<open>substring\<close> reads from it);
  \<^item> the runtime: \<open>JSON_parse\<close> (\<open>None\<close> when it throws) and \<open>JSON_stringify2\<close>, which is
    \<^verbatim>\<open>JSON.stringify(v, null, 2)\<close>;
  \<^item> \<^verbatim>\<open>serviceUtils\<close>: \<open>calculateTokens\<close>, \<open>calculateTotalPromptTokens\<close> (a count is any
    number), \<open>truncateToTokenLimit\<close> (the last argument is the model, \<open>None\<close> when left
    out) and the outcome of \<open>writePromptToFile\<close>;
  \<^item> the thumbnail cache: \<open>fs_access\<close> (does the cached file exist), \<open>getThumbnailImage\<close>
    (\<open>None\<close> for no image), \<open>fs_mkdir\<close>, \<open>fs_writeFile\<close>;
  \<^item> \<open>processRestrictionsInPrompt\<close> of \<^verbatim>\<open>RestrictionPromptService\<close>;
  \<^item> the backends: the outcome of constructing the Azure client, \<open>chat_completions_create\<close>,
    \<open>ollama_generate\<close> (the \<^verbatim>\<open>data\<close> of the response to \<^verbatim>\<open>/api/generate\<close>) and \<open>ollama_ps\<close>
    (status and \<^verbatim>\<open>data\<close> of the response to \<^verbatim>\<open>/api/ps\<close>).
  A collaborator's call returns a value or throws; it is a function of its arguments.
\<close>

record world =
  aiProvider :: string
  tokenLimit :: js_number
  responseTokens :: js_number
  useExistingData :: string
  restrictToExistingTags :: string
  restrictToExistingCorrespondents :: string
  mustHavePrompt :: string
  specialPromptPreDefinedTags :: string
  SYSTEM_PROMPT :: "string option"
  USE_PROMPT_TAGS :: "string option"
  PROMPT_TAGS :: "string option"
  CUSTOM_FIELDS :: "string option"
  AZURE_DEPLOYMENT_NAME :: "string option"
  CONTENT_MAX_LENGTH :: "js_integer option"
  JSON_parse :: "string \<Rightarrow> json option"
  JSON_stringify2 :: "json \<Rightarrow> string"
  calculateTokens :: "string \<Rightarrow> string option \<Rightarrow> js_error + js_number"
  calculateTotalPromptTokens ::
    "string \<Rightarrow> string option list \<Rightarrow> string option \<Rightarrow> js_error + js_number"
  truncateToTokenLimit :: "string \<Rightarrow> js_number \<Rightarrow> string option \<Rightarrow> js_error + string"
  writePromptToFile :: "js_error + unit"
  fs_access :: "nat option \<Rightarrow> bool"
  getThumbnailImage :: "nat option \<Rightarrow> js_error + string option"
  fs_mkdir :: "js_error + unit"
  fs_writeFile :: "nat option \<Rightarrow> string option \<Rightarrow> js_error + unit"
  processRestrictionsInPrompt ::
    "string \<Rightarrow> string list \<Rightarrow> entry list \<Rightarrow> fourth_argument \<Rightarrow> js_error + string"
  newAzureOpenAI :: "js_error + unit"
  chat_completions_create :: "(string \<times> string) list \<Rightarrow> nat option \<Rightarrow> js_error + chat_response"
  ollama_generate :: "string \<Rightarrow> string \<Rightarrow> js_number \<Rightarrow> schema \<Rightarrow> js_error + json option"
  ollama_ps :: "js_error + int \<times> json option"

text \<open>
  The result of an analysis. \<open>None\<close> in \<open>metrics\<close> is \<^verbatim>\<open>null\<close>; \<open>None\<close> in \<open>truncated\<close> and
  \<open>error\<close> is a property the object does not have.
\<close>

record analysis_result =
  document :: json
  metrics :: "metrics option"
  truncated :: "bool option"
  error :: "string option"

text \<open>The object every \<^verbatim>\<open>catch\<close> of the analysis operations returns.\<close>

definition error_result :: "js_error \<Rightarrow> analysis_result" where
  "error_result e =
     \<lparr>document = empty_document, metrics = None, truncated = None, error = Some (message e)\<rparr>"

section \<open>Prompt parts shared by the adapters\<close>

text \<open>
  The custom-fields template, written out four times in the source: \<^verbatim>\<open>CUSTOM_FIELDS\<close> is
  parsed (with \<^verbatim>\<open>{ custom_fields: [] }\<close> when that throws), each field becomes a stub under
  its index, and the object is serialised and indented. Reading \<^verbatim>\<open>custom_fields\<close> of
  \<^verbatim>\<open>null\<close>, calling \<^verbatim>\<open>forEach\<close> on what is not an array, and reading \<^verbatim>\<open>value\<close> of \<^verbatim>\<open>null\<close> throw.
\<close>

definition customFieldsObj :: "world \<Rightarrow> json" where
  "customFieldsObj w =
     (case CUSTOM_FIELDS w of
        None \<Rightarrow> JObj [(''custom_fields'', JArr [])]
      | Some s \<Rightarrow>
          (case JSON_parse w s of
             None \<Rightarrow> JObj [(''custom_fields'', JArr [])]
           | Some v \<Rightarrow> v))"

fun template_entry :: "json \<Rightarrow> js_error + json" where
  "template_entry JNull = Inl (Error ''Cannot read properties of null (reading 'value')'')"
| "template_entry field =
     Inr (JObj ((case js_get field ''value'' of None \<Rightarrow> [] | Some v \<Rightarrow> [(''field_name'', v)])
                @ [(''value'', JStr ''Fill in the value based on your analysis'')]))"

fun template_entries :: "nat \<Rightarrow> json list \<Rightarrow> js_error + (string \<times> json) list" where
  "template_entries i [] = Inr []"
| "template_entries i (field # rest) =
     (case template_entry field of
        Inl e \<Rightarrow> Inl e
      | Inr t \<Rightarrow>
          (case template_entries (Suc i) rest of
             Inl e \<Rightarrow> Inl e
           | Inr ts \<Rightarrow> Inr ((string_of_nat i, t) # ts)))"

definition indent_lines :: "string \<Rightarrow> string" where
  "indent_lines s = js_join [CHR 0x0A] (map (\<lambda>line. ''    '' @ line) (split_on (CHR 0x0A) s))"

definition generateCustomFieldsTemplate :: "world \<Rightarrow> js_error + string" where
  \<open>generateCustomFieldsTemplate w =
     (case customFieldsObj w of
        JNull \<Rightarrow> Inl (Error ''Cannot read properties of null (reading 'custom_fields')'')
      | obj \<Rightarrow>
          (case js_get obj ''custom_fields'' of
             None \<Rightarrow> Inl (Error ''Cannot read properties of undefined (reading 'forEach')'')
           | Some JNull \<Rightarrow> Inl (Error ''Cannot read properties of null (reading 'forEach')'')
           | Some (JArr fieldList) \<Rightarrow>
               (case template_entries 0 fieldList of
                  Inl e \<Rightarrow> Inl e
                | Inr kvs \<Rightarrow>
                    Inr (''"custom_fields": '' @ indent_lines (JSON_stringify2 w (JObj kvs))))
           | Some other \<Rightarrow> Inl (Error ''customFieldsObj.custom_fields.forEach is not a function'')))\<close>

text \<open>The labelled section that carries external data into a system prompt.\<close>

definition additional_context :: "string \<Rightarrow> string" where
  \<open>additional_context validatedExternalApiData =
     ''\<newline>\<newline>Additional context from external API:\<newline>''
       @ validatedExternalApiData\<close>

section \<open>The free-text adapter (\<^verbatim>\<open>OllamaService\<close>)\<close>

definition truncateContent :: "world \<Rightarrow> string \<Rightarrow> string" where
  "truncateContent w content = truncateContentTo (CONTENT_MAX_LENGTH w) content"

text \<open>\<^verbatim>\<open>_handleThumbnailCaching\<close>: an id is a number, falsy when absent or zero.\<close>

fun id_truthy :: "nat option \<Rightarrow> bool" where
  "id_truthy None = False"
| "id_truthy (Some n) = (n \<noteq> 0)"

definition handleThumbnailCaching :: "world \<Rightarrow> nat option \<Rightarrow> unit io" where
  "handleThumbnailCaching w id' =
     (if \<not> id_truthy id' then io_return ()
      else if fs_access w id' then io_return ()
      else
        io_bind (io_lift (getThumbnailImage w id')) (\<lambda>thumbnailData.
          if thumbnailData = None then io_return ()
          else
            io_bind (io_lift (fs_mkdir w)) (\<lambda>_.
              io_lift (fs_writeFile w id' thumbnailData))))"

text \<open>The existing-data block of \<^verbatim>\<open>_buildPrompt\<close> and its list formatting.\<close>

fun entry_truthy :: "entry \<Rightarrow> bool" where
  "entry_truthy (EntryText s) = (s \<noteq> [])"
| "entry_truthy (EntryObject n) = True"

fun entry_name :: "entry \<Rightarrow> string" where
  "entry_name (EntryText s) = s"
| "entry_name (EntryObject None) = []"
| "entry_name (EntryObject (Some n)) = n"

definition ollama_name_list :: "entry list \<Rightarrow> string" where
  "ollama_name_list es =
     js_join '', '' (filter (\<lambda>name. length name > 0) (map entry_name (filter entry_truthy es)))"

definition ollama_existing_data_block :: "string \<Rightarrow> string \<Rightarrow> string \<Rightarrow> string" where
  \<open>ollama_existing_data_block existingTagsList existingCorrespondentList existingDocumentTypesList =
     ''\<newline>            Pre-existing tags: ''
       @ existingTagsList
       @ ''\<newline>\<newline>\<newline>            Pre-existing correspondents: ''
       @ existingCorrespondentList
       @ ''\<newline>\<newline>\<newline>            Pre-existing document types: ''
       @ existingDocumentTypesList
       @ ''\<newline>\<newline>\<newline>            ''\<close>

definition ollama_prompt_tags_block :: string where
  \<open>ollama_prompt_tags_block =
     ''\<newline>''
       @ ''            Take these tags and try to match one or more to the document conte''
       @ ''nt.\<newline>''
       @ ''\<newline>\<newline>            ''\<close>

text \<open>
  \<^verbatim>\<open>_buildPrompt\<close>. The call of the asynchronous \<^verbatim>\<open>_validateAndTruncateExternalApiData\<close> is
  not awaited here, so \<open>validatedExternalApiData\<close> holds the promise.
\<close>

definition ollama_buildPrompt ::
  "world \<Rightarrow> string \<Rightarrow> string list \<Rightarrow> entry list \<Rightarrow> entry list \<Rightarrow> api_data option
     \<Rightarrow> js_error + string" where
  \<open>ollama_buildPrompt w content existingTags existingCorrespondent existingDocumentTypes
       externalApiData =
     (case generateCustomFieldsTemplate w of
        Inl e \<Rightarrow> Inl e
      | Inr customFieldsStr \<Rightarrow>
          (let systemPrompt0 =
                 (if useExistingData w = ''yes'' \<and> restrictToExistingTags w = ''no''
                     \<and> restrictToExistingCorrespondents w = ''no''
                  then
                    ollama_existing_data_block (js_join '', '' existingTags)
                        (ollama_name_list existingCorrespondent)
                        (ollama_name_list existingDocumentTypes)
                      @ js_text (SYSTEM_PROMPT w) @ ''\<newline>\<newline>''
                      @ js_replace ''%CUSTOMFIELDS%'' customFieldsStr (mustHavePrompt w)
                  else
                    js_text (SYSTEM_PROMPT w) @ ''\<newline>\<newline>''
                      @ js_replace ''%CUSTOMFIELDS%'' customFieldsStr (mustHavePrompt w));
               validatedExternalApiData =
                 (if api_truthy externalApiData
                  then Some (Promise (ollama_validateAndTruncateExternalApiData
                                        (JSON_stringify2 w) externalApiData 500))
                  else None)
           in
             case processRestrictionsInPrompt w systemPrompt0 existingTags existingCorrespondent
                    (FourthDocumentTypes existingDocumentTypes) of
               Inl e \<Rightarrow> Inl e
             | Inr systemPrompt1 \<Rightarrow>
                 (let systemPrompt2 =
                        (case validatedExternalApiData of
                           Some p \<Rightarrow> systemPrompt1 @ additional_context (promise_to_string p)
                         | None \<Rightarrow> systemPrompt1);
                      systemPrompt3 =
                        (if USE_PROMPT_TAGS w = Some ''yes''
                         then ollama_prompt_tags_block @ specialPromptPreDefinedTags w
                         else systemPrompt2)
                  in Inr (systemPrompt3 @ ''\<newline>        '' @ json_quote content
                            @ ''\<newline>        ''))))\<close>

definition generateSystemPrompt :: "string \<Rightarrow> string" where
  \<open>generateSystemPrompt customFieldsStr =
     js_replace ''%CUSTOMFIELDS%'' customFieldsStr
      (''\<newline>''
        @ ''            You are a document analyzer. Your task is to analyze documents and''
        @ '' extract relevant information. You do not ask back questions. \<newline>''
        @ ''            YOU MUSTNOT: Ask for additional information or clarification, or a''
        @ ''sk questions about the document, or ask for additional context.\<newline>''
        @ ''            YOU MUSTNOT: Return a response without the desired JSON format.''
        @ ''\<newline>''
        @ ''            YOU MUST: Return the result EXCLUSIVELY as a JSON object. The Tags''
        @ '', Title and Document_Type MUST be in the language that is used in the document''
        @ ''.:\<newline>''
        @ ''            IMPORTANT: The custom_fields are optional and can be left out if n''
        @ ''ot needed, only try to fill out the values if you find a matching information ''
        @ ''in the document.\<newline>''
        @ ''            Do not change the value of field_name, only fill out the values. I''
        @ ''f the field is about money only add the number without currency and always use''
        @ '' a . for decimal places.\<newline>''
        @ ''            {\<newline>''
        @ ''                "title": "xxxxx",\<newline>''
        @ ''                "correspondent": "xxxxxxxx",\<newline>''
        @ ''                "tags": ["Tag1", "Tag2", "Tag3", "Tag4"],\<newline>''
        @ ''                "document_type": "Invoice/Contract/...",\<newline>''
        @ ''                "document_date": "YYYY-MM-DD",\<newline>''
        @ ''                "language": "en/de/es/...",\<newline>''
        @ ''                %CUSTOMFIELDS%\<newline>''
        @ ''            }\<newline>''
        @ ''            ALWAYS USE THE INFORMATION TO FILL OUT THE JSON OBJECT. DO NOT ASK''
        @ '' BACK QUESTIONS.\<newline>''
        @ ''        '')\<close>

definition generatePlaygroundSystemPrompt :: string where
  \<open>generatePlaygroundSystemPrompt =
     ''\<newline>''
       @ ''            You are a document analyzer. Your task is to analyze documents and''
       @ '' extract relevant information. You do not ask back questions. \<newline>''
       @ ''            YOU MUSTNOT: Ask for additional information or clarification, or a''
       @ ''sk questions about the document, or ask for additional context.\<newline>''
       @ ''            YOU MUSTNOT: Return a response without the desired JSON format.''
       @ ''\<newline>''
       @ ''            YOU MUST: Analyze the document content and extract the following i''
       @ ''nformation into this structured JSON format and only this format!:         {''
       @ ''\<newline>''
       @ ''            "title": "xxxxx",\<newline>''
       @ ''            "correspondent": "xxxxxxxx",\<newline>''
       @ ''            "tags": ["Tag1", "Tag2", "Tag3", "Tag4"],\<newline>''
       @ ''            "document_type": "Invoice/Contract/...",\<newline>''
       @ ''            "document_date": "YYYY-MM-DD",\<newline>''
       @ ''            "language": "en/de/es/..."\<newline>''
       @ ''            }\<newline>''
       @ ''            ALWAYS USE THE INFORMATION TO FILL OUT THE JSON OBJECT. DO NOT ASK''
       @ '' BACK QUESTIONS.\<newline>''
       @ ''        ''\<close>

definition calculatePromptTokenCount :: "string \<Rightarrow> js_number" where
  "calculatePromptTokenCount prompt = Num (of_int (estimateTokens prompt))"

definition calculateNumCtx :: "world \<Rightarrow> js_number \<Rightarrow> js_number \<Rightarrow> js_number" where
  "calculateNumCtx w promptTokenCount expectedResponseTokens =
     (let totalTokenUsage = js_add promptTokenCount expectedResponseTokens;
          maxCtxLimit = tokenLimit w
      in js_min totalTokenUsage maxCtxLimit)"

definition callOllamaAPI :: "world \<Rightarrow> string \<Rightarrow> string \<Rightarrow> js_number \<Rightarrow> schema \<Rightarrow> json io" where
  "callOllamaAPI w prompt systemPrompt numCtx schema' =
     io_bind (io_emit (OllamaGenerate prompt systemPrompt numCtx schema')) (\<lambda>_.
     io_bind (io_lift (ollama_generate w prompt systemPrompt numCtx schema')) (\<lambda>data.
       if \<not> js_truthy data then io_throw (Error ''Invalid response from Ollama API'')
       else io_return (the data)))"

text \<open>
  \<^verbatim>\<open>_processOllamaResponse\<close>. An object or array in \<^verbatim>\<open>response\<close> is read field by field; any
  other truthy value goes to \<^verbatim>\<open>_parseResponse\<close>, where a value that is not a string has no
  \<^verbatim>\<open>match\<close> and ends in the outer \<^verbatim>\<open>catch\<close>.
\<close>

fun is_object :: "json \<Rightarrow> bool" where
  "is_object (JObj kvs) = True"
| "is_object (JArr xs) = True"
| "is_object v = False"

definition processOllamaResponse :: "world \<Rightarrow> json \<Rightarrow> js_error + json" where
  "processOllamaResponse w responseData =
     (let response = js_get responseData ''response'' in
      if js_truthy response \<and> is_object (the response) then Inr (parsed_fields (the response))
      else if js_truthy response then
        Inr (case the response of
               JStr text \<Rightarrow> fst (parseResponse (JSON_parse w) text)
             | other \<Rightarrow> empty_document)
      else Inl (Error ''No response data from Ollama API''))"

definition zero_metrics :: metrics where
  "zero_metrics = \<lparr>promptTokens = 0, completionTokens = 0, totalTokens = 0\<rparr>"

text \<open>
  \<^verbatim>\<open>OllamaService.analyzeDocument\<close>. The awaited validation of the external data only
  feeds a log line; the prompt is built from \<open>externalApiData\<close> itself.
\<close>

definition ollama_analyzeDocument ::
  "world \<Rightarrow> string \<Rightarrow> string list \<Rightarrow> entry list \<Rightarrow> entry list \<Rightarrow> nat option \<Rightarrow> string option
     \<Rightarrow> api_data option \<Rightarrow> analysis_result io" where
  \<open>ollama_analyzeDocument w content0 existingTags existingCorrespondentList existingDocumentTypesList
       id' customPrompt externalApiData =
     io_catch
       (let content = truncateContent w content0 in
        io_bind (handleThumbnailCaching w id') (\<lambda>_.
        io_bind
          (if \<not> string_truthy customPrompt then
             io_lift (ollama_buildPrompt w content existingTags existingCorrespondentList
                        existingDocumentTypesList externalApiData)
           else
             io_bind (io_lift (generateCustomFieldsTemplate w)) (\<lambda>customFieldsStr.
               io_return (the customPrompt @ ''\<newline>\<newline>''
                  @ js_replace ''%CUSTOMFIELDS%'' customFieldsStr (mustHavePrompt w)
                  @ ''\<newline>\<newline>'' @ json_quote content)))
          (\<lambda>prompt.
        io_bind (io_lift (generateCustomFieldsTemplate w)) (\<lambda>customFieldsStr.
        let systemPrompt = generateSystemPrompt customFieldsStr;
            promptTokenCount = calculatePromptTokenCount prompt;
            numCtx = calculateNumCtx w promptTokenCount (Num 1024)
        in
        io_bind (callOllamaAPI w prompt systemPrompt numCtx DocumentAnalysisSchema) (\<lambda>response.
        io_bind (io_lift (processOllamaResponse w response)) (\<lambda>parsedResponse.
        io_bind (io_lift (writePromptToFile w)) (\<lambda>_.
        io_return
          \<lparr>document = parsedResponse, metrics = Some zero_metrics, truncated = Some False,
           error = None\<rparr>)))))))
       (\<lambda>e. io_return (error_result e))\<close>

text \<open>\<^verbatim>\<open>OllamaService.analyzePlayground\<close>\<close>

definition ollama_analyzePlayground :: "world \<Rightarrow> string \<Rightarrow> string \<Rightarrow> analysis_result io" where
  \<open>ollama_analyzePlayground w content prompt =
     io_catch
       (io_bind (io_lift (calculateTokens w prompt None)) (\<lambda>promptTokenCount.
        let numCtx = calculateNumCtx w promptTokenCount (Num 1024);
            systemPrompt = generatePlaygroundSystemPrompt
        in
        io_bind (callOllamaAPI w (prompt @ ''\<newline>\<newline>'' @ json_quote content) systemPrompt numCtx
                   PlaygroundSchema) (\<lambda>response.
        io_bind (io_lift (processOllamaResponse w response)) (\<lambda>parsedResponse.
        io_return
          \<lparr>document = parsedResponse, metrics = Some zero_metrics, truncated = Some False,
           error = None\<rparr>))))
       (\<lambda>e. io_return (error_result e))\<close>

text \<open>
  The result of a status probe: \<open>None\<close> in \<open>status_model\<close> and \<open>status_error\<close> is a
  property the object does not have (or has as \<^verbatim>\<open>undefined\<close>).
\<close>

record status_result =
  status :: string
  status_model :: "json option"
  status_error :: "string option"

text \<open>
  \<^verbatim>\<open>OllamaService.checkStatus\<close>. Reading \<^verbatim>\<open>models\<close> of a missing body and \<^verbatim>\<open>name\<close> of a
  \<^verbatim>\<open>null\<close> first model throw inside the \<^verbatim>\<open>try\<close>; the \<^verbatim>\<open>catch\<close> only logs.
\<close>

definition ollama_models_name :: "json option \<Rightarrow> js_error + json option" where
  \<open>ollama_models_name data =
     (if data = None \<or> data = Some JNull then
        Inl (Error ''Cannot read properties of undefined (reading 'models')'')
      else
        (case js_get (the data) ''models'' of
           Some (JArr (first # others)) \<Rightarrow>
             (if first = JNull then Inl (Error ''Cannot read properties of null (reading 'name')'')
              else Inr (js_get first ''name''))
         | other \<Rightarrow> Inr (Some JNull)))\<close>

definition ollama_checkStatus :: "world \<Rightarrow> status_result io" where
  "ollama_checkStatus w =
     io_bind
       (io_catch
          (io_bind (io_lift (ollama_ps w)) (\<lambda>(response_status, data).
             if response_status = 200 then
               io_bind (io_lift (ollama_models_name data)) (\<lambda>modelName.
                 io_return (Some \<lparr>status = ''ok'', status_model = modelName, status_error = None\<rparr>))
             else io_return None))
          (\<lambda>e. io_return None))
       (\<lambda>returned.
          case returned of
            Some r \<Rightarrow> io_return r
          | None \<Rightarrow> io_return \<lparr>status = ''error'', status_model = None, status_error = None\<rparr>)"

section \<open>The structured-output adapter (\<^verbatim>\<open>AzureOpenAIService\<close>)\<close>

text \<open>
  \<^verbatim>\<open>initialize\<close>: \<open>client\<close> says whether \<^verbatim>\<open>this.client\<close> is set; the result is its new value.
\<close>

definition azure_initialize :: "world \<Rightarrow> bool \<Rightarrow> js_error + bool" where
  "azure_initialize w client =
     (if \<not> client \<and> aiProvider w = ''azure'' then
        (case newAzureOpenAI w of Inl e \<Rightarrow> Inl e | Inr u \<Rightarrow> Inr True)
      else Inr client)"

text \<open>A call of \<^verbatim>\<open>truncateToTokenLimit\<close>, recorded as an event.\<close>

definition truncateToTokenLimit_call ::
  "world \<Rightarrow> string \<Rightarrow> js_number \<Rightarrow> string option \<Rightarrow> string io" where
  "truncateToTokenLimit_call w text' limit model =
     io_bind (io_emit (Truncate text' limit model)) (\<lambda>_.
       io_lift (truncateToTokenLimit w text' limit model))"

text \<open>\<^verbatim>\<open>AzureOpenAIService._validateAndTruncateExternalApiData\<close>\<close>

definition azure_validateAndTruncateExternalApiData ::
  "world \<Rightarrow> api_data option \<Rightarrow> js_number \<Rightarrow> string option io" where
  "azure_validateAndTruncateExternalApiData w apiData maxTokens =
     (if \<not> api_truthy apiData then io_return None
      else
        (let dataString =
               (case the apiData of ApiObject v \<Rightarrow> JSON_stringify2 w v | ApiText s \<Rightarrow> s)
         in
           io_bind (io_lift (calculateTokens w dataString (AZURE_DEPLOYMENT_NAME w))) (\<lambda>dataTokens.
             if js_less maxTokens dataTokens then
               io_bind (truncateToTokenLimit_call w dataString maxTokens (AZURE_DEPLOYMENT_NAME w))
                 (\<lambda>truncatedData. io_return (Some truncatedData))
             else io_return (Some dataString))))"

text \<open>The thumbnail cache step of \<^verbatim>\<open>analyzeDocument\<close>: no early return for a missing image.\<close>

definition azure_thumbnail :: "world \<Rightarrow> nat option \<Rightarrow> unit io" where
  "azure_thumbnail w id' =
     (if fs_access w id' then io_return ()
      else
        io_bind (io_lift (getThumbnailImage w id')) (\<lambda>thumbnailData.
        io_bind (io_lift (fs_mkdir w)) (\<lambda>_.
          io_lift (fs_writeFile w id' thumbnailData))))"

text \<open>An entry as a template literal or \<^verbatim>\<open>join\<close> renders it.\<close>

fun entry_to_string :: "entry \<Rightarrow> string" where
  "entry_to_string (EntryText s) = s"
| "entry_to_string (EntryObject n) = ''[object Object]''"

definition azure_existing_data_block :: "string \<Rightarrow> string \<Rightarrow> string \<Rightarrow> string" where
  \<open>azure_existing_data_block existingTagsList existingCorrespondentList existingDocumentTypesList =
     ''\<newline>        Pre-existing tags: ''
       @ existingTagsList
       @ ''\<newline>\<newline>\<newline>        Pre-existing correspondents: ''
       @ existingCorrespondentList
       @ ''\<newline>\<newline>\<newline>        Pre-existing document types: ''
       @ existingDocumentTypesList
       @ ''\<newline>\<newline>\<newline>        ''\<close>

definition azure_prompt_tags_block :: string where
  \<open>azure_prompt_tags_block =
     ''\<newline>''
       @ ''        Take these tags and try to match one or more to the document content.''
       @ ''\<newline>''
       @ ''\<newline>\<newline>        ''\<close>

text \<open>
  Lines 59 to 142 of \<^verbatim>\<open>analyzeDocument\<close>: the external data is validated (a failure there
  is caught and drops the data), the system prompt is assembled, and the prompt tags are
  chosen. The assignment to \<^verbatim>\<open>config.mustHavePrompt\<close> in the second branch is read
  again by the custom-prompt replacement. The result is the system prompt, the list
  \<^verbatim>\<open>[promptTags]\<close> or \<^verbatim>\<open>[]\<close> handed to the token count, and the validated data.
\<close>

definition azure_assemblePrompt ::
  "world \<Rightarrow> string list \<Rightarrow> entry list \<Rightarrow> entry list \<Rightarrow> string option \<Rightarrow> api_data option
     \<Rightarrow> (string \<times> string option list \<times> string option) io" where
  \<open>azure_assemblePrompt w existingTags existingCorrespondentList existingDocumentTypesList
       customPrompt externalApiData =
     io_bind
       (if api_truthy externalApiData then
          io_catch (azure_validateAndTruncateExternalApiData w externalApiData (Num 500))
            (\<lambda>e. io_return None)
        else io_return None)
       (\<lambda>validatedExternalApiData.
     io_bind (io_lift (generateCustomFieldsTemplate w)) (\<lambda>customFieldsStr.
     let existing = (useExistingData w = ''yes'' \<and> restrictToExistingTags w = ''no''
                       \<and> restrictToExistingCorrespondents w = ''no'');
         mustHavePrompt1 =
           (if existing then mustHavePrompt w
            else js_replace ''%CUSTOMFIELDS%'' customFieldsStr (mustHavePrompt w));
         systemPrompt0 =
           (if existing then
              azure_existing_data_block (js_join '', '' existingTags)
                  (js_join '','' (map entry_to_string existingCorrespondentList))
                  (js_join '', '' (map entry_to_string existingDocumentTypesList))
                @ js_text (SYSTEM_PROMPT w) @ ''\<newline>\<newline>''
                @ js_replace ''%CUSTOMFIELDS%'' customFieldsStr (mustHavePrompt w)
            else js_text (SYSTEM_PROMPT w) @ ''\<newline>\<newline>'' @ mustHavePrompt1)
     in
     io_bind (io_lift (processRestrictionsInPrompt w systemPrompt0 existingTags
                         existingCorrespondentList FourthConfig)) (\<lambda>systemPrompt1.
     let systemPrompt2 =
           (if string_truthy validatedExternalApiData
            then systemPrompt1 @ additional_context (the validatedExternalApiData)
            else systemPrompt1);
         systemPrompt3 =
           (if USE_PROMPT_TAGS w = Some ''yes''
            then azure_prompt_tags_block @ specialPromptPreDefinedTags w
            else systemPrompt2);
         systemPrompt =
           (if string_truthy customPrompt
            then the customPrompt @ ''\<newline>\<newline>'' @ mustHavePrompt1
            else systemPrompt3)
     in
     io_return
       (systemPrompt, (if USE_PROMPT_TAGS w = Some ''yes'' then [PROMPT_TAGS w] else []),
        validatedExternalApiData))))\<close>

text \<open>
  \<^verbatim>\<open>jsonContent.replace(/```json\n?/g, '').replace(/```\n?/g, '').trim()\<close>: every occurrence
  of a fence marker goes, with one line feed after it when there is one.
\<close>

definition skip_newline :: "string \<Rightarrow> string" where
  "skip_newline s = (case s of [] \<Rightarrow> [] | c # cs \<Rightarrow> if c = CHR 0x0A then cs else s)"

lemma length_skip_newline: "length (skip_newline s) \<le> length s"
  by (cases s) (simp_all add: skip_newline_def)

function remove_fences :: "string \<Rightarrow> string \<Rightarrow> string" where
  "remove_fences pat [] = []"
| "remove_fences pat (c # cs) =
     (if pat \<noteq> [] \<and> take (length pat) (c # cs) = pat
      then remove_fences pat (skip_newline (drop (length pat) (c # cs)))
      else c # remove_fences pat cs)"
  by pat_completeness auto
termination
proof (relation "measure (\<lambda>(pat, s). length s)")
  fix pat :: string and c :: char and cs :: string
  assume "pat \<noteq> [] \<and> take (length pat) (c # cs) = pat"
  then have "length (drop (length pat) (c # cs)) < length (c # cs)" by (cases pat) simp_all
  then have "length (skip_newline (drop (length pat) (c # cs))) < length (c # cs)"
    using length_skip_newline [of "drop (length pat) (c # cs)"] by linarith
  then show "((pat, skip_newline (drop (length pat) (c # cs))), (pat, c # cs))
               \<in> measure (\<lambda>(pat, s). length s)"
    by simp
qed simp_all

definition js_trim :: "string \<Rightarrow> string" where
  "js_trim s = rev (dropWhile is_js_space (rev (dropWhile is_js_space s)))"

definition strip_code_fences :: "string \<Rightarrow> string" where
  \<open>strip_code_fences jsonContent = js_trim (remove_fences ''```'' (remove_fences ''```json'' jsonContent))\<close>

text \<open>
  What both analysis operations do with the response: check its content, read the usage
  (reading \<^verbatim>\<open>total_tokens\<close> of a missing \<^verbatim>\<open>usage\<close> throws), strip the fences, parse, and
  check for a \<^verbatim>\<open>tags\<close> array and a \<^verbatim>\<open>correspondent\<close> string. The unawaited
  \<^verbatim>\<open>fs.appendFile\<close> of \<^verbatim>\<open>analyzeDocument\<close> cannot throw into the \<^verbatim>\<open>try\<close> and is left out.
\<close>

fun is_array :: "json option \<Rightarrow> bool" where
  "is_array (Some (JArr xs)) = True"
| "is_array v = False"

fun is_string :: "json option \<Rightarrow> bool" where
  "is_string (Some (JStr s)) = True"
| "is_string v = False"

definition azure_readResponse :: "world \<Rightarrow> chat_response \<Rightarrow> js_error + json \<times> metrics" where
  \<open>azure_readResponse w response =
     (if \<not> string_truthy (message_content response) then
        Inl (Error ''Invalid API response structure'')
      else
        (case usage response of
           None \<Rightarrow> Inl (Error ''Cannot read properties of undefined (reading 'total_tokens')'')
         | Some mappedUsage \<Rightarrow>
             (let jsonContent = strip_code_fences (the (message_content response)) in
              case JSON_parse w jsonContent of
                None \<Rightarrow> Inl (Error ''Invalid JSON response from API'')
              | Some parsedResponse \<Rightarrow>
                  if \<not> js_truthy (Some parsedResponse)
                     \<or> \<not> is_array (js_get parsedResponse ''tags'')
                     \<or> \<not> is_string (js_get parsedResponse ''correspondent'')
                  then Inl (Error
                    ''Invalid response structure: missing tags array or correspondent string'')
                  else Inr (parsedResponse, mappedUsage))))\<close>

definition chat_create :: "world \<Rightarrow> (string \<times> string) list \<Rightarrow> nat option \<Rightarrow> chat_response io" where
  "chat_create w messages max_tokens =
     io_bind (io_emit (ChatCompletion messages max_tokens)) (\<lambda>_.
       io_lift (chat_completions_create w messages max_tokens))"

text \<open>
  \<^verbatim>\<open>AzureOpenAIService.analyzeDocument\<close>; \<open>client\<close> says whether \<^verbatim>\<open>this.client\<close> was set
  before the call.
\<close>

definition azure_analyzeDocument ::
  "world \<Rightarrow> bool \<Rightarrow> string \<Rightarrow> string list \<Rightarrow> entry list \<Rightarrow> entry list \<Rightarrow> nat option
     \<Rightarrow> string option \<Rightarrow> api_data option \<Rightarrow> analysis_result io" where
  \<open>azure_analyzeDocument w client content existingTags existingCorrespondentList
       existingDocumentTypesList id' customPrompt externalApiData =
     io_catch
       (io_bind (io_lift (azure_initialize w client)) (\<lambda>client1.
        if \<not> client1 then io_throw (Error ''AzureOpenAI client not initialized'')
        else
        io_bind (azure_thumbnail w id') (\<lambda>_.
        io_bind (azure_assemblePrompt w existingTags existingCorrespondentList
                   existingDocumentTypesList customPrompt externalApiData)
          (\<lambda>(systemPrompt, promptTags, validatedExternalApiData).
        let model = AZURE_DEPLOYMENT_NAME w in
        io_bind (io_lift (calculateTotalPromptTokens w systemPrompt promptTags model))
          (\<lambda>totalPromptTokens.
        let maxTokens = tokenLimit w;
            reservedTokens = js_add totalPromptTokens (responseTokens w);
            availableTokens = js_sub maxTokens reservedTokens
        in
        if js_le availableTokens (Num 0) then
          io_throw (Error ''Token limit exceeded: prompt too large for available token limit'')
        else
        io_bind (truncateToTokenLimit_call w content availableTokens model) (\<lambda>truncatedContent.
        io_bind (io_lift (writePromptToFile w)) (\<lambda>_.
        io_bind (chat_create w [(''system'', systemPrompt), (''user'', truncatedContent)] None)
          (\<lambda>response.
        io_bind (io_lift (azure_readResponse w response)) (\<lambda>(parsedResponse, mappedUsage).
        io_return
          \<lparr>document = parsedResponse, metrics = Some mappedUsage,
           truncated = Some (length truncatedContent < length content), error = None\<rparr>)))))))))
       (\<lambda>e. io_return (error_result e))\<close>

definition musthavePrompt :: string where
  \<open>musthavePrompt =
     ''\<newline>''
       @ ''    Return the result EXCLUSIVELY as a JSON object. The Tags and Title MUST be''
       @ '' in the language that is used in the document.:  \<newline>''
       @ ''        {\<newline>''
       @ ''          "title": "xxxxx",\<newline>''
       @ ''          "correspondent": "xxxxxxxx",\<newline>''
       @ ''          "tags": ["Tag1", "Tag2", "Tag3", "Tag4"],\<newline>''
       @ ''          "document_date": "YYYY-MM-DD",\<newline>''
       @ ''          "language": "en/de/es/..."\<newline>''
       @ ''        }''\<close>

text \<open>
  \<^verbatim>\<open>AzureOpenAIService.analyzePlayground\<close>: the token count and the truncation are called
  without a model, and nothing looks at the sign of \<open>availableTokens\<close>.
\<close>

definition azure_analyzePlayground :: "world \<Rightarrow> bool \<Rightarrow> string \<Rightarrow> string \<Rightarrow> analysis_result io" where
  \<open>azure_analyzePlayground w client content prompt =
     io_catch
       (io_bind (io_lift (azure_initialize w client)) (\<lambda>client1.
        if \<not> client1 then
          io_throw (Error ''AzureOpenAI client not initialized - missing API key'')
        else
        io_bind (io_lift (calculateTotalPromptTokens w (prompt @ musthavePrompt) [] None))
          (\<lambda>totalPromptTokens.
        let maxTokens = tokenLimit w;
            reservedTokens = js_add totalPromptTokens (responseTokens w);
            availableTokens = js_sub maxTokens reservedTokens
        in
        io_bind (truncateToTokenLimit_call w content availableTokens None) (\<lambda>truncatedContent.
        io_bind (chat_create w [(''system'', prompt @ musthavePrompt), (''user'', truncatedContent)]
                   None) (\<lambda>response.
        io_bind (io_lift (azure_readResponse w response)) (\<lambda>(parsedResponse, mappedUsage).
        io_return
          \<lparr>document = parsedResponse, metrics = Some mappedUsage,
           truncated = Some (length truncatedContent < length content), error = None\<rparr>))))))
       (\<lambda>e. io_return (error_result e))\<close>

text \<open>
  \<^verbatim>\<open>AzureOpenAIService.checkStatus\<close> is defined twice in the class body; the second
  definition replaces the first. Both are given, the effective one under the plain name.
\<close>

definition azure_checkStatus_shadowed :: "world \<Rightarrow> bool \<Rightarrow> status_result io" where
  \<open>azure_checkStatus_shadowed w client =
     io_catch
       (io_bind (io_lift (azure_initialize w client)) (\<lambda>client1.
        if \<not> client1 then
          io_throw (Error ''AzureOpenAI client not initialized - missing API key'')
        else
        io_bind (chat_create w [(''user'', ''Test'')] (Some 10)) (\<lambda>response.
        if \<not> string_truthy (message_content response) then
          io_throw (Error ''Invalid API response structure'')
        else
          io_return
            \<lparr>status = ''ok'', status_model = map_option JStr (AZURE_DEPLOYMENT_NAME w),
             status_error = None\<rparr>)))
       (\<lambda>e. io_return
          \<lparr>status = ''error'', status_model = None, status_error = Some (message e)\<rparr>)\<close>

definition azure_checkStatus :: "world \<Rightarrow> bool \<Rightarrow> status_result io" where
  \<open>azure_checkStatus w client =
     io_catch
       (io_bind (io_lift (azure_initialize w client)) (\<lambda>client1.
        if \<not> client1 then
          io_throw (Error ''Azure OpenAI client not initialized - missing API key'')
        else
        io_bind (chat_create w [(''user'', ''Ping'')] (Some 1000)) (\<lambda>response.
        if \<not> string_truthy (message_content response) then
          io_return \<lparr>status = ''error'', status_model = None, status_error = None\<rparr>
        else
          io_return
            \<lparr>status = ''ok'', status_model = map_option JStr (AZURE_DEPLOYMENT_NAME w),
             status_error = None\<rparr>)))
       (\<lambda>e. io_return \<lparr>status = ''error'', status_model = None, status_error = None\<rparr>)\<close>

section \<open>Question answering (\<^verbatim>\<open>RagService.askQuestion\<close>)\<close>

text \<open>
  A property that is printed into the prompt: missing, \<^verbatim>\<open>null\<close>, a text, or a number (the
  repository gives a correspondent by its id). \<open>field_or a b\<close> is \<^verbatim>\<open>a || b\<close>, and
  \<open>field_text\<close> is the rendering in a template literal.
\<close>

datatype js_field = Undefined | Null | Text string | Number nat

fun field_truthy :: "js_field \<Rightarrow> bool" where
  "field_truthy Undefined = False"
| "field_truthy Null = False"
| "field_truthy (Text s) = (s \<noteq> [])"
| "field_truthy (Number n) = (n \<noteq> 0)"

definition field_or :: "js_field \<Rightarrow> js_field \<Rightarrow> js_field" where
  "field_or a b = (if field_truthy a then a else b)"

fun field_text :: "js_field \<Rightarrow> string" where
  "field_text Undefined = ''undefined''"
| "field_text Null = ''null''"
| "field_text (Text s) = s"
| "field_text (Number n) = string_of_nat n"

text \<open>
  A source as the retrieval service returns it, a document as the repository returns it
  (\<open>doc_tags\<close> is \<open>None\<close> when \<^verbatim>\<open>tags\<close> is missing or not an array; a title or a content is
  \<open>None\<close> when the property is missing or \<^verbatim>\<open>null\<close>, which the code does not tell apart),
  a tag of the tag cache, and the record built for a reference document. The \<^verbatim>\<open>sources\<close> of a response, when present, are taken to be an
  array of objects, and a \<^verbatim>\<open>doc_id\<close> to be a number.
\<close>

record source =
  doc_id :: "nat option"
  title :: "string option"

record paperless_document =
  doc_tags :: "nat list option"
  doc_title :: "string option"
  created_date :: js_field
  created :: js_field
  correspondent_name :: js_field
  correspondent :: js_field
  doc_content :: "string option"

record tag =
  tag_id :: nat
  tag_name :: "string option"

record reference_document =
  ref_id :: nat
  ref_title :: string
  ref_created :: js_field
  ref_correspondent :: js_field
  ref_tags :: "string list"
  ref_content :: string

record rag_answer =
  answer :: string
  sources :: "source list option"

text \<open>
  The collaborators of one call:
  \<^item> \<open>post_context\<close>: the \<^verbatim>\<open>/context\<close> request with \<^verbatim>\<open>max_sources: 5\<close>; its \<^verbatim>\<open>context\<close> and
    \<^verbatim>\<open>sources\<close> (\<open>None\<close> when missing), or the error of the request or of reading its body;
  \<^item> \<open>ensureTagCache\<close>: the outcome of \<^verbatim>\<open>paperlessService.ensureTagCache()\<close> and the values
    of \<^verbatim>\<open>tagCache\<close> after it, in insertion order;
  \<^item> \<open>getDocument\<close>, \<open>getDocumentContent\<close> of \<^verbatim>\<open>paperlessService\<close>;
  \<^item> \<open>getService\<close>: the outcome of \<^verbatim>\<open>AIServiceFactory.getService()\<close>;
  \<^item> \<open>generateText\<close> of the service it returns.
\<close>

record rag_world =
  post_context :: "string \<Rightarrow> js_error + string \<times> source list option"
  ensureTagCache :: "js_error + tag list"
  getDocument :: "nat \<Rightarrow> js_error + paperless_document"
  getDocumentContent :: "nat \<Rightarrow> js_error + string"
  getService :: "js_error + unit"
  generateText :: "string \<Rightarrow> js_error + string"

text \<open>The literal tag that marks a reference document.\<close>

definition reference_tag :: string where
  \<open>reference_tag = ''Refer''
       @ [CHR 0xEA]
       @ ''ncia''\<close>

text \<open>\<^verbatim>\<open>a || b\<close> on texts that may be missing.\<close>

definition or_else :: "string option \<Rightarrow> string option \<Rightarrow> string option" where
  "or_else a b = (if string_truthy a then a else b)"

text \<open>\<^verbatim>\<open>source.title || 'Document ' + source.doc_id\<close>\<close>

definition source_label :: "source \<Rightarrow> string" where
  "source_label s =
     (if string_truthy (title s) then the (title s)
      else ''Document '' @ (case doc_id s of None \<Rightarrow> ''undefined'' | Some n \<Rightarrow> string_of_nat n))"

text \<open>The tag names of a document: each id is looked up in the cache, misses and empty names go.\<close>

definition resolve_tag :: "tag list \<Rightarrow> nat \<Rightarrow> string option" where
  "resolve_tag cache tagId =
     (case find (\<lambda>t. tag_id t = tagId) cache of
        None \<Rightarrow> None
      | Some t \<Rightarrow> tag_name t)"

definition resolve_tag_names :: "tag list \<Rightarrow> nat list \<Rightarrow> string list" where
  "resolve_tag_names cache tagIds = map the (filter string_truthy (map (resolve_tag cache) tagIds))"

text \<open>The state the metadata loop updates.\<close>

record enrichment =
  hasReferenceTag :: bool
  sourceInfo :: string
  referenceDocuments :: "reference_document list"

definition make_reference_document ::
  "source \<Rightarrow> paperless_document \<Rightarrow> string list \<Rightarrow> reference_document" where
  \<open>make_reference_document s document' tagNames =
     \<lparr>ref_id = the (doc_id s),
      ref_title = the (or_else (or_else (doc_title document') (title s)) (Some ''Unknown Title'')),
      ref_created = field_or (created_date document') (created document'),
      ref_correspondent = field_or (correspondent_name document') (correspondent document'),
      ref_tags = tagNames,
      ref_content =
        (if string_truthy (doc_content document')
         then substring0 (the (doc_content document')) (Finite 500) @ ''...''
         else [])\<rparr>\<close>

text \<open>One turn of the loop over the sources; a failed \<^verbatim>\<open>getDocument\<close> is caught and logged.\<close>

definition enrich_source :: "rag_world \<Rightarrow> tag list \<Rightarrow> enrichment \<Rightarrow> source \<Rightarrow> enrichment" where
  \<open>enrich_source w cache acc s =
     (if \<not> id_truthy (doc_id s) then acc
      else
        (case getDocument w (the (doc_id s)) of
           Inl e \<Rightarrow> acc
         | Inr document' \<Rightarrow>
             (case doc_tags document' of
                None \<Rightarrow> acc
              | Some tagIds \<Rightarrow>
                  (let tagNames = resolve_tag_names cache tagIds;
                       acc1 =
                         (if reference_tag \<in> set tagNames then
                            acc\<lparr>hasReferenceTag := True,
                                referenceDocuments :=
                                  referenceDocuments acc @ [make_reference_document s document' tagNames]\<rparr>
                          else acc)
                   in acc1\<lparr>sourceInfo :=
                        sourceInfo acc1 @ ''Document: '' @ source_label s @ '', Tags: ''
                          @ js_join '', '' tagNames @ ''\<newline>''\<rparr>))))\<close>

definition enrich_sources :: "rag_world \<Rightarrow> tag list \<Rightarrow> source list \<Rightarrow> enrichment" where
  "enrich_sources w cache srcs =
     foldl (enrich_source w cache)
       \<lparr>hasReferenceTag = False, sourceInfo = [], referenceDocuments = []\<rparr> srcs"

text \<open>The full text of one source, empty when it has no id or the fetch fails.\<close>

definition full_document_content :: "rag_world \<Rightarrow> source \<Rightarrow> string" where
  \<open>full_document_content w s =
     (if id_truthy (doc_id s) then
        (case getDocumentContent w (the (doc_id s)) of
           Inl e \<Rightarrow> []
         | Inr fullContent \<Rightarrow>
             ''Full document content for '' @ source_label s @ '':\<newline>'' @ fullContent)
      else [])\<close>

definition enhanced_context :: "rag_world \<Rightarrow> string \<Rightarrow> source list \<Rightarrow> string" where
  \<open>enhanced_context w context' srcs =
     context' @ ''\<newline>\<newline>''
       @ js_join ''\<newline>\<newline>'' (filter (\<lambda>c. c \<noteq> []) (map (full_document_content w) srcs))\<close>

text \<open>The two citation instructions and the reference block.\<close>

definition citation_instruction :: string where
  \<open>citation_instruction =
     ''- Since some documents have the "Refer''
       @ [CHR 0xEA]
       @ ''ncia" tag, include citations to the sources in your answer using the format <c''
       @ ''itation>AUTHORS. Title. Journal/Publication. v.Volume, p.Pages, Year.</citatio''
       @ ''n>\<newline>''
       @ ''        Example: <citation>MADUREIRA, F., COLLEGA, D. G., RODRIGUES, H. F., OL''
       @ ''IVEIRA, T. A. C., FREUDENHEIM, A. M. Valida''
       @ [CHR 0xE7, CHR 0xE3]
       @ ''o de um Instrumento para Avalia''
       @ [CHR 0xE7, CHR 0xE3]
       @ ''o Qualitativa do Nado "Crawl". Revista Brasileira de Educa''
       @ [CHR 0xE7, CHR 0xE3]
       @ ''o F''
       @ [CHR 0xED]
       @ ''sica e Esporte. v.22, p.273-284, 2008.</citation>\<newline>''
       @ ''        Use the document title and available metadata to format the citation a''
       @ ''ppropriately.''\<close>

definition no_citation_instruction :: string where
  \<open>no_citation_instruction =
     ''- Do not mention document numbers or source references, answer as if it were a natural conversation''\<close>

definition reference_entry :: "reference_document \<Rightarrow> string" where
  \<open>reference_entry doc =
     ''ID: ''
       @ string_of_nat (ref_id doc)
       @ ''\<newline>Title: ''
       @ ref_title doc
       @ ''\<newline>Created: ''
       @ field_text (ref_created doc)
       @ ''\<newline>Correspondent: ''
       @ field_text (ref_correspondent doc)
       @ ''\<newline>Tags: ''
       @ js_join '', '' (ref_tags doc)
       @ ''\<newline>Excerpt: ''
       @ ref_content doc\<close>

definition reference_info :: "reference_document list \<Rightarrow> string" where
  \<open>reference_info docs =
     ''\<newline>\<newline>Reference Documents Metadata:\<newline>''
       @ js_join ''\<newline>\<newline>'' (map reference_entry docs)\<close>

text \<open>
  The final prompt is one template; its fixed text is named here in two parts, before
  the source information and between the reference block and the citation instruction.
\<close>

definition prompt_preamble :: "string \<Rightarrow> string \<Rightarrow> string" where
  \<open>prompt_preamble question enhancedContext =
     ''\<newline>''
       @ ''        You are a helpful assistant that answers questions about documents.''
       @ ''\<newline>''
       @ ''\<newline>''
       @ ''        Answer the following question precisely, based on the provided documen''
       @ ''ts:\<newline>''
       @ ''\<newline>        Question: ''
       @ question
       @ ''\<newline>\<newline>        Context from relevant documents:\<newline>''
       @ ''        ''
       @ enhancedContext
       @ ''\<newline>\<newline>        Source information:\<newline>''
       @ ''        ''\<close>

definition prompt_instructions :: string where
  \<open>prompt_instructions =
     ''\<newline>\<newline>        Important instructions:\<newline>''
       @ ''        - Use ONLY information from the provided documents\<newline>''
       @ ''        - If the answer is not contained in the documents, respond: "This info''
       @ ''rmation is not contained in the documents." (in the same language as the quest''
       @ ''ion)\<newline>''
       @ ''        - Avoid assumptions or speculation beyond the given context\<newline>''
       @ ''        - Answer in the same language as the question was asked\<newline>''
       @ ''        - Before providing your final answer, double-check that all informatio''
       @ ''n comes directly from the documents and is accurate\<newline>''
       @ ''        - If you''
       @ [CHR 0x27]
       @ ''re unsure about any part of the answer, either omit it or clearly state the un''
       @ ''certainty\<newline>''
       @ ''        ''\<close>

definition compose_prompt :: "string \<Rightarrow> string \<Rightarrow> enrichment \<Rightarrow> string" where
  \<open>compose_prompt question enhancedContext en =
     (let citing = (hasReferenceTag en \<and> length (referenceDocuments en) > 0);
          citationInstruction = (if citing then citation_instruction else no_citation_instruction);
          referenceInfo = (if citing then reference_info (referenceDocuments en) else [])
      in
       prompt_preamble question enhancedContext @ sourceInfo en @ referenceInfo
         @ prompt_instructions @ citationInstruction @ ''\<newline>        '')\<close>

text \<open>
  The claim's words, for comparison: the reference document of a source whose resolved
  tag names include the literal tag, spelled here, and none for any other source.
\<close>

definition spec_reference_source ::
  "rag_world \<Rightarrow> tag list \<Rightarrow> source \<Rightarrow> reference_document option" where
  \<open>spec_reference_source w cache s =
     (if id_truthy (doc_id s) then
        (case getDocument w (the (doc_id s)) of
           Inl e \<Rightarrow> None
         | Inr d \<Rightarrow>
             (case doc_tags d of
                None \<Rightarrow> None
              | Some tagIds \<Rightarrow>
                  if ''Refer'' @ [CHR 0xEA] @ ''ncia'' \<in> set (resolve_tag_names cache tagIds)
                  then Some (make_reference_document s d (resolve_tag_names cache tagIds))
                  else None))
      else None)\<close>

definition apology :: string where
  "apology = ''An error occurred while generating an answer. Please try again later.''"

definition generic_failure :: js_error where
  "generic_failure =
     Error ''An error occurred while processing your question. Please try again later.''"

text \<open>
  \<^verbatim>\<open>RagService.askQuestion\<close>. The tag cache is refreshed, outside any inner \<^verbatim>\<open>try\<close>, only when
  there are sources; the outer \<^verbatim>\<open>catch\<close> turns whatever was thrown into one fixed error.
\<close>

definition askQuestion :: "rag_world \<Rightarrow> string \<Rightarrow> rag_answer io" where
  \<open>askQuestion w question =
     io_catch
       (io_bind (io_lift (post_context w question)) (\<lambda>(context', srcs).
        let have_sources = (case srcs of None \<Rightarrow> False | Some xs \<Rightarrow> length xs > 0) in
        io_bind
          (if have_sources then
             io_bind (io_lift (ensureTagCache w)) (\<lambda>cache.
               io_return (enrich_sources w cache (the srcs)))
           else io_return \<lparr>hasReferenceTag = False, sourceInfo = [], referenceDocuments = []\<rparr>)
          (\<lambda>en.
        let enhancedContext =
              (if have_sources then enhanced_context w context' (the srcs) else context')
        in
        io_bind (io_lift (getService w)) (\<lambda>aiService.
        let prompt = compose_prompt question enhancedContext en in
        io_bind
          (io_catch
             (io_bind (io_emit (GenerateText prompt)) (\<lambda>_. io_lift (generateText w prompt)))
             (\<lambda>e. io_return apology))
          (\<lambda>answer'. io_return \<lparr>answer = answer', sources = srcs\<rparr>)))))
       (\<lambda>e. io_throw generic_failure)\<close>

section \<open>Example worlds\<close>

text \<open>
  A world in which every collaborator succeeds: token counts are a quarter of the length,
  \<open>truncateToTokenLimit\<close> cuts to four characters per token (and returns the text under
  a limit of \<^verbatim>\<open>NaN\<close>), the chat backend answers
  with a valid object inside a fenced block, and Ollama answers with a structured object.
  \<open>JSON_stringify2\<close> is right on the one value these worlds serialise, the empty object.
\<close>

definition four_per_token :: "string \<Rightarrow> js_number \<Rightarrow> string" where
  "four_per_token s n =
     (case n of
        Num k \<Rightarrow> truncateDataString s \<lfloor>k\<rfloor>
      | Infinity \<Rightarrow> s
      | NegInfinity \<Rightarrow> []
      | NaN \<Rightarrow> s)"

definition world0 :: world where
  \<open>world0 =
     \<lparr>aiProvider = ''azure'',
      tokenLimit = Num 2000,
      responseTokens = Num 1000,
      useExistingData = ''no'',
      restrictToExistingTags = ''no'',
      restrictToExistingCorrespondents = ''no'',
      mustHavePrompt = ''Return JSON. %CUSTOMFIELDS%'',
      specialPromptPreDefinedTags = ''Predefined tags.'',
      SYSTEM_PROMPT = Some ''Analyze.'',
      USE_PROMPT_TAGS = None,
      PROMPT_TAGS = None,
      CUSTOM_FIELDS = None,
      AZURE_DEPLOYMENT_NAME = Some ''gpt'',
      CONTENT_MAX_LENGTH = None,
      JSON_parse = parse_or_throw,
      JSON_stringify2 = (\<lambda>v. ''{}''),
      calculateTokens = (\<lambda>s model. Inr (Num (of_int (estimateTokens s)))),
      calculateTotalPromptTokens = (\<lambda>s more model. Inr (Num (of_int (estimateTokens s)))),
      truncateToTokenLimit = (\<lambda>s n model. Inr (four_per_token s n)),
      writePromptToFile = Inr (),
      fs_access = (\<lambda>i. True),
      getThumbnailImage = (\<lambda>i. Inr None),
      fs_mkdir = Inr (),
      fs_writeFile = (\<lambda>i d. Inr ()),
      processRestrictionsInPrompt = (\<lambda>p ts cs a. Inr p),
      newAzureOpenAI = Inr (),
      chat_completions_create = (\<lambda>messages max_tokens. Inr
        \<lparr>message_content = Some ''```json\<newline>{"tags": ["A"], "correspondent": "X"}\<newline>```'',
         usage = Some \<lparr>promptTokens = 7, completionTokens = 5, totalTokens = 12\<rparr>\<rparr>),
      ollama_generate = (\<lambda>prompt system numCtx format'. Inr (Some (JObj
        [(''response'', JObj [(''tags'', JArr [JStr ''A'']), (''correspondent'', JStr ''X'')])]))),
      ollama_ps = Inr (200, Some (JObj [(''models'', JArr [JObj [(''name'', JStr ''llama3'')]])]))\<rparr>\<close>

text \<open>
  The same world with one fixed outcome of every chat-completion request, and with one
  fixed outcome of every request to Ollama.
\<close>

definition usage0 :: metrics where
  "usage0 = \<lparr>promptTokens = 7, completionTokens = 5, totalTokens = 12\<rparr>"

definition chat_world :: "js_error + chat_response \<Rightarrow> world" where
  "chat_world outcome = world0\<lparr>chat_completions_create := (\<lambda>messages max_tokens. outcome)\<rparr>"

definition ollama_world :: "js_error + json option \<Rightarrow> world" where
  "ollama_world outcome = world0\<lparr>ollama_generate := (\<lambda>prompt system numCtx format'. outcome)\<rparr>"

text \<open>
  A retrieval world with three sources: the first is a document tagged with the reference
  tag, the second a document without it, the third a document whose metadata and content
  cannot be fetched.
\<close>

definition paper :: paperless_document where
  "paper =
     \<lparr>doc_tags = Some [10, 11], doc_title = Some ''Swimming'', created_date = Null,
      created = Text ''2008-01-01'', correspondent_name = Undefined, correspondent = Number 7,
      doc_content = Some ''Text of the paper''\<rparr>"

definition invoice :: paperless_document where
  "invoice =
     \<lparr>doc_tags = Some [11], doc_title = Some ''Invoice 7'', created_date = Undefined,
      created = Text ''2024-05-01'', correspondent_name = Undefined, correspondent = Null,
      doc_content = Some ''Total due''\<rparr>"

definition three_sources :: "source list" where
  "three_sources =
     [\<lparr>doc_id = Some 1, title = Some ''Paper''\<rparr>,
      \<lparr>doc_id = Some 2, title = None\<rparr>,
      \<lparr>doc_id = Some 3, title = Some ''Lost''\<rparr>]"

definition tag_cache0 :: "tag list" where
  \<open>tag_cache0 =
     [\<lparr>tag_id = 10, tag_name = Some (''Refer'' @ [CHR 0xEA] @ ''ncia'')\<rparr>,
      \<lparr>tag_id = 11, tag_name = Some ''Invoice''\<rparr>]\<close>

definition rag_world0 :: rag_world where
  "rag_world0 =
     \<lparr>post_context = (\<lambda>question. Inr (''Summary.'', Some three_sources)),
      ensureTagCache = Inr tag_cache0,
      getDocument = (\<lambda>n. if n = 1 then Inr paper else if n = 2 then Inr invoice
                           else Inl (Error ''Request failed with status code 404'')),
      getDocumentContent = (\<lambda>n. if n = 3 then Inl (Error ''Request failed with status code 404'')
                                  else Inr ''Full text''),
      getService = Inr (),
      generateText = (\<lambda>prompt. Inr ''The answer.'')\<rparr>"

section \<open>Properties\<close>

lemma estimateTokens_take_le:
  assumes "0 \<le> n"
  shows "estimateTokens (take (nat (n * 4)) s) \<le> n"
proof -
  have "length (take (nat (n * 4)) s) \<le> nat (n * 4)" by simp
  then have "(length (take (nat (n * 4)) s) + 3) div 4 \<le> (nat (n * 4) + 3) div 4"
    by (intro div_le_mono) simp
  also have "(nat (n * 4) + 3) div 4 = nat n" using assms by (simp add: nat_mult_distrib)
  finally show ?thesis using assms by (simp add: estimateTokens_def)
qed

lemma truncateDataString_prefix: "prefix (truncateDataString s n) s"
  by (simp add: truncateDataString_def Let_def take_is_prefix)

lemma truncateDataString_bound:
  "0 \<le> n \<Longrightarrow> estimateTokens (truncateDataString s n) \<le> n"
  by (simp add: truncateDataString_def Let_def estimateTokens_take_le)

lemma truncateDataString_short:
  "estimateTokens s \<le> n \<Longrightarrow> truncateDataString s n = s"
  by (simp add: truncateDataString_def Let_def)

lemma substring0_prefix: "prefix (substring0 s e) s"
  by (cases e) (simp_all add: take_is_prefix)

lemma substring0_idem: "substring0 (substring0 s e) e = substring0 s e"
  by (cases e) simp_all


lemma truncateDataString_idem:
  "0 \<le> n \<Longrightarrow> truncateDataString (truncateDataString s n) n = truncateDataString s n"
  using truncateDataString_bound [of n s] truncateDataString_short by blast

subsection \<open>Brace spans\<close>

lemma balanced_end_closes:
  "CHR ''{'' \<notin> set pre \<Longrightarrow> d \<le> 1 \<Longrightarrow> CHR ''}'' \<notin> set pre \<Longrightarrow>
   balanced_end d (pre @ CHR ''}'' # post) = Some (pre @ [CHR ''}''])"
  by (induction pre) auto

lemma unbalanced_has_pair:
  assumes "balanced_end 1 cs = None" and "CHR ''}'' \<in> set cs"
  shows "\<exists>xs ys zs. cs = xs @ CHR ''{'' # ys @ CHR ''}'' # zs"
proof -
  from assms(2) obtain pre post where cs: "cs = pre @ CHR ''}'' # post" and pre: "CHR ''}'' \<notin> set pre"
    by (auto dest: split_list_first)
  have "CHR ''{'' \<in> set pre"
  proof (rule ccontr)
    assume "CHR ''{'' \<notin> set pre"
    then have "balanced_end 1 cs = Some (pre @ [CHR ''}''])"
      using pre cs balanced_end_closes [of pre 1 post] by simp
    with assms(1) show False by simp
  qed
  then obtain xs ys where "pre = xs @ CHR ''{'' # ys" by (auto dest: split_list)
  with cs have "cs = xs @ CHR ''{'' # ys @ CHR ''}'' # post" by simp
  then show ?thesis by blast
qed

lemma pair_has_balanced_span:
  "\<exists>xs ys zs. s = xs @ CHR ''{'' # ys @ CHR ''}'' # zs \<Longrightarrow> spec_first_balanced_span s \<noteq> None"
proof (induction s)
  case Nil
  then show ?case by simp
next
  case (Cons c cs)
  then obtain xs ys zs where s: "c # cs = xs @ CHR ''{'' # ys @ CHR ''}'' # zs" by blast
  show ?case
  proof (cases "c = CHR ''{''")
    case True
    show ?thesis
    proof (cases "balanced_end 1 cs")
      case (Some t)
      with True show ?thesis by simp
    next
      case None
      have "CHR ''}'' \<in> set cs" using s by (cases xs) auto
      then have "\<exists>xs ys zs. cs = xs @ CHR ''{'' # ys @ CHR ''}'' # zs"
        using None unbalanced_has_pair by blast
      then have "spec_first_balanced_span cs \<noteq> None" by (rule Cons.IH)
      with True None show ?thesis by simp
    qed
  next
    case False
    with s obtain xs' where "xs = c # xs'" by (cases xs) auto
    with s have "cs = xs' @ CHR ''{'' # ys @ CHR ''}'' # zs" by simp
    then have "spec_first_balanced_span cs \<noteq> None" using Cons.IH by blast
    with False show ?thesis by simp
  qed
qed

lemma match_json_span_shape:
  assumes "match_json_span s = Some j"
  shows "\<exists>pre post. s = pre @ j @ post \<and> CHR ''{'' \<notin> set pre \<and> CHR ''}'' \<notin> set post
           \<and> hd j = CHR ''{'' \<and> last j = CHR ''}'' \<and> j \<noteq> []"
proof -
  define t where "t = dropWhile (\<lambda>c. c \<noteq> CHR ''{'') s"
  define pre where "pre = takeWhile (\<lambda>c. c \<noteq> CHR ''{'') s"
  define post where "post = rev (takeWhile (\<lambda>c. c \<noteq> CHR ''}'') (rev t))"
  have mem: "CHR ''}'' \<in> set t" and j: "j = rev (dropWhile (\<lambda>c. c \<noteq> CHR ''}'') (rev t))"
    using assms unfolding match_json_span_def Let_def t_def by (auto split: if_splits)
  have s: "s = pre @ t" unfolding pre_def t_def by simp
  have "rev (takeWhile (\<lambda>c. c \<noteq> CHR ''}'') (rev t) @ dropWhile (\<lambda>c. c \<noteq> CHR ''}'') (rev t)) = t"
    by (simp only: takeWhile_dropWhile_id rev_rev_ident)
  then have "rev (dropWhile (\<lambda>c. c \<noteq> CHR ''}'') (rev t)) @ rev (takeWhile (\<lambda>c. c \<noteq> CHR ''}'') (rev t)) = t"
    by (simp only: rev_append)
  then have t: "t = j @ post" unfolding j post_def by (rule sym)
  have dne: "dropWhile (\<lambda>c. c \<noteq> CHR ''}'') (rev t) \<noteq> []"
    using mem by (simp add: dropWhile_eq_Nil_conv)
  then have jne: "j \<noteq> []" using j by simp
  have "hd (dropWhile (\<lambda>c. c \<noteq> CHR ''}'') (rev t)) = CHR ''}''"
    using hd_dropWhile [OF dne] by simp
  then have last: "last j = CHR ''}''" using j dne by (simp add: last_rev)
  have tne: "t \<noteq> []" using mem by auto
  have "hd t = CHR ''{''" using hd_dropWhile [of "\<lambda>c. c \<noteq> CHR ''{''" s] tne unfolding t_def by simp
  then have hd: "hd j = CHR ''{''" using t jne by (cases j) simp_all
  have p1: "CHR ''{'' \<notin> set pre" unfolding pre_def by (auto dest: set_takeWhileD)
  have p2: "CHR ''}'' \<notin> set post" unfolding post_def by (auto dest: set_takeWhileD)
  show ?thesis using s t p1 p2 hd last jne by auto
qed

lemma match_json_span_has_pair:
  assumes "match_json_span s = Some j"
  shows "\<exists>xs ys zs. s = xs @ CHR ''{'' # ys @ CHR ''}'' # zs"
proof -
  from match_json_span_shape [OF assms] obtain pre post where
    s: "s = pre @ j @ post" and hd: "hd j = CHR ''{''" and last: "last j = CHR ''}''" and ne: "j \<noteq> []"
    by blast
  from ne hd obtain j' where j: "j = CHR ''{'' # j'" by (cases j) auto
  with last have "j' \<noteq> []" by (cases j') auto
  then have "butlast j' @ [last j'] = j'" by (rule append_butlast_last_id)
  moreover have "last j' = CHR ''}''" using j last \<open>j' \<noteq> []\<close> by simp
  ultimately have "j' = butlast j' @ [CHR ''}'']" by simp
  with j s have "s = pre @ CHR ''{'' # butlast j' @ CHR ''}'' # post" by simp
  then show ?thesis by blast
qed

lemma no_balanced_span_no_match:
  "spec_first_balanced_span s = None \<Longrightarrow> match_json_span s = None"
  using match_json_span_has_pair pair_has_balanced_span by (cases "match_json_span s") blast+


subsection \<open>Evaluation on concrete inputs\<close>

lemmas char_class_defs = code_def is_json_ws_def is_digit_def is_js_space_def is_word_char_def
  is_quote_def

lemmas normaliser_defs = parseResponse_def match_json_span_def parse_attempt_def json_parse_def
  parse_or_throw_def
  sanitizeJsonString_def match_key_def parsed_fields_def sanitized_fields_def or_null_def
  empty_document_def Let_def

lemma fenced_example_span:
  \<open>match_json_span fenced_example = Some ''{tags: ["A"], correspondent: "X",}''\<close>
  by (simp add: fenced_example_def match_json_span_def)

lemma fenced_example_sanitized:
  \<open>sanitizeJsonString ''{tags: ["A"], correspondent: "X",}''
     = ''{"tags": ["A"], "correspondent": "X"}''\<close>
  by (simp add: sanitizeJsonString_def match_key_def char_class_defs)

lemma fenced_example_first_parse:
  \<open>parse_attempt parse_or_throw ''{tags: ["A"], correspondent: "X",}'' = None\<close>
  by (simp add: parse_attempt_def parse_or_throw_def json_parse_def char_class_defs)

lemma fenced_example_second_parse:
  \<open>parse_attempt parse_or_throw ''{"tags": ["A"], "correspondent": "X"}''
     = Some (JObj [(''tags'', JArr [JStr ''A'']), (''correspondent'', JStr ''X'')])\<close>
  by (simp add: parse_attempt_def parse_or_throw_def json_parse_def char_class_defs)

lemma fenced_example_result:
  \<open>parseResponse parse_or_throw fenced_example =
     (JObj [(''tags'', JArr [JStr ''A'']), (''correspondent'', JStr ''X''), (''title'', JNull),
            (''document_date'', JNull), (''language'', JNull)],
      [''{tags: ["A"], correspondent: "X",}'', ''{"tags": ["A"], "correspondent": "X"}''])\<close>
  by (simp add: parseResponse_def fenced_example_span fenced_example_sanitized
      fenced_example_first_parse fenced_example_second_parse sanitized_fields_def or_null_def)

subsection \<open>Rules for computations\<close>

lemma fst_io_return [simp]: "fst (io_return x) = Inr x"
  by (simp add: io_return_def)

lemma snd_io_return [simp]: "snd (io_return x) = []"
  by (simp add: io_return_def)

lemma fst_io_throw [simp]: "fst (io_throw e) = Inl e"
  by (simp add: io_throw_def)

lemma snd_io_throw [simp]: "snd (io_throw e) = []"
  by (simp add: io_throw_def)

lemma fst_io_lift [simp]: "fst (io_lift r) = r"
  by (simp add: io_lift_def)

lemma snd_io_lift [simp]: "snd (io_lift r) = []"
  by (simp add: io_lift_def)

lemma fst_io_emit [simp]: "fst (io_emit ev) = Inr ()"
  by (simp add: io_emit_def)

lemma snd_io_emit [simp]: "snd (io_emit ev) = [ev]"
  by (simp add: io_emit_def)

lemma fst_io_bind:
  "fst (io_bind m f) = (case fst m of Inl e \<Rightarrow> Inl e | Inr x \<Rightarrow> fst (f x))"
  by (simp add: io_bind_def split: prod.splits sum.splits)

lemma snd_io_bind:
  "snd (io_bind m f) = snd m @ (case fst m of Inl e \<Rightarrow> [] | Inr x \<Rightarrow> snd (f x))"
  by (simp add: io_bind_def split: prod.splits sum.splits)

lemma fst_io_catch:
  "fst (io_catch m h) = (case fst m of Inl e \<Rightarrow> fst (h e) | Inr x \<Rightarrow> Inr x)"
  by (simp add: io_catch_def split: prod.splits sum.splits)

lemma snd_io_catch:
  "snd (io_catch m h) = snd m @ (case fst m of Inl e \<Rightarrow> snd (h e) | Inr x \<Rightarrow> [])"
  by (simp add: io_catch_def split: prod.splits sum.splits)

lemmas io_simps = fst_io_bind snd_io_bind fst_io_catch snd_io_catch

lemma returns_return [simp]: "returns (io_return x) P = P x"
  by (simp add: returns_def)

lemma returns_throw [simp]: "returns (io_throw e) P"
  by (simp add: returns_def)

lemma returns_lift: "returns (io_lift r) P = (case r of Inl e \<Rightarrow> True | Inr x \<Rightarrow> P x)"
  by (simp add: returns_def)

lemma returns_emit [simp]: "returns (io_emit ev) P = P ()"
  by (simp add: returns_def)

lemma returns_bind: "returns (io_bind m f) P = returns m (\<lambda>x. returns (f x) P)"
  by (simp add: returns_def fst_io_bind split: sum.splits)

lemma returns_catch:
  "returns (io_catch m h) P = (case fst m of Inl e \<Rightarrow> returns (h e) P | Inr x \<Rightarrow> P x)"
  by (simp add: returns_def fst_io_catch split: sum.splits)

lemma returns_True [simp]: "returns m (\<lambda>x. True)"
  by (simp add: returns_def split: sum.splits)

lemma returns_if: "returns (if c then a else b) P = (if c then returns a P else returns b P)"
  by simp

lemma returnsI: "(\<And>x. P x) \<Longrightarrow> returns m P"
  by (simp add: returns_def split: sum.splits)

lemma returns_mono: "returns m P \<Longrightarrow> (\<And>x. P x \<Longrightarrow> P' x) \<Longrightarrow> returns m P'"
  by (auto simp: returns_def split: sum.splits)

lemma returnsD: "returns m P \<Longrightarrow> fst m = Inr x \<Longrightarrow> P x"
  by (simp add: returns_def)

lemma emits_return [simp]: "emits (io_return x) Q"
  by (simp add: emits_def)

lemma emits_throw [simp]: "emits (io_throw e) Q"
  by (simp add: emits_def)

lemma emits_lift [simp]: "emits (io_lift r) Q"
  by (simp add: emits_def)

lemma emits_emit [simp]: "emits (io_emit ev) Q = Q ev"
  by (simp add: emits_def)

lemma emits_bind: "emits (io_bind m f) Q = (emits m Q \<and> returns m (\<lambda>x. emits (f x) Q))"
  by (auto simp: emits_def returns_def snd_io_bind split: sum.splits)

lemma emits_catch:
  "emits (io_catch m h) Q = (emits m Q \<and> (case fst m of Inl e \<Rightarrow> emits (h e) Q | Inr x \<Rightarrow> True))"
  by (auto simp: emits_def snd_io_catch split: sum.splits)

lemma emits_if: "emits (if c then a else b) Q = (if c then emits a Q else emits b Q)"
  by simp

lemma emitsD: "emits m Q \<Longrightarrow> ev \<in> set (snd m) \<Longrightarrow> Q ev"
  by (simp add: emits_def list_all_iff)

lemma emits_mono: "emits m Q \<Longrightarrow> (\<And>ev. Q ev \<Longrightarrow> Q' ev) \<Longrightarrow> emits m Q'"
  by (auto simp: emits_def list_all_iff)

lemma catch_never_throws:
  "\<exists>r. fst (io_catch m (\<lambda>e. io_return (h e))) = Inr r"
  by (simp add: fst_io_catch split: sum.splits)

lemma returns_catchI:
  "returns m P \<Longrightarrow> (\<And>e. returns (h e) P) \<Longrightarrow> returns (io_catch m h) P"
proof -
  assume m: "returns m P" and h: "\<And>e. returns (h e) P"
  show ?thesis
  proof (cases "fst m")
    case (Inl e)
    then show ?thesis using h [of e] by (simp add: returns_def fst_io_catch)
  next
    case (Inr x)
    then show ?thesis using m by (simp add: returns_def fst_io_catch)
  qed
qed

lemma emits_catchI:
  "emits m Q \<Longrightarrow> (\<And>e. emits (h e) Q) \<Longrightarrow> emits (io_catch m h) Q"
  by (simp add: emits_catch split: sum.splits)

lemma returns_total:
  "returns m P \<Longrightarrow> \<exists>r. fst m = Inr r \<Longrightarrow> \<exists>r. fst m = Inr r \<and> P r"
  by (auto simp: returns_def)

lemma sends_bind:
  "ev \<notin> set (snd m) \<Longrightarrow> sends (io_bind m f) ev P = (\<forall>x. fst m = Inr x \<longrightarrow> sends (f x) ev P)"
  by (cases "fst m") (auto simp add: sends_def fst_io_bind snd_io_bind)

lemma sends_catch:
  "sends (io_catch m (\<lambda>e. io_return (h e))) ev P
     = sends m ev (\<lambda>r. P (case r of Inl e \<Rightarrow> Inr (h e) | Inr x \<Rightarrow> Inr x))"
  by (cases "fst m") (auto simp add: sends_def fst_io_catch snd_io_catch)

lemma sends_throw [simp]: "sends (io_throw e) ev P"
  by (simp add: sends_def)

lemma sendsD: "sends m ev P \<Longrightarrow> ev \<in> set (snd m) \<Longrightarrow> P (fst m)"
  by (simp add: sends_def)

subsection \<open>Containment of one text in another\<close>

lemma sublist_in_append_right: "sublist xs ys \<Longrightarrow> sublist xs (zs @ ys)"
  by (auto simp: sublist_def) (metis append.assoc)

lemma sublist_in_append_left: "sublist xs ys \<Longrightarrow> sublist xs (ys @ zs)"
  by (auto simp: sublist_def) (metis append.assoc)

subsection \<open>Numbers\<close>

lemma js_sub_Num [simp]: "js_sub (Num x) (Num y) = Num (x - y)"
  by (simp add: js_sub_def)

lemma js_min_Num [simp]: "js_min (Num x) (Num y) = Num (min x y)"
  by (simp add: js_min_def min_def)

lemma js_sub_NaN [simp]: "js_sub NaN b = NaN" "js_sub a NaN = NaN"
  by (cases a; simp add: js_sub_def)+

lemma js_min_NaN [simp]: "js_min NaN b = NaN" "js_min a NaN = NaN"
  by (simp_all add: js_min_def)

subsection \<open>The shape of every analysis result\<close>

lemma truncateContentTo_idem:
  "truncateContentTo m (truncateContentTo m content) = truncateContentTo m content"
  by (cases m) (simp_all add: truncateContentTo_def substring0_idem)

lemma ollama_document_shape:
  "returns (ollama_analyzeDocument w content tags corrs types id' cp ext)
     (\<lambda>r. (error r = None \<longrightarrow> truncated r = Some False \<and> metrics r = Some zero_metrics)
        \<and> (error r \<noteq> None \<longrightarrow> document r = empty_document \<and> truncated r = None \<and> metrics r = None))"
  unfolding ollama_analyzeDocument_def
  by (rule returns_catchI) (simp_all add: returns_bind Let_def error_result_def)

lemma ollama_playground_shape:
  "returns (ollama_analyzePlayground w content prompt)
     (\<lambda>r. (error r = None \<longrightarrow> truncated r = Some False \<and> metrics r = Some zero_metrics)
        \<and> (error r \<noteq> None \<longrightarrow> document r = empty_document \<and> truncated r = None \<and> metrics r = None))"
  unfolding ollama_analyzePlayground_def
  by (rule returns_catchI) (simp_all add: returns_bind Let_def error_result_def)

lemma azure_document_shape:
  "returns (azure_analyzeDocument w client content tags corrs types id' cp ext)
     (\<lambda>r. (error r = None \<longrightarrow> truncated r \<noteq> None \<and> metrics r \<noteq> None)
        \<and> (error r \<noteq> None \<longrightarrow> document r = empty_document \<and> truncated r = None \<and> metrics r = None))"
  unfolding azure_analyzeDocument_def
  by (rule returns_catchI) (simp_all add: returns_bind Let_def error_result_def split_beta)

lemma azure_playground_shape:
  "returns (azure_analyzePlayground w client content prompt)
     (\<lambda>r. (error r = None \<longrightarrow> truncated r \<noteq> None \<and> metrics r \<noteq> None)
        \<and> (error r \<noteq> None \<longrightarrow> document r = empty_document \<and> truncated r = None \<and> metrics r = None))"
  unfolding azure_analyzePlayground_def
  by (rule returns_catchI) (simp_all add: returns_bind Let_def error_result_def split_beta)

lemma ollama_document_total:
  "\<exists>r. fst (ollama_analyzeDocument w content tags corrs types id' cp ext) = Inr r"
  unfolding ollama_analyzeDocument_def by (rule catch_never_throws)

lemma ollama_playground_total: "\<exists>r. fst (ollama_analyzePlayground w content prompt) = Inr r"
  unfolding ollama_analyzePlayground_def by (rule catch_never_throws)

lemma azure_document_total:
  "\<exists>r. fst (azure_analyzeDocument w client content tags corrs types id' cp ext) = Inr r"
  unfolding azure_analyzeDocument_def by (rule catch_never_throws)

lemma azure_playground_total: "\<exists>r. fst (azure_analyzePlayground w client content prompt) = Inr r"
  unfolding azure_analyzePlayground_def by (rule catch_never_throws)

lemma result_shape:
  fixes m :: "analysis_result io"
  assumes "\<exists>r. fst m = Inr r"
    and "returns m (\<lambda>r. (error r = None \<longrightarrow> A r)
        \<and> (error r \<noteq> None \<longrightarrow> document r = empty_document \<and> truncated r = None \<and> metrics r = None))"
  shows "\<exists>r. fst m = Inr r \<and> (error r \<noteq> None \<longrightarrow> document r = empty_document \<and> metrics r = None)"
  using assms by (auto simp: returns_def)

subsection \<open>The events of the adapters\<close>

lemma fst_truncate_call [simp]:
  "fst (truncateToTokenLimit_call w text' limit model) = truncateToTokenLimit w text' limit model"
  by (simp add: truncateToTokenLimit_call_def fst_io_bind)

lemma snd_truncate_call [simp]:
  "snd (truncateToTokenLimit_call w text' limit model) = [Truncate text' limit model]"
  by (simp add: truncateToTokenLimit_call_def snd_io_bind)

lemma fst_chat_create [simp]:
  "fst (chat_create w messages mt) = chat_completions_create w messages mt"
  by (simp add: chat_create_def fst_io_bind)

lemma snd_chat_create [simp]:
  "snd (chat_create w messages mt) = [ChatCompletion messages mt]"
  by (simp add: chat_create_def snd_io_bind)

lemma truncate_call_emits:
  "emits (truncateToTokenLimit_call w text' limit model) Q = Q (Truncate text' limit model)"
  by (simp add: truncateToTokenLimit_call_def emits_bind)

lemma azure_validate_emits:
  "(\<And>text' limit model. Q (Truncate text' limit model)) \<Longrightarrow>
   emits (azure_validateAndTruncateExternalApiData w apiData maxTokens) Q"
  by (simp add: azure_validateAndTruncateExternalApiData_def Let_def emits_bind returns_bind
      returns_lift truncate_call_emits split: sum.splits)

lemma azure_assemble_emits:
  "(\<And>text' limit model. Q (Truncate text' limit model)) \<Longrightarrow>
   emits (azure_assemblePrompt w tags corrs types cp ext) Q"
  by (simp add: azure_assemblePrompt_def Let_def emits_bind emits_catch azure_validate_emits
      split: sum.splits)

lemma azure_assemble_no_request [simp]:
  "ChatCompletion msgs mt \<notin> set (snd (azure_assemblePrompt w tags corrs types cp ext))"
  using azure_assemble_emits [of "\<lambda>ev. ev \<noteq> ChatCompletion msgs mt" w tags corrs types cp ext]
  by (auto simp add: emits_def list_all_iff)

lemma snd_azure_thumbnail [simp]: "snd (azure_thumbnail w id') = []"
  by (simp add: azure_thumbnail_def snd_io_bind split: sum.splits)

lemma snd_handleThumbnail [simp]: "snd (handleThumbnailCaching w id') = []"
  by (simp add: handleThumbnailCaching_def snd_io_bind split: sum.splits)

lemma fst_callOllamaAPI:
  "fst (callOllamaAPI w p s n sc)
     = (case ollama_generate w p s n sc of
          Inl e \<Rightarrow> Inl e
        | Inr data \<Rightarrow> if js_truthy data then Inr (the data)
                      else Inl (Error ''Invalid response from Ollama API''))"
  by (simp add: callOllamaAPI_def fst_io_bind split: sum.splits)

lemma snd_callOllamaAPI [simp]: "snd (callOllamaAPI w p s n sc) = [OllamaGenerate p s n sc]"
  by (simp add: callOllamaAPI_def snd_io_bind split: sum.splits)

lemma ollama_buildPrompt_content:
  "ollama_buildPrompt w content tags corrs types ext = Inr p \<Longrightarrow>
   sublist (json_quote content) p"
proof -
  assume "ollama_buildPrompt w content tags corrs types ext = Inr p"
  then obtain sp where "p = sp @ ''\<newline>        '' @ json_quote content @ ''\<newline>        ''"
    unfolding ollama_buildPrompt_def Let_def by (auto split: sum.splits)
  then show ?thesis by (simp only: sublist_appendI sublist_in_append_right)
qed

lemma custom_prompt_content: "sublist q (a @ ''\<newline>\<newline>'' @ b @ ''\<newline>\<newline>'' @ q)"
  by (intro sublist_in_append_right) simp

lemma ollama_document_truncated_input:
  "ollama_analyzeDocument w content tags corrs types id' cp ext
     = ollama_analyzeDocument w (truncateContent w content) tags corrs types id' cp ext"
  by (simp add: ollama_analyzeDocument_def truncateContent_def truncateContentTo_idem)

subsection \<open>A request and the outcome it leads to\<close>

text \<open>
  Each analysis operation sends at most one request. If it sent one, the request was
  built as the lemma says, and the result of the operation is decided by what the
  backend answered.
\<close>

lemma azure_document_sends:
  "sends (azure_analyzeDocument w client content tags corrs types id' cp ext)
     (ChatCompletion msgs mt)
     (\<lambda>r. \<exists>sp pt v tp t.
           fst (azure_assemblePrompt w tags corrs types cp ext) = Inr (sp, pt, v)
         \<and> calculateTotalPromptTokens w sp pt (AZURE_DEPLOYMENT_NAME w) = Inr tp
         \<and> \<not> js_le (js_sub (tokenLimit w) (js_add tp (responseTokens w))) (Num 0)
         \<and> truncateToTokenLimit w content (js_sub (tokenLimit w) (js_add tp (responseTokens w)))
              (AZURE_DEPLOYMENT_NAME w) = Inr t
         \<and> msgs = [(''system'', sp), (''user'', t)] \<and> mt = None
         \<and> r = Inr (case chat_completions_create w msgs mt of
                      Inl e \<Rightarrow> error_result e
                    | Inr resp \<Rightarrow>
                        (case azure_readResponse w resp of
                           Inl e \<Rightarrow> error_result e
                         | Inr (d, u) \<Rightarrow>
                             \<lparr>document = d, metrics = Some u,
                              truncated = Some (length t < length content), error = None\<rparr>)))"
  unfolding azure_analyzeDocument_def
  apply (simp add: sends_catch sends_bind Let_def split_beta)
  apply (intro allI impI conjI)
  apply (simp add: sends_def fst_io_bind snd_io_bind split: sum.splits)
  done

lemma azure_playground_sends:
  "sends (azure_analyzePlayground w client content prompt)
     (ChatCompletion msgs mt)
     (\<lambda>r. \<exists>tp t.
           calculateTotalPromptTokens w (prompt @ musthavePrompt) [] None = Inr tp
         \<and> truncateToTokenLimit w content (js_sub (tokenLimit w) (js_add tp (responseTokens w)))
              None = Inr t
         \<and> msgs = [(''system'', prompt @ musthavePrompt), (''user'', t)] \<and> mt = None
         \<and> r = Inr (case chat_completions_create w msgs mt of
                      Inl e \<Rightarrow> error_result e
                    | Inr resp \<Rightarrow>
                        (case azure_readResponse w resp of
                           Inl e \<Rightarrow> error_result e
                         | Inr (d, u) \<Rightarrow>
                             \<lparr>document = d, metrics = Some u,
                              truncated = Some (length t < length content), error = None\<rparr>)))"
  unfolding azure_analyzePlayground_def
  apply (simp add: sends_catch sends_bind Let_def split_beta)
  apply (intro allI impI conjI)
  apply (simp add: sends_def fst_io_bind snd_io_bind split: sum.splits)
  done

lemma ollama_document_sends:
  "sends (ollama_analyzeDocument w content tags corrs types id' cp ext)
     (OllamaGenerate p s n sc)
     (\<lambda>r. n = js_min (js_add (Num (of_int (estimateTokens p))) (Num 1024)) (tokenLimit w)
         \<and> sublist (json_quote (truncateContent w content)) p
         \<and> sc = DocumentAnalysisSchema
         \<and> r = Inr (case ollama_generate w p s n sc of
               Inl e \<Rightarrow> error_result e
             | Inr data \<Rightarrow>
                 if \<not> js_truthy data then error_result (Error ''Invalid response from Ollama API'')
                 else
                   (case processOllamaResponse w (the data) of
                      Inl e \<Rightarrow> error_result e
                    | Inr d \<Rightarrow>
                        (case writePromptToFile w of
                           Inl e \<Rightarrow> error_result e
                         | Inr u \<Rightarrow>
                             \<lparr>document = d, metrics = Some zero_metrics, truncated = Some False,
                              error = None\<rparr>))))"
  unfolding ollama_analyzeDocument_def
  apply (simp add: sends_catch sends_bind Let_def split_beta)
  apply (intro allI impI conjI)
  apply (auto simp add: sends_def fst_io_bind snd_io_bind fst_callOllamaAPI
      calculateNumCtx_def calculatePromptTokenCount_def
      split: sum.splits dest: ollama_buildPrompt_content intro: custom_prompt_content [simplified])
  done

lemma ollama_playground_sends:
  "sends (ollama_analyzePlayground w content prompt)
     (OllamaGenerate p s n sc)
     (\<lambda>r. p = prompt @ ''\<newline>\<newline>'' @ json_quote content
         \<and> s = generatePlaygroundSystemPrompt
         \<and> (\<exists>tp. calculateTokens w prompt None = Inr tp
                \<and> n = js_min (js_add tp (Num 1024)) (tokenLimit w))
         \<and> sc = PlaygroundSchema
         \<and> r = Inr (case ollama_generate w p s n sc of
               Inl e \<Rightarrow> error_result e
             | Inr data \<Rightarrow>
                 if \<not> js_truthy data then error_result (Error ''Invalid response from Ollama API'')
                 else
                   (case processOllamaResponse w (the data) of
                      Inl e \<Rightarrow> error_result e
                    | Inr d \<Rightarrow>
                        \<lparr>document = d, metrics = Some zero_metrics, truncated = Some False,
                         error = None\<rparr>)))"
  unfolding ollama_analyzePlayground_def
  apply (simp add: sends_catch sends_bind Let_def split_beta)
  apply (auto simp add: sends_def fst_io_bind snd_io_bind fst_callOllamaAPI
      calculateNumCtx_def split: sum.splits)
  done

subsection \<open>Question answering\<close>

lemma enrich_source_refs:
  "referenceDocuments (enrich_source w cache acc s)
     = referenceDocuments acc @ (case spec_reference_source w cache s of None \<Rightarrow> [] | Some r \<Rightarrow> [r])"
  by (simp add: enrich_source_def spec_reference_source_def reference_tag_def Let_def
      split: sum.splits option.splits)

lemma enrich_source_flag:
  "hasReferenceTag (enrich_source w cache acc s)
     = (hasReferenceTag acc \<or> spec_reference_source w cache s \<noteq> None)"
  by (simp add: enrich_source_def spec_reference_source_def reference_tag_def Let_def
      split: sum.splits option.splits)

lemma foldl_enrich_refs:
  "referenceDocuments (foldl (enrich_source w cache) acc srcs)
     = referenceDocuments acc @ List.map_filter (spec_reference_source w cache) srcs"
  by (induction srcs arbitrary: acc)
     (simp_all add: enrich_source_refs map_filter_simps split: option.splits)

lemma foldl_enrich_flag:
  "hasReferenceTag (foldl (enrich_source w cache) acc srcs)
     = (hasReferenceTag acc \<or> List.map_filter (spec_reference_source w cache) srcs \<noteq> [])"
  by (induction srcs arbitrary: acc)
     (auto simp add: enrich_source_flag map_filter_simps split: option.splits)

lemma enrich_sources_refs:
  "referenceDocuments (enrich_sources w cache srcs)
     = List.map_filter (spec_reference_source w cache) srcs"
  by (simp add: enrich_sources_def foldl_enrich_refs)

lemma enrich_sources_flag:
  "hasReferenceTag (enrich_sources w cache srcs)
     = (referenceDocuments (enrich_sources w cache srcs) \<noteq> [])"
  by (simp add: enrich_sources_def foldl_enrich_flag foldl_enrich_refs)

subsection \<open>Evaluation of the example worlds\<close>

lemmas io_defs = io_return_def io_throw_def io_lift_def io_emit_def io_bind_def io_catch_def

lemmas world_defs = world0_def chat_world_def ollama_world_def usage0_def

lemmas prompt_defs = generateCustomFieldsTemplate_def customFieldsObj_def indent_lines_def
  js_replace_def estimateTokens_def additional_context_def json_quote_def code_def
  promise_to_string_def error_result_def truncateDataString_def four_per_token_def

lemmas ollama_defs = ollama_analyzeDocument_def ollama_analyzePlayground_def truncateContent_def
  truncateContentTo_def handleThumbnailCaching_def ollama_buildPrompt_def
  calculatePromptTokenCount_def calculateNumCtx_def callOllamaAPI_def
  processOllamaResponse_def parsed_fields_def or_null_def
  ollama_validateAndTruncateExternalApiData_def

lemmas azure_defs = azure_analyzeDocument_def azure_analyzePlayground_def azure_initialize_def
  azure_thumbnail_def azure_assemblePrompt_def azure_validateAndTruncateExternalApiData_def
  truncateToTokenLimit_call_def chat_create_def azure_readResponse_def strip_code_fences_def
  js_trim_def skip_newline_def

lemma short_world_run:
  \<open>ollama_analyzeDocument (world0\<lparr>CONTENT_MAX_LENGTH := Some (Finite 5)\<rparr>) ''abcdefghij'' [] [] []
       None None None
     = (Inr \<lparr>document = JObj [(''tags'', JArr [JStr ''A'']), (''correspondent'', JStr ''X''),
                 (''title'', JNull), (''document_date'', JNull), (''document_type'', JNull),
                 (''language'', JNull), (''custom_fields'', JNull)],
             metrics = Some zero_metrics, truncated = Some False, error = None\<rparr>,
        [OllamaGenerate
           ''Analyze.\<newline>\<newline>Return JSON. "custom_fields":     {}\<newline>        "abcde"\<newline>        ''
           (generateSystemPrompt ''"custom_fields":     {}'') (Num 1042) DocumentAnalysisSchema])\<close>
  by (simp add: world0_def io_defs ollama_defs prompt_defs Let_def)

text \<open>
  A token limit that is no number: \<^verbatim>\<open>NaN <= 0\<close> is false, so \<open>analyzeDocument\<close> of the
  structured-output adapter goes on, calls the truncation with \<^verbatim>\<open>NaN\<close> and sends the
  request; the free-text adapter sends \<^verbatim>\<open>NaN\<close> as \<open>num_ctx\<close>.
\<close>

lemma limit_that_is_no_number:
  \<open>snd (azure_analyzeDocument (world0\<lparr>tokenLimit := NaN\<rparr>) False ''abc'' [] [] [] None None None)
     = [Truncate ''abc'' NaN (Some ''gpt''),
        ChatCompletion
          [(''system'', ''Analyze.\<newline>\<newline>Return JSON. "custom_fields":     {}''), (''user'', ''abc'')]
          None]
   \<and> snd (ollama_analyzePlayground (world0\<lparr>tokenLimit := NaN\<rparr>) ''abc'' ''Prompt'')
     = [OllamaGenerate ''Prompt\<newline>\<newline>"abc"'' generatePlaygroundSystemPrompt NaN PlaygroundSchema]\<close>
  by (simp add: world0_def io_defs azure_defs ollama_defs prompt_defs Let_def json_parse_def
      parse_or_throw_def char_class_defs)

subsection \<open>Failures inside the analysis operations\<close>

lemma azure_missing_client:
  assumes "\<not> client" "aiProvider w \<noteq> ''azure''"
  shows "azure_analyzeDocument w client content tags corrs types id' cp ext
           = (Inr (error_result (Error ''AzureOpenAI client not initialized'')), [])"
    and "azure_analyzePlayground w client content prompt
           = (Inr (error_result (Error ''AzureOpenAI client not initialized - missing API key'')), [])"
  using assms
  by (simp_all add: azure_analyzeDocument_def azure_analyzePlayground_def azure_initialize_def io_defs)

lemma azure_document_budget_error:
  assumes "azure_initialize w client = Inr True"
    and "fst (azure_thumbnail w id') = Inr ()"
    and "fst (azure_assemblePrompt w tags corrs types cp ext) = Inr (sp, pt, v)"
    and "calculateTotalPromptTokens w sp pt (AZURE_DEPLOYMENT_NAME w) = Inr tp"
    and "js_le (js_sub (tokenLimit w) (js_add tp (responseTokens w))) (Num 0)"
  shows "fst (azure_analyzeDocument w client content tags corrs types id' cp ext)
           = Inr (error_result
               (Error ''Token limit exceeded: prompt too large for available token limit''))"
  using assms by (simp add: azure_analyzeDocument_def io_simps Let_def)

lemma azure_readResponse_no_content:
  "\<not> string_truthy (message_content resp) \<Longrightarrow>
   azure_readResponse w resp = Inl (Error ''Invalid API response structure'')"
  by (simp add: azure_readResponse_def)

lemma azure_readResponse_unparseable:
  "string_truthy (message_content resp) \<Longrightarrow> usage resp = Some u \<Longrightarrow>
   JSON_parse w (strip_code_fences (the (message_content resp))) = None \<Longrightarrow>
   azure_readResponse w resp = Inl (Error ''Invalid JSON response from API'')"
  by (simp add: azure_readResponse_def)

lemma azure_readResponse_wrong_structure:
  "string_truthy (message_content resp) \<Longrightarrow> usage resp = Some u \<Longrightarrow>
   JSON_parse w (strip_code_fences (the (message_content resp))) = Some parsed \<Longrightarrow>
   \<not> js_truthy (Some parsed) \<or> \<not> is_array (js_get parsed ''tags'')
     \<or> \<not> is_string (js_get parsed ''correspondent'') \<Longrightarrow>
   azure_readResponse w resp
     = Inl (Error ''Invalid response structure: missing tags array or correspondent string'')"
  by (auto simp add: azure_readResponse_def)

lemma processOllamaResponse_no_response:
  "\<not> js_truthy (js_get data ''response'') \<Longrightarrow>
   processOllamaResponse w data = Inl (Error ''No response data from Ollama API'')"
  by (simp add: processOllamaResponse_def)

lemma processOllamaResponse_structured:
  "js_get data ''response'' = Some v \<Longrightarrow> is_object v \<Longrightarrow>
   processOllamaResponse w data = Inr (parsed_fields v)"
  by (cases v) (simp_all add: processOllamaResponse_def)

lemma processOllamaResponse_text:
  "js_get data ''response'' = Some (JStr text') \<Longrightarrow> text' \<noteq> [] \<Longrightarrow>
   processOllamaResponse w data = Inr (fst (parseResponse (JSON_parse w) text'))"
  by (simp add: processOllamaResponse_def)

lemma parseResponse_unparseable:
  "match_json_span text' = Some j \<Longrightarrow> parse_attempt parse j = None \<Longrightarrow>
   parse_attempt parse (sanitizeJsonString j) = None \<Longrightarrow>
   fst (parseResponse parse text') = empty_document"
  by (simp add: parseResponse_def Let_def)

lemma parsed_fields_defaults:
  "\<not> is_array (js_get v ''tags'') \<Longrightarrow> js_get (parsed_fields v) ''tags'' = Some (JArr [])"
  "\<not> js_truthy (js_get v ''correspondent'') \<Longrightarrow>
     js_get (parsed_fields v) ''correspondent'' = Some JNull"
  by (cases "js_get v ''tags''" rule: is_array.cases; simp add: parsed_fields_def or_null_def)+

subsection \<open>Question answering: outcomes and the example world\<close>

lemma string_of_small_nat:
  "string_of_nat (Suc 0) = ''1''" "string_of_nat 1 = ''1''" "string_of_nat 2 = ''2''"
  "string_of_nat 7 = ''7''"
  by code_simp+

lemmas rag_defs = rag_world0_def three_sources_def tag_cache0_def paper_def invoice_def
  spec_reference_source_def resolve_tag_names_def resolve_tag_def
  make_reference_document_def or_else_def field_or_def enrich_sources_def
  enrich_source_def source_label_def full_document_content_def
  enhanced_context_def reference_info_def reference_entry_def string_of_small_nat

lemma ask_retrieval_fails:
  "post_context w q = Inl e \<Longrightarrow> askQuestion w q = (Inl generic_failure, [])"
  by (simp add: askQuestion_def io_defs)

lemma ask_cache_fails:
  "post_context w q = Inr (c, Some srcs) \<Longrightarrow> srcs \<noteq> [] \<Longrightarrow> ensureTagCache w = Inl e
     \<Longrightarrow> askQuestion w q = (Inl generic_failure, [])"
  by (simp add: askQuestion_def io_defs)

lemma ask_service_fails:
  "post_context w q = Inr (c, srcs0) \<Longrightarrow> getService w = Inl e
     \<Longrightarrow> askQuestion w q = (Inl generic_failure, [])"
  by (simp add: askQuestion_def io_defs Let_def split: sum.splits option.splits)

lemma ask_events:
  "post_context w q = Inr (c, Some srcs) \<Longrightarrow> srcs \<noteq> [] \<Longrightarrow> ensureTagCache w = Inr cache
     \<Longrightarrow> getService w = Inr u \<Longrightarrow>
     askQuestion w q
       = (Inr \<lparr>answer =
                 (case generateText w (compose_prompt q (enhanced_context w c srcs)
                                         (enrich_sources w cache srcs)) of
                    Inl err \<Rightarrow> apology | Inr a \<Rightarrow> a),
               sources = Some srcs\<rparr>,
          [GenerateText (compose_prompt q (enhanced_context w c srcs)
                           (enrich_sources w cache srcs))])"
  by (simp add: askQuestion_def io_defs Let_def split: sum.splits)

lemma ask_without_sources:
  "post_context w q = Inr (c, srcs0) \<Longrightarrow> srcs0 = None \<or> srcs0 = Some [] \<Longrightarrow> getService w = Inr u
     \<Longrightarrow> askQuestion w q
       = (Inr \<lparr>answer =
                 (case generateText w (compose_prompt q c
                    \<lparr>hasReferenceTag = False, sourceInfo = [], referenceDocuments = []\<rparr>) of
                    Inl err \<Rightarrow> apology | Inr a \<Rightarrow> a),
               sources = srcs0\<rparr>,
          [GenerateText (compose_prompt q c
             \<lparr>hasReferenceTag = False, sourceInfo = [], referenceDocuments = []\<rparr>)])"
  by (auto simp add: askQuestion_def io_defs Let_def split: sum.splits)

lemma ask_error_is_generic:
  "fst (askQuestion w q) = Inl err \<Longrightarrow> err = generic_failure \<and> snd (askQuestion w q) = []"
  by (auto simp add: askQuestion_def io_defs Let_def split: sum.splits option.splits prod.splits if_splits)

lemma world0_reference_documents:
  \<open>List.map_filter (spec_reference_source rag_world0 tag_cache0) three_sources
     = [\<lparr>ref_id = 1, ref_title = ''Swimming'', ref_created = Text ''2008-01-01'',
         ref_correspondent = Number 7, ref_tags = [reference_tag, ''Invoice''],
         ref_content = ''Text of the paper...''\<rparr>]\<close>
  by (simp add: rag_defs reference_tag_def)

lemma world0_source_info:
  \<open>sourceInfo (enrich_sources rag_world0 tag_cache0 three_sources)
     = ''Document: Paper, Tags: '' @ reference_tag
         @ '', Invoice\<newline>Document: Document 2, Tags: Invoice\<newline>''\<close>
  by (simp add: rag_defs reference_tag_def)

lemma world0_enhanced_context:
  \<open>enhanced_context rag_world0 ''Summary.'' three_sources
     = ''Summary.\<newline>\<newline>Full document content for Paper:\<newline>Full text\<newline>\<newline>''
         @ ''Full document content for Document 2:\<newline>Full text''\<close>
  by (simp add: rag_defs)

lemma world0_untagged:
  \<open>List.map_filter
      (spec_reference_source rag_world0 [\<lparr>tag_id = 11, tag_name = Some ''Invoice''\<rparr>]) three_sources
     = []
   \<and> sourceInfo (enrich_sources rag_world0 [\<lparr>tag_id = 11, tag_name = Some ''Invoice''\<rparr>] three_sources)
     = ''Document: Paper, Tags: Invoice\<newline>Document: Document 2, Tags: Invoice\<newline>''\<close>
  by (simp add: rag_defs reference_tag_def)

section \<open>The claims\<close>

text \<open>
  C7. For every text and every non-negative token limit \<open>n\<close>, the free-text adapter's
  truncation returns a prefix of the text whose estimate (a quarter of the length,
  rounded up) is at most \<open>n\<close>; truncating twice is truncating once; a text within the
  limit comes back unchanged. \<open>_validateAndTruncateExternalApiData\<close> applies this step to
  every non-empty text. The character-based \<open>_truncateContent\<close> likewise returns a
  prefix, is idempotent, and under a limit of \<open>n\<close> characters stays within \<open>n\<close>
  estimated tokens and leaves a text of at most \<open>n\<close> characters unchanged.
\<close>

theorem truncate_prefix_bounded_idempotent:
  "(0 \<le> n \<longrightarrow>
      prefix (truncateDataString text n) text
      \<and> estimateTokens (truncateDataString text n) \<le> n
      \<and> truncateDataString (truncateDataString text n) n = truncateDataString text n
      \<and> (estimateTokens text \<le> n \<longrightarrow> truncateDataString text n = text)
      \<and> (text \<noteq> [] \<longrightarrow>
            ollama_validateAndTruncateExternalApiData stringify2 (Some (ApiText text)) n
              = Some (truncateDataString text n)))
   \<and> prefix (truncateContentTo m content) content
   \<and> truncateContentTo m (truncateContentTo m content) = truncateContentTo m content
   \<and> (m = Some (Finite n) \<and> 0 \<le> n \<longrightarrow>
        estimateTokens (truncateContentTo m content) \<le> n
        \<and> (int (length content) \<le> n \<longrightarrow> truncateContentTo m content = content))"
proof -
  have a: "prefix (truncateContentTo m content) content"
    by (cases m) (simp_all add: truncateContentTo_def substring0_prefix)
  have b: "truncateContentTo m (truncateContentTo m content) = truncateContentTo m content"
    by (cases m) (simp_all add: truncateContentTo_def substring0_idem)
  have c: "estimateTokens (truncateContentTo m content) \<le> n"
    if "m = Some (Finite n)" "0 \<le> n"
  proof -
    have "length (take (nat n) content) \<le> nat n" by simp
    then have "(length (take (nat n) content) + 3) div 4 \<le> nat n" by linarith
    then show ?thesis using that by (simp add: truncateContentTo_def estimateTokens_def)
  qed
  have d: "truncateContentTo m content = content"
    if "m = Some (Finite n)" "int (length content) \<le> n"
    using that by (simp add: truncateContentTo_def)
  have e: "ollama_validateAndTruncateExternalApiData stringify2 (Some (ApiText text)) n
             = Some (truncateDataString text n)" if "text \<noteq> []"
    using that by (simp add: ollama_validateAndTruncateExternalApiData_def)
  show ?thesis
    using a b c d e truncateDataString_prefix truncateDataString_bound truncateDataString_idem
      truncateDataString_short
    by blast
qed

theorem truncate_prefix_bounded_idempotent_witness:
  "(0::int) \<le> 2
   \<and> truncateDataString ''abcdefghij'' 2 = ''abcdefgh''
   \<and> prefix ''abcdefgh'' ''abcdefghij''
   \<and> estimateTokens ''abcdefgh'' \<le> 2
   \<and> truncateDataString ''abcdefgh'' 2 = ''abcdefgh''
   \<and> ollama_validateAndTruncateExternalApiData (\<lambda>v. []) (Some (ApiText ''abcdefghij'')) 2
        = Some ''abcdefgh''
   \<and> truncateContentTo (Some (Finite 2)) ''abcdefghij'' = ''ab''
   \<and> estimateTokens ''ab'' \<le> 2"
  using truncate_prefix_bounded_idempotent [of 2 "''abcdefghij''" "\<lambda>v. []" "Some (Finite 2)" "''abcdefghij''"]
  by (simp add: truncateDataString_def estimateTokens_def truncateContentTo_def)

text \<open>
  C3, as the code has it. For every free-text response: the span from the first opening
  brace to the last closing brace after it is extracted; when there is none (in
  particular when the text holds no balanced brace span) the canonical empty result is
  returned and nothing is parsed. A span that parses is returned through its fields
  after one parse. Otherwise one repair pass (trailing commas before a closing brace or
  bracket removed, property names quoted) is followed by one more parse, whose failure
  gives the canonical empty result. The fenced example with bare keys and a trailing
  comma normalises to tags \<open>["A"]\<close> and correspondent \<open>"X"\<close>.
\<close>

theorem parseResponse_repairs_once:
  "(match_json_span response = None \<longrightarrow> parseResponse parse response = (empty_document, []))
   \<and> (spec_first_balanced_span response = None \<longrightarrow>
        parseResponse parse response = (empty_document, []))
   \<and> (\<forall>j. match_json_span response = Some j \<longrightarrow>
        (\<exists>pre post. response = pre @ j @ post \<and> CHR ''{'' \<notin> set pre \<and> CHR ''}'' \<notin> set post
           \<and> hd j = CHR ''{'' \<and> last j = CHR ''}'')
        \<and> (\<forall>v. parse_attempt parse j = Some v \<longrightarrow>
              parseResponse parse response = (parsed_fields v, [j]))
        \<and> (parse_attempt parse j = None \<longrightarrow>
              snd (parseResponse parse response) = [j, sanitizeJsonString j]
              \<and> (parse_attempt parse (sanitizeJsonString j) = None \<longrightarrow>
                    fst (parseResponse parse response) = empty_document)
              \<and> (\<forall>v. parse_attempt parse (sanitizeJsonString j) = Some v \<longrightarrow>
                    fst (parseResponse parse response) = sanitized_fields v)))
   \<and> parseResponse parse_or_throw fenced_example =
       (JObj [(''tags'', JArr [JStr ''A'']), (''correspondent'', JStr ''X''), (''title'', JNull),
              (''document_date'', JNull), (''language'', JNull)],
        [''{tags: [\"A\"], correspondent: \"X\",}'', ''{\"tags\": [\"A\"], \"correspondent\": \"X\"}''])"
proof -
  have none: "parseResponse parse response = (empty_document, [])"
    if "match_json_span response = None"
    using that by (simp add: parseResponse_def)
  have some: "(\<exists>pre post. response = pre @ j @ post \<and> CHR ''{'' \<notin> set pre \<and> CHR ''}'' \<notin> set post
           \<and> hd j = CHR ''{'' \<and> last j = CHR ''}'')
        \<and> (\<forall>v. parse_attempt parse j = Some v \<longrightarrow>
              parseResponse parse response = (parsed_fields v, [j]))
        \<and> (parse_attempt parse j = None \<longrightarrow>
              snd (parseResponse parse response) = [j, sanitizeJsonString j]
              \<and> (parse_attempt parse (sanitizeJsonString j) = None \<longrightarrow>
                    fst (parseResponse parse response) = empty_document)
              \<and> (\<forall>v. parse_attempt parse (sanitizeJsonString j) = Some v \<longrightarrow>
                    fst (parseResponse parse response) = sanitized_fields v))"
    if m: "match_json_span response = Some j" for j
  proof -
    have "\<exists>pre post. response = pre @ j @ post \<and> CHR ''{'' \<notin> set pre \<and> CHR ''}'' \<notin> set post
           \<and> hd j = CHR ''{'' \<and> last j = CHR ''}''"
      using match_json_span_shape [OF m] by blast
    moreover have "snd (parseResponse parse response) = [j, sanitizeJsonString j]"
      if "parse_attempt parse j = None"
      using that m by (simp add: parseResponse_def Let_def split: option.splits)
    ultimately show ?thesis
      using m by (auto simp: parseResponse_def Let_def)
  qed
  have nospan: "parseResponse parse response = (empty_document, [])"
    if "spec_first_balanced_span response = None"
    by (rule none) (rule no_balanced_span_no_match [OF that])
  show ?thesis
  proof (intro conjI)
    show "match_json_span response = None \<longrightarrow> parseResponse parse response = (empty_document, [])"
      using none by simp
    show "spec_first_balanced_span response = None \<longrightarrow>
        parseResponse parse response = (empty_document, [])"
      using nospan by simp
    show "parseResponse parse_or_throw fenced_example =
       (JObj [(''tags'', JArr [JStr ''A'']), (''correspondent'', JStr ''X''), (''title'', JNull),
              (''document_date'', JNull), (''language'', JNull)],
        [''{tags: [\"A\"], correspondent: \"X\",}'', ''{\"tags\": [\"A\"], \"correspondent\": \"X\"}''])"
      by (rule fenced_example_result)
  qed (use some in blast)
qed


theorem parseResponse_repairs_once_witness:
  \<open>match_json_span fenced_example = Some ''{tags: ["A"], correspondent: "X",}''
   \<and> parse_attempt parse_or_throw ''{tags: ["A"], correspondent: "X",}'' = None
   \<and> snd (parseResponse parse_or_throw fenced_example)
       = [''{tags: ["A"], correspondent: "X",}'',
          sanitizeJsonString ''{tags: ["A"], correspondent: "X",}'']
   \<and> parse_attempt parse_or_throw (sanitizeJsonString ''{tags: ["A"], correspondent: "X",}'')
       = Some (JObj [(''tags'', JArr [JStr ''A'']), (''correspondent'', JStr ''X'')])
   \<and> fst (parseResponse parse_or_throw fenced_example)
       = sanitized_fields (JObj [(''tags'', JArr [JStr ''A'']), (''correspondent'', JStr ''X'')])
   \<and> match_json_span ''{"tags": ["B"]}'' = Some ''{"tags": ["B"]}''
   \<and> parse_attempt parse_or_throw ''{"tags": ["B"]}'' = Some (JObj [(''tags'', JArr [JStr ''B''])])
   \<and> parseResponse parse_or_throw ''{"tags": ["B"]}''
       = (parsed_fields (JObj [(''tags'', JArr [JStr ''B''])]), [''{"tags": ["B"]}''])
   \<and> match_json_span ''no json here }{'' = None
   \<and> spec_first_balanced_span ''no json here }{'' = None
   \<and> parseResponse parse_or_throw ''no json here }{'' = (empty_document, [])
   \<and> json_parse ''{tags: ["A"], correspondent: "X",}'' = SyntaxError
   \<and> json_parse ''{"tags": ["A"], "correspondent": "X"}''
       = Parsed (JObj [(''tags'', JArr [JStr ''A'']), (''correspondent'', JStr ''X'')])
   \<and> json_parse ''{"tags": ["B"]}'' = Parsed (JObj [(''tags'', JArr [JStr ''B''])])\<close>
proof -
  have p1: \<open>json_parse ''{tags: ["A"], correspondent: "X",}'' = SyntaxError\<close>
    by (simp add: json_parse_def char_class_defs)
  have p2: \<open>json_parse ''{"tags": ["A"], "correspondent": "X"}''
       = Parsed (JObj [(''tags'', JArr [JStr ''A'']), (''correspondent'', JStr ''X'')])\<close>
    by (simp add: json_parse_def char_class_defs)
  have p3: \<open>json_parse ''{"tags": ["B"]}'' = Parsed (JObj [(''tags'', JArr [JStr ''B''])])\<close>
    by (simp add: json_parse_def char_class_defs)
  have b1: \<open>match_json_span ''{"tags": ["B"]}'' = Some ''{"tags": ["B"]}''\<close>
    by (simp add: match_json_span_def)
  have b2: \<open>parse_attempt parse_or_throw ''{"tags": ["B"]}'' = Some (JObj [(''tags'', JArr [JStr ''B''])])\<close>
    by (simp add: parse_attempt_def parse_or_throw_def json_parse_def char_class_defs)
  have n1: "match_json_span ''no json here }{'' = None"
    by (simp add: match_json_span_def)
  have n2: "spec_first_balanced_span ''no json here }{'' = None"
    by simp
  show ?thesis
    using parseResponse_repairs_once [of fenced_example parse_or_throw]
      parseResponse_repairs_once [of \<open>''{"tags": ["B"]}''\<close> parse_or_throw]
      parseResponse_repairs_once [of "''no json here }{''" parse_or_throw]
    by (simp add: fenced_example_span fenced_example_sanitized fenced_example_first_parse
        fenced_example_second_parse b1 b2 n1 n2 p1 p2 p3)
qed

text \<open>
  C3 as stated fails: the extracted span is not the first balanced one. On a response
  holding an object followed by a second pair of braces, the first balanced span is the
  object, which parses to tags \<open>["A"]\<close> and correspondent \<open>"X"\<close>; the code extracts
  the whole text, which does not parse even after the repair, and returns the canonical
  empty result.
\<close>

theorem first_balanced_span_counterexample:
  \<open>spec_first_balanced_span ''{"tags": ["A"], "correspondent": "X"} {}''
     = Some ''{"tags": ["A"], "correspondent": "X"}''
   \<and> match_json_span ''{"tags": ["A"], "correspondent": "X"} {}''
     = Some ''{"tags": ["A"], "correspondent": "X"} {}''
   \<and> map_option parsed_fields (parse_attempt parse_or_throw ''{"tags": ["A"], "correspondent": "X"}'')
     = Some (JObj [(''tags'', JArr [JStr ''A'']), (''correspondent'', JStr ''X''),
                   (''title'', JNull), (''document_date'', JNull), (''document_type'', JNull),
                   (''language'', JNull), (''custom_fields'', JNull)])
   \<and> fst (parseResponse parse_or_throw ''{"tags": ["A"], "correspondent": "X"} {}'')
     = empty_document
   \<and> json_parse ''{"tags": ["A"], "correspondent": "X"}''
     = Parsed (JObj [(''tags'', JArr [JStr ''A'']), (''correspondent'', JStr ''X'')])
   \<and> json_parse ''{"tags": ["A"], "correspondent": "X"} {}'' = SyntaxError
   \<and> json_parse (sanitizeJsonString ''{"tags": ["A"], "correspondent": "X"} {}'') = SyntaxError\<close>
  by (simp add: normaliser_defs char_class_defs)

text \<open>
  C10. Every result of the free-text adapter's \<open>analyzeDocument\<close> that carries no error
  reports \<open>truncated: false\<close>; the operation always returns such a result or an error
  result. This holds for every content, so also when \<open>_truncateContent\<close> has shortened
  it before the wire call.
\<close>

theorem ollama_truncated_flag_is_false:
  "\<exists>r. fst (ollama_analyzeDocument w content existingTags existingCorrespondentList
              existingDocumentTypesList id' customPrompt externalApiData) = Inr r
       \<and> (error r = None \<longrightarrow> truncated r = Some False)"
proof -
  obtain r where r: "fst (ollama_analyzeDocument w content existingTags existingCorrespondentList
              existingDocumentTypesList id' customPrompt externalApiData) = Inr r"
    using ollama_document_total by blast
  then have "error r = None \<longrightarrow> truncated r = Some False"
    using returnsD [OF ollama_document_shape r] by simp
  with r show ?thesis by auto
qed

theorem ollama_truncated_flag_is_false_witness:
  \<open>truncateContent (world0\<lparr>CONTENT_MAX_LENGTH := Some (Finite 5)\<rparr>) ''abcdefghij'' = ''abcde''
   \<and> (\<exists>r. fst (ollama_analyzeDocument (world0\<lparr>CONTENT_MAX_LENGTH := Some (Finite 5)\<rparr>)
                 ''abcdefghij'' [] [] [] None None None) = Inr r
          \<and> error r = None \<and> truncated r = Some False)
   \<and> snd (ollama_analyzeDocument (world0\<lparr>CONTENT_MAX_LENGTH := Some (Finite 5)\<rparr>)
            ''abcdefghij'' [] [] [] None None None)
       = [OllamaGenerate
            ''Analyze.\<newline>\<newline>Return JSON. "custom_fields":     {}\<newline>        "abcde"\<newline>        ''
            (generateSystemPrompt ''"custom_fields":     {}'') (Num 1042) DocumentAnalysisSchema]\<close>
proof -
  have cut: "truncateContent (world0\<lparr>CONTENT_MAX_LENGTH := Some (Finite 5)\<rparr>) ''abcdefghij'' = ''abcde''"
    by (simp add: truncateContent_def truncateContentTo_def)
  show ?thesis
    using ollama_truncated_flag_is_false [of "world0\<lparr>CONTENT_MAX_LENGTH := Some (Finite 5)\<rparr>"
        "''abcdefghij''" "[]" "[]" "[]" None None None]
    by (simp add: short_world_run cut)
qed

text \<open>
  C8. For every backend and every outcome of the probe request, \<open>checkStatus\<close> returns:
  the structured-output adapter (in its effective definition, and in the one it shadows)
  gives \<open>{status: 'ok', model}\<close> with the deployment name or a record with status
  \<open>'error'\<close>; the free-text adapter gives \<open>{status: 'ok', model}\<close> or \<open>{status: 'error'}\<close>.
\<close>

theorem checkStatus_never_throws:
  "(\<exists>r. fst (azure_checkStatus w client) = Inr r
        \<and> (status r = ''ok'' \<and> status_model r = map_option JStr (AZURE_DEPLOYMENT_NAME w)
              \<and> status_error r = None
            \<or> status r = ''error'' \<and> status_model r = None \<and> status_error r = None))
   \<and> (\<exists>r. fst (azure_checkStatus_shadowed w client) = Inr r
        \<and> (status r = ''ok'' \<and> status_model r = map_option JStr (AZURE_DEPLOYMENT_NAME w)
              \<and> status_error r = None
            \<or> status r = ''error'' \<and> status_model r = None \<and> status_error r \<noteq> None))
   \<and> (\<exists>r. fst (ollama_checkStatus w) = Inr r
        \<and> (status r = ''ok'' \<and> status_error r = None
            \<or> status r = ''error'' \<and> status_model r = None \<and> status_error r = None))"
proof (intro conjI)
  show "\<exists>r. fst (azure_checkStatus w client) = Inr r
        \<and> (status r = ''ok'' \<and> status_model r = map_option JStr (AZURE_DEPLOYMENT_NAME w)
              \<and> status_error r = None
            \<or> status r = ''error'' \<and> status_model r = None \<and> status_error r = None)"
    by (auto simp add: azure_checkStatus_def chat_create_def io_simps split: sum.splits)
  show "\<exists>r. fst (azure_checkStatus_shadowed w client) = Inr r
        \<and> (status r = ''ok'' \<and> status_model r = map_option JStr (AZURE_DEPLOYMENT_NAME w)
              \<and> status_error r = None
            \<or> status r = ''error'' \<and> status_model r = None \<and> status_error r \<noteq> None)"
    by (auto simp add: azure_checkStatus_shadowed_def chat_create_def io_simps split: sum.splits)
  show "\<exists>r. fst (ollama_checkStatus w) = Inr r
        \<and> (status r = ''ok'' \<and> status_error r = None
            \<or> status r = ''error'' \<and> status_model r = None \<and> status_error r = None)"
    by (auto simp add: ollama_checkStatus_def io_simps split_beta split: sum.splits option.splits)
qed

theorem checkStatus_never_throws_witness:
  \<open>fst (azure_checkStatus world0 False)
     = Inr \<lparr>status = ''ok'', status_model = Some (JStr ''gpt''), status_error = None\<rparr>
   \<and> fst (azure_checkStatus (world0\<lparr>chat_completions_create :=
              (\<lambda>messages max_tokens. Inl (Error ''Connection error.''))\<rparr>) False)
     = Inr \<lparr>status = ''error'', status_model = None, status_error = None\<rparr>
   \<and> fst (azure_checkStatus_shadowed (world0\<lparr>aiProvider := ''ollama''\<rparr>) False)
     = Inr \<lparr>status = ''error'', status_model = None,
            status_error = Some ''AzureOpenAI client not initialized - missing API key''\<rparr>
   \<and> fst (ollama_checkStatus world0)
     = Inr \<lparr>status = ''ok'', status_model = Some (JStr ''llama3''), status_error = None\<rparr>
   \<and> fst (ollama_checkStatus (world0\<lparr>ollama_ps := Inr (200, None)\<rparr>))
     = Inr \<lparr>status = ''error'', status_model = None, status_error = None\<rparr>
   \<and> fst (ollama_checkStatus (world0\<lparr>ollama_ps := Inl (Error ''connect ECONNREFUSED'')\<rparr>))
     = Inr \<lparr>status = ''error'', status_model = None, status_error = None\<rparr>\<close>
  using checkStatus_never_throws [of world0 False]
  by (simp add: world0_def azure_checkStatus_def azure_checkStatus_shadowed_def
      ollama_checkStatus_def ollama_models_name_def azure_initialize_def chat_create_def io_defs)

text \<open>
  C9 fails on the free-text adapter. \<open>_buildPrompt\<close> calls the asynchronous
  \<open>_validateAndTruncateExternalApiData\<close> without awaiting it, so what it appends under
  "Additional context from external API" is the rendering of a promise, not the
  validated text. In the example world, with the external data \<open>weather: sunny\<close>: the
  helper itself yields that text; the prompt built, and sent, holds \<open>[object Promise]\<close>
  in its place; the structured-output adapter, which awaits the same helper, sends the
  text.
\<close>

theorem ollama_external_data_is_a_promise:
  \<open>ollama_validateAndTruncateExternalApiData (JSON_stringify2 world0)
       (Some (ApiText ''weather: sunny'')) 500 = Some ''weather: sunny''
   \<and> ollama_buildPrompt world0 ''abc'' [] [] [] (Some (ApiText ''weather: sunny''))
       = Inr (''Analyze.\<newline>\<newline>Return JSON. "custom_fields":     {}''
              @ ''\<newline>\<newline>Additional context from external API:\<newline>[object Promise]''
              @ ''\<newline>        "abc"\<newline>        '')
   \<and> snd (ollama_analyzeDocument world0 ''abc'' [] [] [] None None
            (Some (ApiText ''weather: sunny'')))
       = [OllamaGenerate
            (''Analyze.\<newline>\<newline>Return JSON. "custom_fields":     {}''
              @ ''\<newline>\<newline>Additional context from external API:\<newline>[object Promise]''
              @ ''\<newline>        "abc"\<newline>        '')
            (generateSystemPrompt ''"custom_fields":     {}'') (Num 1056) DocumentAnalysisSchema]
   \<and> snd (azure_analyzeDocument world0 False ''abc'' [] [] [] None None
            (Some (ApiText ''weather: sunny'')))
       = [Truncate ''abc'' (Num 975) (Some ''gpt''),
          ChatCompletion
            [(''system'', ''Analyze.\<newline>\<newline>Return JSON. "custom_fields":     {}''
                @ ''\<newline>\<newline>Additional context from external API:\<newline>weather: sunny''),
             (''user'', ''abc'')] None]\<close>
  by (simp add: world0_def io_defs ollama_defs azure_defs prompt_defs Let_def json_parse_def
      parse_or_throw_def char_class_defs)

text \<open>
  C1 fails on \<open>analyzePlayground\<close> of the structured-output adapter: it has no check of
  \<open>availableTokens\<close>. In a world with a token limit of 100 and a response reservation of
  100, whatever \<open>truncateToTokenLimit\<close> does: the playground calls it on the content
  with the limit -88 and, when it returns, sends the chat request with what it returned;
  \<open>analyzeDocument\<close> in the same world stops with the budget error and sends nothing.
\<close>

theorem azure_playground_has_no_budget_guard:
  \<open>snd (azure_analyzePlayground
          (world0\<lparr>tokenLimit := Num 100, responseTokens := Num 100, truncateToTokenLimit := tr\<rparr>)
          False ''abcdefghij'' ''Prompt'')
     = Truncate ''abcdefghij'' (Num (- 88)) None #
         (case tr ''abcdefghij'' (Num (- 88)) None of
            Inl e \<Rightarrow> []
          | Inr t \<Rightarrow> [ChatCompletion [(''system'', ''Prompt'' @ musthavePrompt), (''user'', t)] None])
   \<and> azure_analyzeDocument
         (world0\<lparr>tokenLimit := Num 100, responseTokens := Num 100, truncateToTokenLimit := tr\<rparr>)
         False ''abcdefghij'' [] [] [] None None None
     = (Inr (error_result
          (Error ''Token limit exceeded: prompt too large for available token limit'')), [])\<close>
proof -
  have "estimateTokens (''Prompt'' @ musthavePrompt) = 88"
    by (simp add: estimateTokens_def musthavePrompt_def)
  then have a: \<open>snd (azure_analyzePlayground
          (world0\<lparr>tokenLimit := Num 100, responseTokens := Num 100, truncateToTokenLimit := tr\<rparr>)
          False ''abcdefghij'' ''Prompt'')
     = Truncate ''abcdefghij'' (Num (- 88)) None #
         (case tr ''abcdefghij'' (Num (- 88)) None of
            Inl e \<Rightarrow> []
          | Inr t \<Rightarrow> [ChatCompletion [(''system'', ''Prompt'' @ musthavePrompt), (''user'', t)] None])\<close>
    by (auto simp add: world0_def azure_analyzePlayground_def azure_initialize_def io_simps
        truncateToTokenLimit_call_def chat_create_def Let_def split: sum.splits)
  have b: \<open>azure_analyzeDocument
         (world0\<lparr>tokenLimit := Num 100, responseTokens := Num 100, truncateToTokenLimit := tr\<rparr>)
         False ''abcdefghij'' [] [] [] None None None
     = (Inr (error_result
          (Error ''Token limit exceeded: prompt too large for available token limit'')), [])\<close>
    by (simp add: world0_def io_defs azure_defs prompt_defs Let_def)
  show ?thesis using a b by simp
qed

text \<open>
  C4, as the code has it. The four analysis operations never throw: each returns a
  result, and a result with an error carries the canonical empty document and no
  metrics. On the structured-output adapter a missing client, a budget error of
  \<open>analyzeDocument\<close>, a failing wire call, a response without content, unparseable
      JSON
  and a parsed value without a \<open>tags\<close> array or a \<open>correspondent\<close> string
      each end
  in such an error result. On the free-text adapter a failing wire call, an empty
  response body and a body without a \<open>response\<close> end in such an error result, while a
  structured \<open>response\<close> of the wrong shape is filled in with defaults and a text that
  does not parse even after the repair gives the canonical empty document, both in a
  result without an error.
\<close>

theorem analysis_failures_become_results:
  \<open>(\<exists>r. fst (azure_analyzeDocument w client content tags corrs types id' cp ext) =
      Inr r
        \<and> (error r \<noteq> None \<longrightarrow> document r = empty_document \<and> metrics
            r = None))
   \<and> (\<exists>r. fst (azure_analyzePlayground w client content prompt) = Inr r
        \<and> (error r \<noteq> None \<longrightarrow> document r = empty_document \<and> metrics
            r = None))
   \<and> (\<exists>r. fst (ollama_analyzeDocument w content tags corrs types id' cp ext) = Inr r
        \<and> (error r \<noteq> None \<longrightarrow> document r = empty_document \<and> metrics
            r = None))
   \<and> (\<exists>r. fst (ollama_analyzePlayground w content prompt) = Inr r
        \<and> (error r \<noteq> None \<longrightarrow> document r = empty_document \<and> metrics
            r = None))
   \<and> (\<not> client \<and> aiProvider w \<noteq> ''azure'' \<longrightarrow>
        azure_analyzeDocument w client content tags corrs types id' cp ext
          = (Inr (error_result (Error ''AzureOpenAI client not initialized'')), [])
        \<and> azure_analyzePlayground w client content prompt
          = (Inr (error_result (Error ''AzureOpenAI client not initialized - missing API key'')),
              []))
   \<and> (azure_initialize w client = Inr True \<and> fst (azure_thumbnail w id') = Inr ()
        \<and> fst (azure_assemblePrompt w tags corrs types cp ext) = Inr (sp, pt, v)
        \<and> calculateTotalPromptTokens w sp pt (AZURE_DEPLOYMENT_NAME w) = Inr tp
        \<and> js_le (js_sub (tokenLimit w) (js_add tp (responseTokens w))) (Num 0)
            \<longrightarrow>
        fst (azure_analyzeDocument w client content tags corrs types id' cp ext)
          = Inr (error_result
              (Error ''Token limit exceeded: prompt too large for available token limit'')))
   \<and> (ChatCompletion msgs mt
          \<in> set (snd (azure_analyzeDocument w client content tags corrs types id' cp ext))
              \<longrightarrow>
        (\<exists>tr. fst (azure_analyzeDocument w client content tags corrs types id' cp ext)
           = Inr (case chat_completions_create w msgs mt of
                    Inl e \<Rightarrow> error_result e
                  | Inr resp \<Rightarrow>
                      (case azure_readResponse w resp of
                         Inl e \<Rightarrow> error_result e
                       | Inr (d, u) \<Rightarrow>
                           \<lparr>document = d, metrics = Some u, truncated = Some tr,
                            error = None\<rparr>))))
   \<and> (ChatCompletion msgs mt
          \<in> set (snd (azure_analyzePlayground w client content prompt)) \<longrightarrow>
        (\<exists>tr. fst (azure_analyzePlayground w client content prompt)
           = Inr (case chat_completions_create w msgs mt of
                    Inl e \<Rightarrow> error_result e
                  | Inr resp \<Rightarrow>
                      (case azure_readResponse w resp of
                         Inl e \<Rightarrow> error_result e
                       | Inr (d, u) \<Rightarrow>
                           \<lparr>document = d, metrics = Some u, truncated = Some tr,
                            error = None\<rparr>))))
   \<and> (\<not> string_truthy (message_content resp) \<longrightarrow>
        azure_readResponse w resp = Inl (Error ''Invalid API response structure''))
   \<and> (string_truthy (message_content resp) \<and> usage resp = Some us
        \<and> JSON_parse w (strip_code_fences (the (message_content resp))) = None
            \<longrightarrow>
        azure_readResponse w resp = Inl (Error ''Invalid JSON response from API''))
   \<and> (string_truthy (message_content resp) \<and> usage resp = Some us
        \<and> JSON_parse w (strip_code_fences (the (message_content resp))) = Some parsed
        \<and> \<not> (js_truthy (Some parsed) \<and> is_array (js_get parsed ''tags'')
               \<and> is_string (js_get parsed ''correspondent'')) \<longrightarrow>
        azure_readResponse w resp
          = Inl (Error
              ''Invalid response structure: missing tags array or correspondent string''))
   \<and> (OllamaGenerate p s n sc
          \<in> set (snd (ollama_analyzeDocument w content tags corrs types id' cp ext))
              \<longrightarrow>
        fst (ollama_analyzeDocument w content tags corrs types id' cp ext)
          = Inr (case ollama_generate w p s n sc of
                   Inl e \<Rightarrow> error_result e
                 | Inr data \<Rightarrow>
                     if \<not> js_truthy data
                     then error_result (Error ''Invalid response from Ollama API'')
                     else
                       (case processOllamaResponse w (the data) of
                          Inl e \<Rightarrow> error_result e
                        | Inr d \<Rightarrow>
                            (case writePromptToFile w of
                               Inl e \<Rightarrow> error_result e
                             | Inr un \<Rightarrow>
                                 \<lparr>document = d, metrics = Some zero_metrics,
                                  truncated = Some False, error = None\<rparr>))))
   \<and> (OllamaGenerate p s n sc \<in> set (snd (ollama_analyzePlayground w content prompt))
       \<longrightarrow>
        fst (ollama_analyzePlayground w content prompt)
          = Inr (case ollama_generate w p s n sc of
                   Inl e \<Rightarrow> error_result e
                 | Inr data \<Rightarrow>
                     if \<not> js_truthy data
                     then error_result (Error ''Invalid response from Ollama API'')
                     else
                       (case processOllamaResponse w (the data) of
                          Inl e \<Rightarrow> error_result e
                        | Inr d \<Rightarrow>
                            \<lparr>document = d, metrics = Some zero_metrics,
                             truncated = Some False, error = None\<rparr>)))
   \<and> (\<not> js_truthy (js_get body ''response'') \<longrightarrow>
        processOllamaResponse w body = Inl (Error ''No response data from Ollama API''))
   \<and> (js_get body ''response'' = Some structured \<and> is_object structured
       \<longrightarrow>
        processOllamaResponse w body = Inr (parsed_fields structured)
        \<and> (\<not> is_array (js_get structured ''tags'') \<longrightarrow>
              js_get (parsed_fields structured) ''tags'' = Some (JArr []))
        \<and> (\<not> js_truthy (js_get structured ''correspondent'') \<longrightarrow>
              js_get (parsed_fields structured) ''correspondent'' = Some JNull))
   \<and> (js_get body ''response'' = Some (JStr text') \<and> text' \<noteq> [] \<longrightarrow>
        processOllamaResponse w body = Inr (fst (parseResponse (JSON_parse w) text')))
   \<and> (match_json_span text' = Some j \<and> parse_attempt (JSON_parse w) j = None
        \<and> parse_attempt (JSON_parse w) (sanitizeJsonString j) = None \<longrightarrow>
        fst (parseResponse (JSON_parse w) text') = empty_document)\<close>
proof (intro conjI impI; (elim conjE)?)
  show "\<exists>r. fst (azure_analyzeDocument w client content tags corrs types id' cp ext) = Inr
      r
        \<and> (error r \<noteq> None \<longrightarrow> document r = empty_document \<and> metrics
            r = None)"
    by (rule result_shape [OF azure_document_total azure_document_shape])
  show "\<exists>r. fst (azure_analyzePlayground w client content prompt) = Inr r
        \<and> (error r \<noteq> None \<longrightarrow> document r = empty_document \<and> metrics
            r = None)"
    by (rule result_shape [OF azure_playground_total azure_playground_shape])
  show "\<exists>r. fst (ollama_analyzeDocument w content tags corrs types id' cp ext) = Inr r
        \<and> (error r \<noteq> None \<longrightarrow> document r = empty_document \<and> metrics
            r = None)"
    by (rule result_shape [OF ollama_document_total ollama_document_shape])
  show "\<exists>r. fst (ollama_analyzePlayground w content prompt) = Inr r
        \<and> (error r \<noteq> None \<longrightarrow> document r = empty_document \<and> metrics
            r = None)"
    by (rule result_shape [OF ollama_playground_total ollama_playground_shape])
  show "azure_analyzeDocument w client content tags corrs types id' cp ext
          = (Inr (error_result (Error ''AzureOpenAI client not initialized'')), [])"
    if "\<not> client" "aiProvider w \<noteq> ''azure''"
    using that by (rule azure_missing_client)
  show "azure_analyzePlayground w client content prompt
          = (Inr (error_result (Error ''AzureOpenAI client not initialized - missing API key'')),
              [])"
    if "\<not> client" "aiProvider w \<noteq> ''azure''"
    using that by (rule azure_missing_client)
  show "fst (azure_analyzeDocument w client content tags corrs types id' cp ext)
          = Inr (error_result
              (Error ''Token limit exceeded: prompt too large for available token limit''))"
    if "azure_initialize w client = Inr True" "fst (azure_thumbnail w id') = Inr ()"
      "fst (azure_assemblePrompt w tags corrs types cp ext) = Inr (sp, pt, v)"
      "calculateTotalPromptTokens w sp pt (AZURE_DEPLOYMENT_NAME w) = Inr tp"
      "js_le (js_sub (tokenLimit w) (js_add tp (responseTokens w))) (Num 0)"
    using that by (rule azure_document_budget_error)
  show "\<exists>tr. fst (azure_analyzeDocument w client content tags corrs types id' cp ext)
           = Inr (case chat_completions_create w msgs mt of
                    Inl e \<Rightarrow> error_result e
                  | Inr resp \<Rightarrow>
                      (case azure_readResponse w resp of
                         Inl e \<Rightarrow> error_result e
                       | Inr (d, u) \<Rightarrow>
                           \<lparr>document = d, metrics = Some u, truncated = Some tr,
                            error = None\<rparr>))"
    if "ChatCompletion msgs mt
          \<in> set (snd (azure_analyzeDocument w client content tags corrs types id' cp ext))"
    using sendsD [OF azure_document_sends that] by blast
  show "\<exists>tr. fst (azure_analyzePlayground w client content prompt)
           = Inr (case chat_completions_create w msgs mt of
                    Inl e \<Rightarrow> error_result e
                  | Inr resp \<Rightarrow>
                      (case azure_readResponse w resp of
                         Inl e \<Rightarrow> error_result e
                       | Inr (d, u) \<Rightarrow>
                           \<lparr>document = d, metrics = Some u, truncated = Some tr,
                            error = None\<rparr>))"
    if "ChatCompletion msgs mt \<in> set (snd (azure_analyzePlayground w client content prompt))"
    using sendsD [OF azure_playground_sends that] by blast
  show "azure_readResponse w resp = Inl (Error ''Invalid API response structure'')"
    if "\<not> string_truthy (message_content resp)"
    using that by (rule azure_readResponse_no_content)
  show "azure_readResponse w resp = Inl (Error ''Invalid JSON response from API'')"
    if "string_truthy (message_content resp)" "usage resp = Some us"
      "JSON_parse w (strip_code_fences (the (message_content resp))) = None"
    using that by (rule azure_readResponse_unparseable)
  show "azure_readResponse w resp
          = Inl (Error
              ''Invalid response structure: missing tags array or correspondent string'')"
    if "string_truthy (message_content resp)" "usage resp = Some us"
      "JSON_parse w (strip_code_fences (the (message_content resp))) = Some parsed"
      "\<not> (js_truthy (Some parsed) \<and> is_array (js_get parsed ''tags'')
               \<and> is_string (js_get parsed ''correspondent''))"
    using that by (intro azure_readResponse_wrong_structure) auto
  show "fst (ollama_analyzeDocument w content tags corrs types id' cp ext)
          = Inr (case ollama_generate w p s n sc of
                   Inl e \<Rightarrow> error_result e
                 | Inr data \<Rightarrow>
                     if \<not> js_truthy data
                     then error_result (Error ''Invalid response from Ollama API'')
                     else
                       (case processOllamaResponse w (the data) of
                          Inl e \<Rightarrow> error_result e
                        | Inr d \<Rightarrow>
                            (case writePromptToFile w of
                               Inl e \<Rightarrow> error_result e
                             | Inr un \<Rightarrow>
                                 \<lparr>document = d, metrics = Some zero_metrics,
                                  truncated = Some False, error = None\<rparr>)))"
    if "OllamaGenerate p s n sc
          \<in> set (snd (ollama_analyzeDocument w content tags corrs types id' cp ext))"
    using sendsD [OF ollama_document_sends that] by blast
  show "fst (ollama_analyzePlayground w content prompt)
          = Inr (case ollama_generate w p s n sc of
                   Inl e \<Rightarrow> error_result e
                 | Inr data \<Rightarrow>
                     if \<not> js_truthy data
                     then error_result (Error ''Invalid response from Ollama API'')
                     else
                       (case processOllamaResponse w (the data) of
                          Inl e \<Rightarrow> error_result e
                        | Inr d \<Rightarrow>
                            \<lparr>document = d, metrics = Some zero_metrics,
                             truncated = Some False, error = None\<rparr>))"
    if "OllamaGenerate p s n sc \<in> set (snd (ollama_analyzePlayground w content prompt))"
    using sendsD [OF ollama_playground_sends that] by blast
  show "processOllamaResponse w body = Inl (Error ''No response data from Ollama API'')"
    if "\<not> js_truthy (js_get body ''response'')"
    using that by (rule processOllamaResponse_no_response)
  show "processOllamaResponse w body = Inr (parsed_fields structured)"
    if "js_get body ''response'' = Some structured" "is_object structured"
    using that by (rule processOllamaResponse_structured)
  show "js_get (parsed_fields structured) ''tags'' = Some (JArr [])"
    if "\<not> is_array (js_get structured ''tags'')"
    using that by (rule parsed_fields_defaults)
  show "js_get (parsed_fields structured) ''correspondent'' = Some JNull"
    if "\<not> js_truthy (js_get structured ''correspondent'')"
    using that by (rule parsed_fields_defaults)
  show "processOllamaResponse w body = Inr (fst (parseResponse (JSON_parse w) text'))"
    if "js_get body ''response'' = Some (JStr text')" "text' \<noteq> []"
    using that by (rule processOllamaResponse_text)
  show "fst (parseResponse (JSON_parse w) text') = empty_document"
    if "match_json_span text' = Some j" "parse_attempt (JSON_parse w) j = None"
      "parse_attempt (JSON_parse w) (sanitizeJsonString j) = None"
    using that by (rule parseResponse_unparseable)
qed

theorem analysis_failures_become_results_witness:
  \<open>azure_analyzeDocument (world0\<lparr>aiProvider := ''ollama''\<rparr>) False ''abc'' []
      [] [] None None None
     = (Inr (error_result (Error ''AzureOpenAI client not initialized'')), [])
   \<and> (\<exists>r. fst (azure_analyzeDocument (world0\<lparr>aiProvider := ''ollama''\<rparr>)
       False ''abc'' [] [] [] None None None) = Inr r
        \<and> error r \<noteq> None \<and> document r = empty_document \<and> metrics r = None)
   \<and> fst (azure_analyzeDocument (world0\<lparr>tokenLimit := Num 100, responseTokens := Num
       100\<rparr>) False ''abc'' [] [] [] None None None)
     = Inr (error_result (Error
         ''Token limit exceeded: prompt too large for available token limit''))
   \<and> snd (azure_analyzeDocument (chat_world (Inl (Error ''Connection error.''))) False
       ''abc'' [] [] [] None None None)
     = [Truncate ''abc'' (Num 988) (Some ''gpt''), ChatCompletion [(''system'',
         ''Analyze.\<newline>\<newline>Return JSON. "custom_fields":     {}''), (''user'',
         ''abc'')] None]
   \<and> fst (azure_analyzeDocument (chat_world (Inl (Error ''Connection error.''))) False
       ''abc'' [] [] [] None None None)
     = Inr (error_result (Error ''Connection error.''))
   \<and> snd (azure_analyzePlayground (chat_world (Inr \<lparr>message_content = None, usage =
       None\<rparr>)) False ''abc'' ''Prompt'')
     = [Truncate ''abc'' (Num 912) None, ChatCompletion [(''system'', ''Prompt'' @
         musthavePrompt), (''user'', ''abc'')] None]
   \<and> azure_readResponse (chat_world (Inr \<lparr>message_content = None, usage =
       None\<rparr>)) \<lparr>message_content = None, usage = None\<rparr>
     = Inl (Error ''Invalid API response structure'')
   \<and> fst (azure_analyzePlayground (chat_world (Inr \<lparr>message_content = None, usage =
       None\<rparr>)) False ''abc'' ''Prompt'')
     = Inr (error_result (Error ''Invalid API response structure''))
   \<and> (\<exists>r. fst (azure_analyzePlayground (chat_world (Inr \<lparr>message_content =
       None, usage = None\<rparr>)) False ''abc'' ''Prompt'') = Inr r
        \<and> error r \<noteq> None \<and> document r = empty_document \<and> metrics r = None)
   \<and> snd (azure_analyzePlayground (chat_world (Inr \<lparr>message_content = Some
       ''not json'', usage = Some usage0\<rparr>)) False ''abc'' ''Prompt'')
     = [Truncate ''abc'' (Num 912) None, ChatCompletion [(''system'', ''Prompt'' @
         musthavePrompt), (''user'', ''abc'')] None]
   \<and> json_parse ''not json'' = SyntaxError
   \<and> azure_readResponse (chat_world (Inr \<lparr>message_content = Some ''not json'', usage =
       Some usage0\<rparr>)) \<lparr>message_content = Some ''not json'', usage = Some
       usage0\<rparr>
     = Inl (Error ''Invalid JSON response from API'')
   \<and> fst (azure_analyzePlayground (chat_world (Inr \<lparr>message_content = Some
       ''not json'', usage = Some usage0\<rparr>)) False ''abc'' ''Prompt'')
     = Inr (error_result (Error ''Invalid JSON response from API''))
   \<and> snd (azure_analyzeDocument (chat_world (Inr \<lparr>message_content = Some
       ''{"tags": "A", "correspondent": "X"}'', usage = Some usage0\<rparr>)) False ''abc'' [] []
       [] None None None)
     = [Truncate ''abc'' (Num 988) (Some ''gpt''), ChatCompletion [(''system'',
         ''Analyze.\<newline>\<newline>Return JSON. "custom_fields":     {}''), (''user'',
         ''abc'')] None]
   \<and> json_parse ''{"tags": "A", "correspondent": "X"}''
     = Parsed (JObj [(''tags'', JStr ''A''), (''correspondent'', JStr ''X'')])
   \<and> azure_readResponse (chat_world (Inr \<lparr>message_content = Some
       ''{"tags": "A", "correspondent": "X"}'', usage = Some usage0\<rparr>))
       \<lparr>message_content = Some ''{"tags": "A", "correspondent": "X"}'', usage = Some
       usage0\<rparr>
     = Inl (Error ''Invalid response structure: missing tags array or correspondent string'')
   \<and> fst (azure_analyzeDocument (chat_world (Inr \<lparr>message_content = Some
       ''{"tags": "A", "correspondent": "X"}'', usage = Some usage0\<rparr>)) False ''abc'' [] []
       [] None None None)
     = Inr (error_result (Error
         ''Invalid response structure: missing tags array or correspondent string''))
   \<and> snd (ollama_analyzeDocument (ollama_world (Inl (Error
       ''timeout of 1800000ms exceeded''))) ''abc'' [] [] [] None None None)
     = [OllamaGenerate
         ''Analyze.\<newline>\<newline>Return JSON. "custom_fields":     {}\<newline>        "abc"\<newline>        ''
          (generateSystemPrompt ''"custom_fields":     {}'') (Num 1042) DocumentAnalysisSchema]
   \<and> fst (ollama_analyzeDocument (ollama_world (Inl (Error
       ''timeout of 1800000ms exceeded''))) ''abc'' [] [] [] None None None)
     = Inr (error_result (Error ''timeout of 1800000ms exceeded''))
   \<and> (\<exists>r. fst (ollama_analyzeDocument (ollama_world (Inl (Error
       ''timeout of 1800000ms exceeded''))) ''abc'' [] [] [] None None None) = Inr r
        \<and> error r \<noteq> None \<and> document r = empty_document \<and> metrics r = None)
   \<and> snd (ollama_analyzePlayground (ollama_world (Inr None)) ''abc'' ''Prompt'')
     = [OllamaGenerate ''Prompt\<newline>\<newline>"abc"'' generatePlaygroundSystemPrompt (Num
         1026)
          PlaygroundSchema]
   \<and> fst (ollama_analyzePlayground (ollama_world (Inr None)) ''abc'' ''Prompt'')
     = Inr (error_result (Error ''Invalid response from Ollama API''))
   \<and> (\<exists>r. fst (ollama_analyzePlayground (ollama_world (Inr None)) ''abc'' ''Prompt'')
       = Inr r
        \<and> error r \<noteq> None \<and> document r = empty_document \<and> metrics r = None)
   \<and> snd (ollama_analyzePlayground (ollama_world (Inr (Some (JObj [(''done'', JBool
       True)])))) ''abc'' ''Prompt'')
     = [OllamaGenerate ''Prompt\<newline>\<newline>"abc"'' generatePlaygroundSystemPrompt (Num
         1026)
          PlaygroundSchema]
   \<and> processOllamaResponse (ollama_world (Inr (Some (JObj [(''done'', JBool True)])))) (JObj
       [(''done'', JBool True)])
     = Inl (Error ''No response data from Ollama API'')
   \<and> fst (ollama_analyzePlayground (ollama_world (Inr (Some (JObj [(''done'', JBool
       True)])))) ''abc'' ''Prompt'')
     = Inr (error_result (Error ''No response data from Ollama API''))
   \<and> snd (ollama_analyzeDocument (ollama_world (Inr (Some (JObj [(''response'', JObj
       [(''tags'', JStr ''A'')])])))) ''abc'' [] [] [] None None None)
     = [OllamaGenerate
         ''Analyze.\<newline>\<newline>Return JSON. "custom_fields":     {}\<newline>        "abc"\<newline>        ''
          (generateSystemPrompt ''"custom_fields":     {}'') (Num 1042) DocumentAnalysisSchema]
   \<and> fst (ollama_analyzeDocument (ollama_world (Inr (Some (JObj [(''response'', JObj
       [(''tags'', JStr ''A'')])])))) ''abc'' [] [] [] None None None)
     = Inr \<lparr>document = JObj [(''tags'', JArr []), (''correspondent'', JNull), (''title'',
         JNull),
                 (''document_date'', JNull), (''document_type'', JNull), (''language'', JNull),
                 (''custom_fields'', JNull)],
            metrics = Some zero_metrics, truncated = Some False, error = None\<rparr>
   \<and> snd (ollama_analyzePlayground (ollama_world (Inr (Some (JObj [(''response'', JStr
       ''{not json}'')])))) ''abc'' ''Prompt'')
     = [OllamaGenerate ''Prompt\<newline>\<newline>"abc"'' generatePlaygroundSystemPrompt (Num
         1026)
          PlaygroundSchema]
   \<and> fst (parseResponse (JSON_parse (ollama_world (Inr (Some (JObj [(''response'', JStr
       ''{not json}'')]))))) ''{not json}'') = empty_document
   \<and> processOllamaResponse (ollama_world (Inr (Some (JObj [(''response'', JStr
       ''{not json}'')])))) (JObj [(''response'', JStr ''{not json}'')])
     = Inr (fst (parseResponse (JSON_parse (ollama_world (Inr (Some (JObj [(''response'', JStr
         ''{not json}'')]))))) ''{not json}''))
   \<and> fst (ollama_analyzePlayground (ollama_world (Inr (Some (JObj [(''response'', JStr
       ''{not json}'')])))) ''abc'' ''Prompt'')
     = Inr \<lparr>document = empty_document, metrics = Some zero_metrics, truncated = Some False,
            error = None\<rparr>\<close>
proof -
  have m: \<open>azure_analyzeDocument (world0\<lparr>aiProvider := ''ollama''\<rparr>) False
      ''abc'' [] [] [] None None None
     = (Inr (error_result (Error ''AzureOpenAI client not initialized'')), [])\<close>
    using analysis_failures_become_results
      [where w = \<open>world0\<lparr>aiProvider := ''ollama''\<rparr>\<close> and client = False
          and content = "''abc''"
        and tags = "[]" and corrs = "[]" and types = "[]" and id' = None and cp = None
        and ext = None, THEN conjunct2, THEN conjunct2, THEN conjunct2, THEN conjunct2, THEN
            conjunct1]
    by (simp add: world_defs)
  have m1: \<open>(\<exists>r. fst (azure_analyzeDocument (world0\<lparr>aiProvider :=
      ''ollama''\<rparr>) False ''abc'' [] [] [] None None None) = Inr r
        \<and> error r \<noteq> None \<and> document r = empty_document \<and> metrics r =
            None)\<close>
    using analysis_failures_become_results
      [where w = \<open>world0\<lparr>aiProvider := ''ollama''\<rparr>\<close> and client = False
          and content = "''abc''"
        and tags = "[]" and corrs = "[]" and types = "[]" and id' = None and cp = None
        and ext = None, THEN conjunct1] m
    by (auto simp add: error_result_def)
  have b0: \<open>azure_initialize (world0\<lparr>tokenLimit := Num 100, responseTokens := Num
      100\<rparr>) False = Inr True
     \<and> fst (azure_thumbnail (world0\<lparr>tokenLimit := Num 100, responseTokens := Num
         100\<rparr>) None) = Inr ()
     \<and> fst (azure_assemblePrompt (world0\<lparr>tokenLimit := Num 100, responseTokens := Num
         100\<rparr>) [] [] [] None None)
         = Inr (''Analyze.\<newline>\<newline>Return JSON. "custom_fields":     {}'', [], None)
     \<and> calculateTotalPromptTokens (world0\<lparr>tokenLimit := Num 100, responseTokens := Num
         100\<rparr>) ''Analyze.\<newline>\<newline>Return JSON. "custom_fields":     {}'' []
         (Some ''gpt'') = Inr (Num 12)
     \<and> js_le (js_sub (Num 100) (js_add (Num 12) (Num 100))) (Num 0)\<close>
    by (simp add: world_defs io_defs azure_defs prompt_defs Let_def json_parse_def
        parse_or_throw_def
        parse_number_def char_class_defs)
  have b: \<open>fst (azure_analyzeDocument (world0\<lparr>tokenLimit := Num 100, responseTokens
      := Num 100\<rparr>) False ''abc'' [] [] [] None None None)
     = Inr (error_result (Error
         ''Token limit exceeded: prompt too large for available token limit''))\<close>
    using analysis_failures_become_results
      [where w = \<open>world0\<lparr>tokenLimit := Num 100, responseTokens := Num
          100\<rparr>\<close> and client = False and content = "''abc''"
        and tags = "[]" and corrs = "[]" and types = "[]" and id' = None and cp = None
        and ext = None and sp =
            \<open>''Analyze.\<newline>\<newline>Return JSON. "custom_fields":     {}''\<close>
        and pt = "[]" and v = None and tp = "Num 12", THEN conjunct2, THEN conjunct2, THEN
            conjunct2, THEN conjunct2, THEN conjunct2, THEN conjunct1] b0
    by (simp add: world_defs)
  have w0: \<open>snd (azure_analyzeDocument (chat_world (Inl (Error ''Connection error.'')))
      False ''abc'' [] [] [] None None None)
     = [Truncate ''abc'' (Num 988) (Some ''gpt''), ChatCompletion [(''system'',
         ''Analyze.\<newline>\<newline>Return JSON. "custom_fields":     {}''), (''user'',
         ''abc'')] None]\<close>
    by (simp add: world_defs io_defs azure_defs prompt_defs Let_def json_parse_def
        parse_or_throw_def
        parse_number_def char_class_defs)
  have w: \<open>fst (azure_analyzeDocument (chat_world (Inl (Error ''Connection error.''))) False
      ''abc'' [] [] [] None None None)
     = Inr (error_result (Error ''Connection error.''))\<close>
    using analysis_failures_become_results
      [where w = \<open>chat_world (Inl (Error ''Connection error.''))\<close> and client = False
          and content = "''abc''"
        and tags = "[]" and corrs = "[]" and types = "[]" and id' = None and cp = None
        and ext = None and msgs = \<open>[(''system'',
            ''Analyze.\<newline>\<newline>Return JSON. "custom_fields":     {}''), (''user'',
            ''abc'')]\<close>
        and mt = None, THEN conjunct2, THEN conjunct2, THEN conjunct2, THEN conjunct2, THEN
            conjunct2, THEN conjunct2, THEN conjunct1] w0
    by (simp add: world_defs)
  have n0: \<open>snd (azure_analyzePlayground (chat_world (Inr \<lparr>message_content = None,
      usage = None\<rparr>)) False ''abc'' ''Prompt'')
     = [Truncate ''abc'' (Num 912) None, ChatCompletion [(''system'', ''Prompt'' @
         musthavePrompt), (''user'', ''abc'')] None]\<close>
    by (simp add: world_defs io_defs azure_defs prompt_defs Let_def json_parse_def
        parse_or_throw_def
        parse_number_def char_class_defs musthavePrompt_def)
  have n1: \<open>azure_readResponse (chat_world (Inr \<lparr>message_content = None, usage =
      None\<rparr>)) \<lparr>message_content = None, usage = None\<rparr>
     = Inl (Error ''Invalid API response structure'')\<close>
    using analysis_failures_become_results
      [where w = \<open>chat_world (Inr \<lparr>message_content = None, usage =
          None\<rparr>)\<close> and resp = \<open>\<lparr>message_content = None, usage =
          None\<rparr>\<close>, THEN conjunct2, THEN conjunct2, THEN conjunct2, THEN conjunct2,
          THEN conjunct2, THEN conjunct2, THEN conjunct2, THEN conjunct2, THEN conjunct1]
    by simp
  have n: \<open>fst (azure_analyzePlayground (chat_world (Inr \<lparr>message_content = None,
      usage = None\<rparr>)) False ''abc'' ''Prompt'')
     = Inr (error_result (Error ''Invalid API response structure''))\<close>
    using analysis_failures_become_results
      [where w = \<open>chat_world (Inr \<lparr>message_content = None, usage =
          None\<rparr>)\<close> and client = False and content = "''abc''"
        and prompt = "''Prompt''" and msgs = \<open>[(''system'', ''Prompt'' @ musthavePrompt),
            (''user'', ''abc'')]\<close>
        and mt = None, THEN conjunct2, THEN conjunct2, THEN conjunct2, THEN conjunct2, THEN
            conjunct2, THEN conjunct2, THEN conjunct2, THEN conjunct1] n0 n1
    by (simp add: world_defs)
  have n2: \<open>(\<exists>r. fst (azure_analyzePlayground (chat_world (Inr
      \<lparr>message_content = None, usage = None\<rparr>)) False ''abc'' ''Prompt'') = Inr r
        \<and> error r \<noteq> None \<and> document r = empty_document \<and> metrics r =
            None)\<close>
    using analysis_failures_become_results
      [where w = \<open>chat_world (Inr \<lparr>message_content = None, usage =
          None\<rparr>)\<close> and client = False and content = "''abc''"
        and prompt = "''Prompt''", THEN conjunct2, THEN conjunct1] n
    by (auto simp add: error_result_def)
  have u0: \<open>snd (azure_analyzePlayground (chat_world (Inr \<lparr>message_content = Some
      ''not json'', usage = Some usage0\<rparr>)) False ''abc'' ''Prompt'')
     = [Truncate ''abc'' (Num 912) None, ChatCompletion [(''system'', ''Prompt'' @
         musthavePrompt), (''user'', ''abc'')] None]\<close>
    by (simp add: world_defs io_defs azure_defs prompt_defs Let_def json_parse_def
        parse_or_throw_def
        parse_number_def char_class_defs musthavePrompt_def)
  have u1: \<open>json_parse ''not json'' = SyntaxError\<close>
    by (simp add: json_parse_def char_class_defs parse_number_def)
  have u2: \<open>strip_code_fences ''not json'' = ''not json''
     \<and> JSON_parse (chat_world (Inr \<lparr>message_content = Some ''not json'', usage = Some
         usage0\<rparr>)) ''not json'' = None\<close>
    using u1 by (simp add: world_defs parse_or_throw_def strip_code_fences_def js_trim_def
        char_class_defs)
  have u3: \<open>azure_readResponse (chat_world (Inr \<lparr>message_content = Some ''not json'',
      usage = Some usage0\<rparr>)) \<lparr>message_content = Some ''not json'', usage = Some
      usage0\<rparr>
     = Inl (Error ''Invalid JSON response from API'')\<close>
    using analysis_failures_become_results
      [where w = \<open>chat_world (Inr \<lparr>message_content = Some ''not json'', usage = Some
          usage0\<rparr>)\<close> and resp = \<open>\<lparr>message_content = Some ''not json'',
          usage = Some usage0\<rparr>\<close>
        and us = \<open>usage0\<close>, THEN conjunct2, THEN conjunct2, THEN conjunct2, THEN
            conjunct2, THEN conjunct2, THEN conjunct2, THEN conjunct2, THEN conjunct2, THEN
            conjunct2, THEN conjunct1] u2
    by simp
  have u: \<open>fst (azure_analyzePlayground (chat_world (Inr \<lparr>message_content = Some
      ''not json'', usage = Some usage0\<rparr>)) False ''abc'' ''Prompt'')
     = Inr (error_result (Error ''Invalid JSON response from API''))\<close>
    using analysis_failures_become_results
      [where w = \<open>chat_world (Inr \<lparr>message_content = Some ''not json'', usage = Some
          usage0\<rparr>)\<close> and client = False and content = "''abc''"
        and prompt = "''Prompt''" and msgs = \<open>[(''system'', ''Prompt'' @ musthavePrompt),
            (''user'', ''abc'')]\<close>
        and mt = None, THEN conjunct2, THEN conjunct2, THEN conjunct2, THEN conjunct2, THEN
            conjunct2, THEN conjunct2, THEN conjunct2, THEN conjunct1] u0 u3
    by (simp add: world_defs)
  have s0: \<open>snd (azure_analyzeDocument (chat_world (Inr \<lparr>message_content = Some
      ''{"tags": "A", "correspondent": "X"}'', usage = Some usage0\<rparr>)) False ''abc'' [] []
      [] None None None)
     = [Truncate ''abc'' (Num 988) (Some ''gpt''), ChatCompletion [(''system'',
         ''Analyze.\<newline>\<newline>Return JSON. "custom_fields":     {}''), (''user'',
         ''abc'')] None]\<close>
    by (simp add: world_defs io_defs azure_defs prompt_defs Let_def json_parse_def
        parse_or_throw_def
        parse_number_def char_class_defs)
  have s1: \<open>json_parse ''{"tags": "A", "correspondent": "X"}''
     = Parsed (JObj [(''tags'', JStr ''A''), (''correspondent'', JStr ''X'')])\<close>
    by (simp add: json_parse_def char_class_defs)
  have s2: \<open>strip_code_fences ''{"tags": "A", "correspondent": "X"}''
       = ''{"tags": "A", "correspondent": "X"}''
     \<and> JSON_parse (chat_world (Inr \<lparr>message_content = Some
         ''{"tags": "A", "correspondent": "X"}'', usage = Some usage0\<rparr>))
         ''{"tags": "A", "correspondent": "X"}''
       = Some (JObj [(''tags'', JStr ''A''), (''correspondent'', JStr ''X'')])\<close>
    using s1 by (simp add: world_defs parse_or_throw_def strip_code_fences_def js_trim_def
        char_class_defs)
  have s3: \<open>azure_readResponse (chat_world (Inr \<lparr>message_content = Some
      ''{"tags": "A", "correspondent": "X"}'', usage = Some usage0\<rparr>))
      \<lparr>message_content = Some ''{"tags": "A", "correspondent": "X"}'', usage = Some
      usage0\<rparr>
     = Inl (Error
         ''Invalid response structure: missing tags array or correspondent string'')\<close>
    using analysis_failures_become_results
      [where w = \<open>chat_world (Inr \<lparr>message_content = Some
          ''{"tags": "A", "correspondent": "X"}'', usage = Some usage0\<rparr>)\<close> and resp =
          \<open>\<lparr>message_content = Some ''{"tags": "A", "correspondent": "X"}'', usage =
          Some usage0\<rparr>\<close>
        and us = \<open>usage0\<close>
        and parsed = \<open>JObj [(''tags'', JStr ''A''), (''correspondent'', JStr
            ''X'')]\<close>, THEN conjunct2, THEN conjunct2, THEN conjunct2, THEN conjunct2, THEN
            conjunct2, THEN conjunct2, THEN conjunct2, THEN conjunct2, THEN conjunct2, THEN
            conjunct2, THEN conjunct1] s2
    by simp
  have s: \<open>fst (azure_analyzeDocument (chat_world (Inr \<lparr>message_content = Some
      ''{"tags": "A", "correspondent": "X"}'', usage = Some usage0\<rparr>)) False ''abc'' [] []
      [] None None None)
     = Inr (error_result (Error
         ''Invalid response structure: missing tags array or correspondent string''))\<close>
    using analysis_failures_become_results
      [where w = \<open>chat_world (Inr \<lparr>message_content = Some
          ''{"tags": "A", "correspondent": "X"}'', usage = Some usage0\<rparr>)\<close> and client
          = False and content = "''abc''"
        and tags = "[]" and corrs = "[]" and types = "[]" and id' = None and cp = None
        and ext = None and msgs = \<open>[(''system'',
            ''Analyze.\<newline>\<newline>Return JSON. "custom_fields":     {}''), (''user'',
            ''abc'')]\<close>
        and mt = None, THEN conjunct2, THEN conjunct2, THEN conjunct2, THEN conjunct2, THEN
            conjunct2, THEN conjunct2, THEN conjunct1] s0 s3
    by (simp add: world_defs)
  have ow0: \<open>snd (ollama_analyzeDocument (ollama_world (Inl (Error
      ''timeout of 1800000ms exceeded''))) ''abc'' [] [] [] None None None)
     = [OllamaGenerate
         ''Analyze.\<newline>\<newline>Return JSON. "custom_fields":     {}\<newline>        "abc"\<newline>        ''
          (generateSystemPrompt ''"custom_fields":     {}'') (Num 1042)
              DocumentAnalysisSchema]\<close>
    by (simp add: world_defs io_defs ollama_defs prompt_defs Let_def)
  have ow: \<open>fst (ollama_analyzeDocument (ollama_world (Inl (Error
      ''timeout of 1800000ms exceeded''))) ''abc'' [] [] [] None None None)
     = Inr (error_result (Error ''timeout of 1800000ms exceeded''))\<close>
    using analysis_failures_become_results
      [where w = \<open>ollama_world (Inl (Error ''timeout of 1800000ms exceeded''))\<close> and
          content = "''abc''"
        and tags = "[]" and corrs = "[]" and types = "[]" and id' = None and cp = None
        and ext = None
        and p =
            \<open>''Analyze.\<newline>\<newline>Return JSON. "custom_fields":     {}\<newline>        "abc"\<newline>        ''\<close>
        and s = \<open>generateSystemPrompt ''"custom_fields":     {}''\<close> and n = "Num 1042"
            and sc = DocumentAnalysisSchema, THEN conjunct2, THEN conjunct2, THEN conjunct2, THEN
            conjunct2, THEN conjunct2, THEN conjunct2, THEN conjunct2, THEN conjunct2, THEN
            conjunct2, THEN conjunct2, THEN conjunct2, THEN conjunct1] ow0
    by (simp add: world_defs)
  have ow1: \<open>(\<exists>r. fst (ollama_analyzeDocument (ollama_world (Inl (Error
      ''timeout of 1800000ms exceeded''))) ''abc'' [] [] [] None None None) = Inr r
        \<and> error r \<noteq> None \<and> document r = empty_document \<and> metrics r =
            None)\<close>
    using analysis_failures_become_results
      [where w = \<open>ollama_world (Inl (Error ''timeout of 1800000ms exceeded''))\<close> and
          content = "''abc''"
        and tags = "[]" and corrs = "[]" and types = "[]" and id' = None and cp = None
        and ext = None
        and p =
            \<open>''Analyze.\<newline>\<newline>Return JSON. "custom_fields":     {}\<newline>        "abc"\<newline>        ''\<close>
        and s = \<open>generateSystemPrompt ''"custom_fields":     {}''\<close> and n = "Num 1042"
            and sc = DocumentAnalysisSchema, THEN conjunct2, THEN conjunct2, THEN conjunct1] ow
    by (auto simp add: error_result_def)
  have oe0: \<open>snd (ollama_analyzePlayground (ollama_world (Inr None)) ''abc'' ''Prompt'')
     = [OllamaGenerate ''Prompt\<newline>\<newline>"abc"'' generatePlaygroundSystemPrompt (Num
         1026)
          PlaygroundSchema]\<close>
    by (simp add: world_defs io_defs ollama_defs prompt_defs Let_def)
  have oe: \<open>fst (ollama_analyzePlayground (ollama_world (Inr None)) ''abc'' ''Prompt'')
     = Inr (error_result (Error ''Invalid response from Ollama API''))\<close>
    using analysis_failures_become_results
      [where w = \<open>ollama_world (Inr None)\<close> and content = "''abc''" and prompt =
          "''Prompt''"
        and p = \<open>''Prompt\<newline>\<newline>"abc"''\<close>
        and s = generatePlaygroundSystemPrompt and n = "Num 1026" and sc = PlaygroundSchema, THEN
            conjunct2, THEN conjunct2, THEN conjunct2, THEN conjunct2, THEN conjunct2, THEN
            conjunct2, THEN conjunct2, THEN conjunct2, THEN conjunct2, THEN conjunct2, THEN
            conjunct2, THEN conjunct2, THEN conjunct1] oe0
    by (simp add: world_defs)
  have oe1: \<open>(\<exists>r. fst (ollama_analyzePlayground (ollama_world (Inr None)) ''abc''
      ''Prompt'') = Inr r
        \<and> error r \<noteq> None \<and> document r = empty_document \<and> metrics r =
            None)\<close>
    using analysis_failures_become_results
      [where w = \<open>ollama_world (Inr None)\<close> and content = "''abc''" and prompt =
          "''Prompt''"
        and p = \<open>''Prompt\<newline>\<newline>"abc"''\<close>
        and s = generatePlaygroundSystemPrompt and n = "Num 1026" and sc = PlaygroundSchema, THEN
            conjunct2, THEN conjunct2, THEN conjunct2, THEN conjunct1] oe
    by (auto simp add: error_result_def)
  have or0: \<open>snd (ollama_analyzePlayground (ollama_world (Inr (Some (JObj [(''done'', JBool
      True)])))) ''abc'' ''Prompt'')
     = [OllamaGenerate ''Prompt\<newline>\<newline>"abc"'' generatePlaygroundSystemPrompt (Num
         1026)
          PlaygroundSchema]\<close>
    by (simp add: world_defs io_defs ollama_defs prompt_defs Let_def)
  have or1: \<open>processOllamaResponse (ollama_world (Inr (Some (JObj [(''done'', JBool
      True)])))) (JObj [(''done'', JBool True)])
     = Inl (Error ''No response data from Ollama API'')\<close>
    using analysis_failures_become_results
      [where w = \<open>ollama_world (Inr (Some (JObj [(''done'', JBool True)])))\<close> and body
          = \<open>JObj [(''done'', JBool True)]\<close>, THEN conjunct2, THEN conjunct2, THEN
          conjunct2, THEN conjunct2, THEN conjunct2, THEN conjunct2, THEN conjunct2, THEN
          conjunct2, THEN conjunct2, THEN conjunct2, THEN conjunct2, THEN conjunct2, THEN
          conjunct2, THEN conjunct1]
    by simp
  have or: \<open>fst (ollama_analyzePlayground (ollama_world (Inr (Some (JObj [(''done'', JBool
      True)])))) ''abc'' ''Prompt'')
     = Inr (error_result (Error ''No response data from Ollama API''))\<close>
    using analysis_failures_become_results
      [where w = \<open>ollama_world (Inr (Some (JObj [(''done'', JBool True)])))\<close> and
          content = "''abc''" and prompt = "''Prompt''"
        and p = \<open>''Prompt\<newline>\<newline>"abc"''\<close>
        and s = generatePlaygroundSystemPrompt and n = "Num 1026" and sc = PlaygroundSchema, THEN
            conjunct2, THEN conjunct2, THEN conjunct2, THEN conjunct2, THEN conjunct2, THEN
            conjunct2, THEN conjunct2, THEN conjunct2, THEN conjunct2, THEN conjunct2, THEN
            conjunct2, THEN conjunct2, THEN conjunct1] or0 or1
    by (simp add: world_defs)
  have os0: \<open>snd (ollama_analyzeDocument (ollama_world (Inr (Some (JObj [(''response'', JObj
      [(''tags'', JStr ''A'')])])))) ''abc'' [] [] [] None None None)
     = [OllamaGenerate
         ''Analyze.\<newline>\<newline>Return JSON. "custom_fields":     {}\<newline>        "abc"\<newline>        ''
          (generateSystemPrompt ''"custom_fields":     {}'') (Num 1042)
              DocumentAnalysisSchema]\<close>
    by (simp add: world_defs io_defs ollama_defs prompt_defs Let_def)
  have os1: \<open>processOllamaResponse (ollama_world (Inr (Some (JObj [(''response'', JObj
      [(''tags'', JStr ''A'')])])))) (JObj [(''response'', JObj [(''tags'', JStr ''A'')])])
       = Inr (parsed_fields (JObj [(''tags'', JStr ''A'')]))
     \<and> js_get (parsed_fields (JObj [(''tags'', JStr ''A'')])) ''tags'' = Some (JArr [])
     \<and> js_get (parsed_fields (JObj [(''tags'', JStr ''A'')])) ''correspondent'' = Some
         JNull\<close>
    using analysis_failures_become_results
      [where w = \<open>ollama_world (Inr (Some (JObj [(''response'', JObj [(''tags'', JStr
          ''A'')])])))\<close> and body = \<open>JObj [(''response'', JObj [(''tags'', JStr
          ''A'')])]\<close>
        and structured = \<open>JObj [(''tags'', JStr ''A'')]\<close>, THEN conjunct2, THEN
            conjunct2, THEN conjunct2, THEN conjunct2, THEN conjunct2, THEN conjunct2, THEN
            conjunct2, THEN conjunct2, THEN conjunct2, THEN conjunct2, THEN conjunct2, THEN
            conjunct2, THEN conjunct2, THEN conjunct2, THEN conjunct1]
    by simp
  have os: \<open>fst (ollama_analyzeDocument (ollama_world (Inr (Some (JObj [(''response'', JObj
      [(''tags'', JStr ''A'')])])))) ''abc'' [] [] [] None None None)
     = Inr \<lparr>document = JObj [(''tags'', JArr []), (''correspondent'', JNull), (''title'',
         JNull),
                 (''document_date'', JNull), (''document_type'', JNull), (''language'', JNull),
                 (''custom_fields'', JNull)],
            metrics = Some zero_metrics, truncated = Some False, error = None\<rparr>\<close>
    using analysis_failures_become_results
      [where w = \<open>ollama_world (Inr (Some (JObj [(''response'', JObj [(''tags'', JStr
          ''A'')])])))\<close> and content = "''abc''"
        and tags = "[]" and corrs = "[]" and types = "[]" and id' = None and cp = None
        and ext = None
        and p =
            \<open>''Analyze.\<newline>\<newline>Return JSON. "custom_fields":     {}\<newline>        "abc"\<newline>        ''\<close>
        and s = \<open>generateSystemPrompt ''"custom_fields":     {}''\<close> and n = "Num 1042"
            and sc = DocumentAnalysisSchema, THEN conjunct2, THEN conjunct2, THEN conjunct2, THEN
            conjunct2, THEN conjunct2, THEN conjunct2, THEN conjunct2, THEN conjunct2, THEN
            conjunct2, THEN conjunct2, THEN conjunct2, THEN conjunct1] os0 os1
    by (simp add: world_defs parsed_fields_def or_null_def)
  have ot0: \<open>snd (ollama_analyzePlayground (ollama_world (Inr (Some (JObj [(''response'',
      JStr ''{not json}'')])))) ''abc'' ''Prompt'')
     = [OllamaGenerate ''Prompt\<newline>\<newline>"abc"'' generatePlaygroundSystemPrompt (Num
         1026)
          PlaygroundSchema]\<close>
    by (simp add: world_defs io_defs ollama_defs prompt_defs Let_def)
  have ot1: \<open>match_json_span ''{not json}'' = Some ''{not json}''
     \<and> parse_attempt (JSON_parse (ollama_world (Inr (Some (JObj [(''response'', JStr
         ''{not json}'')]))))) ''{not json}'' = None
     \<and> parse_attempt (JSON_parse (ollama_world (Inr (Some (JObj [(''response'', JStr
         ''{not json}'')]))))) (sanitizeJsonString ''{not json}'') = None\<close>
    by (simp add: world_defs normaliser_defs char_class_defs)
  have ot2: \<open>fst (parseResponse (JSON_parse (ollama_world (Inr (Some (JObj [(''response'',
      JStr ''{not json}'')]))))) ''{not json}'') = empty_document\<close>
    using analysis_failures_become_results
      [where w = \<open>ollama_world (Inr (Some (JObj [(''response'', JStr
          ''{not json}'')])))\<close> and text' = "''{not json}''" and j = "''{not json}''",
        THEN conjunct2, THEN conjunct2, THEN conjunct2, THEN conjunct2, THEN conjunct2, THEN
            conjunct2, THEN conjunct2, THEN conjunct2, THEN conjunct2, THEN conjunct2, THEN
            conjunct2, THEN conjunct2, THEN conjunct2, THEN conjunct2, THEN conjunct2, THEN
            conjunct2] ot1
    by simp
  have ot3: \<open>processOllamaResponse (ollama_world (Inr (Some (JObj [(''response'', JStr
      ''{not json}'')])))) (JObj [(''response'', JStr ''{not json}'')])
     = Inr (fst (parseResponse (JSON_parse (ollama_world (Inr (Some (JObj [(''response'', JStr
         ''{not json}'')]))))) ''{not json}''))\<close>
    using analysis_failures_become_results
      [where w = \<open>ollama_world (Inr (Some (JObj [(''response'', JStr
          ''{not json}'')])))\<close> and body = \<open>JObj [(''response'', JStr
          ''{not json}'')]\<close>
        and text' = "''{not json}''", THEN conjunct2, THEN conjunct2, THEN conjunct2, THEN
            conjunct2, THEN conjunct2, THEN conjunct2, THEN conjunct2, THEN conjunct2, THEN
            conjunct2, THEN conjunct2, THEN conjunct2, THEN conjunct2, THEN conjunct2, THEN
            conjunct2, THEN conjunct2, THEN conjunct1]
    by simp
  have ot: \<open>fst (ollama_analyzePlayground (ollama_world (Inr (Some (JObj [(''response'',
      JStr ''{not json}'')])))) ''abc'' ''Prompt'')
     = Inr \<lparr>document = empty_document, metrics = Some zero_metrics, truncated = Some False,
            error = None\<rparr>\<close>
    using analysis_failures_become_results
      [where w = \<open>ollama_world (Inr (Some (JObj [(''response'', JStr
          ''{not json}'')])))\<close> and content = "''abc''" and prompt = "''Prompt''"
        and p = \<open>''Prompt\<newline>\<newline>"abc"''\<close>
        and s = generatePlaygroundSystemPrompt and n = "Num 1026" and sc = PlaygroundSchema, THEN
            conjunct2, THEN conjunct2, THEN conjunct2, THEN conjunct2, THEN conjunct2, THEN
            conjunct2, THEN conjunct2, THEN conjunct2, THEN conjunct2, THEN conjunct2, THEN
            conjunct2, THEN conjunct2, THEN conjunct1] ot0 ot2 ot3
    by (simp add: world_defs)
  show ?thesis
    by (intro conjI) (fact m m1 b w0 w n0 n1 n n2 u0 u1 u3 u s0 s1 s3 s ow0 ow ow1 oe0 oe oe1 or0
        or1 or os0 os ot0 ot2 ot3 ot)+
qed

text \<open>
  C4 as stated fails on the free-text adapter: a response whose text cannot be parsed,
  even after the repair, gives a result with the canonical empty document and no error
  string, and so does a structured response without a tags array or a correspondent.
\<close>

theorem unparseable_text_counterexample:
  \<open>json_parse ''{not json}'' = SyntaxError
   \<and> json_parse (sanitizeJsonString ''{not json}'') = SyntaxError
   \<and> fst (ollama_analyzeDocument (ollama_world (Inr (Some (JObj [(''response'', JStr
       ''{not json}'')])))) ''abc'' [] [] [] None None None)
     = Inr \<lparr>document = empty_document, metrics = Some zero_metrics, truncated = Some False,
            error = None\<rparr>
   \<and> fst (ollama_analyzePlayground (ollama_world (Inr (Some (JObj [(''response'', JObj
       [(''tags'', JStr ''A'')])])))) ''abc'' ''Prompt'')
     = Inr \<lparr>document = JObj [(''tags'', JArr []), (''correspondent'', JNull), (''title'',
         JNull),
                 (''document_date'', JNull), (''document_type'', JNull), (''language'', JNull),
                 (''custom_fields'', JNull)],
            metrics = Some zero_metrics, truncated = Some False, error = None\<rparr>\<close>
  by (simp add: world_defs io_defs ollama_defs prompt_defs normaliser_defs char_class_defs)

text \<open>
  C2, as the code has it. On the structured-output adapter the user content of every
  chat request is what \<open>truncateToTokenLimit\<close> returned for the input content and the
  computed available token allowance, the token limit less the prompt tokens and the
  response reservation. On the free-text adapter no token budget is applied to the
  content: \<open>analyzeDocument\<close> sends, quoted inside the prompt, the content cut to its
  first \<open>CONTENT_MAX_LENGTH\<close> characters when that variable is set and the whole
      content
  otherwise, and \<open>analyzePlayground\<close> sends the whole content; the token limit only
  caps \<open>num_ctx\<close>.
\<close>

theorem content_sent_to_backend:
  \<open>(ChatCompletion msgs mt
        \<in> set (snd (azure_analyzeDocument w client content tags corrs types id' cp ext))
            \<longrightarrow>
      (\<exists>sp pt v tp t.
         fst (azure_assemblePrompt w tags corrs types cp ext) = Inr (sp, pt, v)
         \<and> calculateTotalPromptTokens w sp pt (AZURE_DEPLOYMENT_NAME w) = Inr tp
         \<and> \<not> js_le (js_sub (tokenLimit w) (js_add tp (responseTokens w))) (Num 0)
         \<and> truncateToTokenLimit w content (js_sub (tokenLimit w) (js_add tp (responseTokens
             w)))
              (AZURE_DEPLOYMENT_NAME w) = Inr t
         \<and> msgs = [(''system'', sp), (''user'', t)]))
   \<and> (ChatCompletion msgs mt
        \<in> set (snd (azure_analyzePlayground w client content prompt)) \<longrightarrow>
      (\<exists>tp t.
         calculateTotalPromptTokens w (prompt @ musthavePrompt) [] None = Inr tp
         \<and> truncateToTokenLimit w content (js_sub (tokenLimit w) (js_add tp (responseTokens
             w)))
              None = Inr t
         \<and> msgs = [(''system'', prompt @ musthavePrompt), (''user'', t)]))
   \<and> (OllamaGenerate p s n sc
        \<in> set (snd (ollama_analyzeDocument w content tags corrs types id' cp ext))
            \<longrightarrow>
      n = js_min (js_add (Num (of_int (estimateTokens p))) (Num 1024)) (tokenLimit w)
      \<and> sublist (json_quote (truncateContent w content)) p)
   \<and> truncateContent w content
       = (case CONTENT_MAX_LENGTH w of None \<Rightarrow> content | Some k \<Rightarrow>
           substring0 content k)
   \<and> ollama_analyzeDocument w content tags corrs types id' cp ext
       = ollama_analyzeDocument w (truncateContent w content) tags corrs types id' cp ext
   \<and> (OllamaGenerate p s n sc
        \<in> set (snd (ollama_analyzePlayground w content prompt)) \<longrightarrow>
      p = prompt @ ''\<newline>\<newline>'' @ json_quote content
      \<and> (\<exists>tp. calculateTokens w prompt None = Inr tp
             \<and> n = js_min (js_add tp (Num 1024)) (tokenLimit w)))\<close>
proof (intro conjI impI)
  assume "ChatCompletion msgs mt
            \<in> set (snd (azure_analyzeDocument w client content tags corrs types id' cp ext))"
  from sendsD [OF azure_document_sends this]
  show "\<exists>sp pt v tp t.
         fst (azure_assemblePrompt w tags corrs types cp ext) = Inr (sp, pt, v)
         \<and> calculateTotalPromptTokens w sp pt (AZURE_DEPLOYMENT_NAME w) = Inr tp
         \<and> \<not> js_le (js_sub (tokenLimit w) (js_add tp (responseTokens w))) (Num 0)
         \<and> truncateToTokenLimit w content (js_sub (tokenLimit w) (js_add tp (responseTokens
             w)))
              (AZURE_DEPLOYMENT_NAME w) = Inr t
         \<and> msgs = [(''system'', sp), (''user'', t)]"
    by blast
next
  assume "ChatCompletion msgs mt \<in> set (snd (azure_analyzePlayground w client content
      prompt))"
  from sendsD [OF azure_playground_sends this]
  show "\<exists>tp t.
         calculateTotalPromptTokens w (prompt @ musthavePrompt) [] None = Inr tp
         \<and> truncateToTokenLimit w content (js_sub (tokenLimit w) (js_add tp (responseTokens
             w)))
              None = Inr t
         \<and> msgs = [(''system'', prompt @ musthavePrompt), (''user'', t)]"
    by blast
next
  assume ev: "OllamaGenerate p s n sc
            \<in> set (snd (ollama_analyzeDocument w content tags corrs types id' cp ext))"
  from sendsD [OF ollama_document_sends ev]
  show "n = js_min (js_add (Num (of_int (estimateTokens p))) (Num 1024)) (tokenLimit w)"
    by blast
  from sendsD [OF ollama_document_sends ev]
  show "sublist (json_quote (truncateContent w content)) p" by blast
next
  show "truncateContent w content
       = (case CONTENT_MAX_LENGTH w of None \<Rightarrow> content | Some k \<Rightarrow>
           substring0 content k)"
    by (simp add: truncateContent_def truncateContentTo_def split: option.splits)
next
  show "ollama_analyzeDocument w content tags corrs types id' cp ext
       = ollama_analyzeDocument w (truncateContent w content) tags corrs types id' cp ext"
    by (rule ollama_document_truncated_input)
next
  assume ev: "OllamaGenerate p s n sc \<in> set (snd (ollama_analyzePlayground w content prompt))"
  from sendsD [OF ollama_playground_sends ev]
  show "p = prompt @ ''\<newline>\<newline>'' @ json_quote content" by blast
  from sendsD [OF ollama_playground_sends ev]
  show "\<exists>tp. calculateTokens w prompt None = Inr tp
             \<and> n = js_min (js_add tp (Num 1024)) (tokenLimit w)"
    by blast
qed

theorem content_sent_to_backend_witness:
  \<open>snd (azure_analyzeDocument (world0\<lparr>tokenLimit := Num 1014\<rparr>) False
      ''abcdefghij'' [] [] []
          None None None)
     = [Truncate ''abcdefghij'' (Num 2) (Some ''gpt''),
        ChatCompletion
          [(''system'', ''Analyze.\<newline>\<newline>Return JSON. "custom_fields":     {}''),
              (''user'', ''abcdefgh'')]
          None]
   \<and> (\<exists>sp pt v tp t.
         fst (azure_assemblePrompt (world0\<lparr>tokenLimit := Num 1014\<rparr>) [] [] [] None
             None) = Inr (sp, pt, v)
         \<and> calculateTotalPromptTokens (world0\<lparr>tokenLimit := Num 1014\<rparr>) sp pt
             (Some ''gpt'') = Inr tp
         \<and> \<not> js_le (js_sub (Num 1014) (js_add tp (Num 1000))) (Num 0)
         \<and> truncateToTokenLimit (world0\<lparr>tokenLimit := Num 1014\<rparr>) ''abcdefghij''
              (js_sub (Num 1014) (js_add tp (Num 1000))) (Some ''gpt'') = Inr t
         \<and> [(''system'',
             ''Analyze.\<newline>\<newline>Return JSON. "custom_fields":     {}''), (''user'',
             ''abcdefgh'')]
             = [(''system'', sp), (''user'', t)])
   \<and> calculateTotalPromptTokens (world0\<lparr>tokenLimit := Num 1014\<rparr>)
        ''Analyze.\<newline>\<newline>Return JSON. "custom_fields":     {}'' [] (Some ''gpt'') =
            Inr (Num 12)
   \<and> truncateToTokenLimit (world0\<lparr>tokenLimit := Num 1014\<rparr>) ''abcdefghij'' (Num
       2) (Some ''gpt'')
        = Inr ''abcdefgh''
   \<and> snd (azure_analyzePlayground (world0\<lparr>tokenLimit := Num 1090\<rparr>) False
       ''abcdefghij'' ''Prompt'')
     = [Truncate ''abcdefghij'' (Num 2) None,
        ChatCompletion [(''system'', ''Prompt'' @ musthavePrompt), (''user'', ''abcdefgh'')] None]
   \<and> (\<exists>tp t.
         calculateTotalPromptTokens (world0\<lparr>tokenLimit := Num 1090\<rparr>) (''Prompt'' @
             musthavePrompt) [] None = Inr tp
         \<and> truncateToTokenLimit (world0\<lparr>tokenLimit := Num 1090\<rparr>) ''abcdefghij''
              (js_sub (Num 1090) (js_add tp (Num 1000))) None = Inr t
         \<and> [(''system'', ''Prompt'' @ musthavePrompt), (''user'', ''abcdefgh'')]
             = [(''system'', ''Prompt'' @ musthavePrompt), (''user'', t)])
   \<and> calculateTotalPromptTokens (world0\<lparr>tokenLimit := Num 1090\<rparr>) (''Prompt'' @
       musthavePrompt)
        [] None = Inr (Num 88)
   \<and> snd (ollama_analyzeDocument (world0\<lparr>CONTENT_MAX_LENGTH := Some (Finite
       5)\<rparr>)
            ''abcdefghij'' [] [] [] None None None)
     = [OllamaGenerate
          ''Analyze.\<newline>\<newline>Return JSON. "custom_fields":     {}\<newline>        "abcde"\<newline>        ''
          (generateSystemPrompt ''"custom_fields":     {}'') (Num 1042) DocumentAnalysisSchema]
   \<and> Num 1042
       = js_min (js_add (Num (of_int (estimateTokens
            ''Analyze.\<newline>\<newline>Return JSON. "custom_fields":     {}\<newline>        "abcde"\<newline>        '')))
          (Num 1024)) (tokenLimit (world0\<lparr>CONTENT_MAX_LENGTH := Some (Finite 5)\<rparr>))
   \<and> sublist (json_quote (truncateContent (world0\<lparr>CONTENT_MAX_LENGTH := Some (Finite
       5)\<rparr>) ''abcdefghij''))
       ''Analyze.\<newline>\<newline>Return JSON. "custom_fields":     {}\<newline>        "abcde"\<newline>        ''
   \<and> json_quote (truncateContent (world0\<lparr>CONTENT_MAX_LENGTH := Some (Finite
       5)\<rparr>) ''abcdefghij'')
       = ''"abcde"''
   \<and> snd (ollama_analyzePlayground world0 ''abcdefghij'' ''Prompt'')
     = [OllamaGenerate ''Prompt\<newline>\<newline>"abcdefghij"'' generatePlaygroundSystemPrompt
         (Num 1026)
          PlaygroundSchema]
   \<and> (\<exists>tp. calculateTokens world0 ''Prompt'' None = Inr tp
          \<and> Num 1026 = js_min (js_add tp (Num 1024)) (tokenLimit world0))\<close>
proof -
  have a: \<open>snd (azure_analyzeDocument (world0\<lparr>tokenLimit := Num 1014\<rparr>) False
      ''abcdefghij'' [] [] []
          None None None)
     = [Truncate ''abcdefghij'' (Num 2) (Some ''gpt''),
        ChatCompletion
          [(''system'', ''Analyze.\<newline>\<newline>Return JSON. "custom_fields":     {}''),
              (''user'', ''abcdefgh'')]
          None]\<close>
    by (simp add: world0_def io_defs azure_defs prompt_defs Let_def json_parse_def
        parse_or_throw_def char_class_defs)
  have a1: \<open>(\<exists>sp pt v tp t.
         fst (azure_assemblePrompt (world0\<lparr>tokenLimit := Num 1014\<rparr>) [] [] [] None
             None) = Inr (sp, pt, v)
         \<and> calculateTotalPromptTokens (world0\<lparr>tokenLimit := Num 1014\<rparr>) sp pt
             (Some ''gpt'') = Inr tp
         \<and> \<not> js_le (js_sub (Num 1014) (js_add tp (Num 1000))) (Num 0)
         \<and> truncateToTokenLimit (world0\<lparr>tokenLimit := Num 1014\<rparr>) ''abcdefghij''
              (js_sub (Num 1014) (js_add tp (Num 1000))) (Some ''gpt'') = Inr t
         \<and> [(''system'',
             ''Analyze.\<newline>\<newline>Return JSON. "custom_fields":     {}''), (''user'',
             ''abcdefgh'')]
             = [(''system'', sp), (''user'', t)])\<close>
    using content_sent_to_backend
      [where w = "world0\<lparr>tokenLimit := Num 1014\<rparr>" and client = False and content =
          "''abcdefghij''"
        and tags = "[]" and corrs = "[]" and types = "[]" and id' = None and cp = None
        and ext = None
        and msgs = \<open>[(''system'',
            ''Analyze.\<newline>\<newline>Return JSON. "custom_fields":     {}''), (''user'',
            ''abcdefgh'')]\<close> and mt = None, THEN conjunct1]
      a
    by (simp add: world0_def)
  have a2: \<open>calculateTotalPromptTokens (world0\<lparr>tokenLimit := Num 1014\<rparr>)
        ''Analyze.\<newline>\<newline>Return JSON. "custom_fields":     {}'' [] (Some ''gpt'') =
            Inr (Num 12)\<close>
    by (simp add: world0_def estimateTokens_def)
  have a3: \<open>truncateToTokenLimit (world0\<lparr>tokenLimit := Num 1014\<rparr>)
      ''abcdefghij'' (Num 2) (Some ''gpt'')
        = Inr ''abcdefgh''\<close>
    by (simp add: world0_def estimateTokens_def truncateDataString_def four_per_token_def)
  have b: \<open>snd (azure_analyzePlayground (world0\<lparr>tokenLimit := Num 1090\<rparr>) False
      ''abcdefghij'' ''Prompt'')
     = [Truncate ''abcdefghij'' (Num 2) None,
        ChatCompletion [(''system'', ''Prompt'' @ musthavePrompt), (''user'', ''abcdefgh'')]
            None]\<close>
    by (simp add: world0_def io_defs azure_defs prompt_defs Let_def json_parse_def
        parse_or_throw_def char_class_defs musthavePrompt_def)
  have b1: \<open>(\<exists>tp t.
         calculateTotalPromptTokens (world0\<lparr>tokenLimit := Num 1090\<rparr>) (''Prompt'' @
             musthavePrompt) [] None = Inr tp
         \<and> truncateToTokenLimit (world0\<lparr>tokenLimit := Num 1090\<rparr>) ''abcdefghij''
              (js_sub (Num 1090) (js_add tp (Num 1000))) None = Inr t
         \<and> [(''system'', ''Prompt'' @ musthavePrompt), (''user'', ''abcdefgh'')]
             = [(''system'', ''Prompt'' @ musthavePrompt), (''user'', t)])\<close>
    using content_sent_to_backend
      [where w = "world0\<lparr>tokenLimit := Num 1090\<rparr>" and client = False and content =
          "''abcdefghij''"
        and prompt = "''Prompt''"
        and msgs = \<open>[(''system'', ''Prompt'' @ musthavePrompt), (''user'',
            ''abcdefgh'')]\<close> and mt = None,
        THEN conjunct2, THEN conjunct1]
      b
    by (simp add: world0_def)
  have b2: \<open>calculateTotalPromptTokens (world0\<lparr>tokenLimit := Num 1090\<rparr>)
      (''Prompt'' @ musthavePrompt)
        [] None = Inr (Num 88)\<close>
    by (simp add: world0_def estimateTokens_def musthavePrompt_def)
  have c: \<open>snd (ollama_analyzeDocument (world0\<lparr>CONTENT_MAX_LENGTH := Some (Finite
      5)\<rparr>)
            ''abcdefghij'' [] [] [] None None None)
     = [OllamaGenerate
          ''Analyze.\<newline>\<newline>Return JSON. "custom_fields":     {}\<newline>        "abcde"\<newline>        ''
          (generateSystemPrompt ''"custom_fields":     {}'') (Num 1042)
              DocumentAnalysisSchema]\<close>
    by (simp add: short_world_run)
  have c1: \<open>Num 1042
       = js_min (js_add (Num (of_int (estimateTokens
            ''Analyze.\<newline>\<newline>Return JSON. "custom_fields":     {}\<newline>        "abcde"\<newline>        '')))
          (Num 1024)) (tokenLimit (world0\<lparr>CONTENT_MAX_LENGTH := Some (Finite
              5)\<rparr>))\<close>
    using content_sent_to_backend
      [where w = "world0\<lparr>CONTENT_MAX_LENGTH := Some (Finite 5)\<rparr>" and content =
          "''abcdefghij''"
        and tags = "[]" and corrs = "[]" and types = "[]" and id' = None and cp = None
        and ext = None
        and p =
            \<open>''Analyze.\<newline>\<newline>Return JSON. "custom_fields":     {}\<newline>        "abcde"\<newline>        ''\<close>
        and s = \<open>generateSystemPrompt ''"custom_fields":     {}''\<close> and n = "Num 1042"
            and sc = DocumentAnalysisSchema,
        THEN conjunct2, THEN conjunct2, THEN conjunct1]
      c
    by simp
  have c2: \<open>sublist (json_quote (truncateContent (world0\<lparr>CONTENT_MAX_LENGTH := Some
      (Finite 5)\<rparr>) ''abcdefghij''))
       ''Analyze.\<newline>\<newline>Return JSON. "custom_fields":     {}\<newline>        "abcde"\<newline>        ''\<close>
    using content_sent_to_backend
      [where w = "world0\<lparr>CONTENT_MAX_LENGTH := Some (Finite 5)\<rparr>" and content =
          "''abcdefghij''"
        and tags = "[]" and corrs = "[]" and types = "[]" and id' = None and cp = None
        and ext = None
        and p =
            \<open>''Analyze.\<newline>\<newline>Return JSON. "custom_fields":     {}\<newline>        "abcde"\<newline>        ''\<close>
        and s = \<open>generateSystemPrompt ''"custom_fields":     {}''\<close> and n = "Num 1042"
            and sc = DocumentAnalysisSchema,
        THEN conjunct2, THEN conjunct2, THEN conjunct1]
      c
    by simp
  have c3: \<open>json_quote (truncateContent (world0\<lparr>CONTENT_MAX_LENGTH := Some (Finite
      5)\<rparr>) ''abcdefghij'')
       = ''"abcde"''\<close>
    by (simp add: truncateContent_def truncateContentTo_def json_quote_def code_def)
  have d: \<open>snd (ollama_analyzePlayground world0 ''abcdefghij'' ''Prompt'')
     = [OllamaGenerate ''Prompt\<newline>\<newline>"abcdefghij"'' generatePlaygroundSystemPrompt
         (Num 1026)
          PlaygroundSchema]\<close>
    by (simp add: world0_def io_defs ollama_defs prompt_defs Let_def)
  have d1: \<open>(\<exists>tp. calculateTokens world0 ''Prompt'' None = Inr tp
          \<and> Num 1026 = js_min (js_add tp (Num 1024)) (tokenLimit world0))\<close>
    using content_sent_to_backend
      [where w = world0 and content = "''abcdefghij''" and prompt = "''Prompt''"
        and p = \<open>''Prompt\<newline>\<newline>"abcdefghij"''\<close>
        and s = generatePlaygroundSystemPrompt and n = "Num 1026" and sc = PlaygroundSchema,
        THEN conjunct2, THEN conjunct2, THEN conjunct2, THEN conjunct2, THEN conjunct2]
      d
    by simp
  show ?thesis
    by (intro conjI) (fact a a1 a2 a3 b b1 b2 c c1 c2 c3 d d1)+
qed

text \<open>
  C2 as stated fails on the free-text adapter. With a token limit of 10 and no
  \<open>CONTENT_MAX_LENGTH\<close>, a content of 52 characters (13 estimated tokens) is sent
      whole
  inside the prompt; no truncation takes place, and the limit only caps \<open>num_ctx\<close>.
\<close>

theorem unbounded_content_counterexample:
  \<open>snd (ollama_analyzeDocument (world0\<lparr>tokenLimit := Num 10\<rparr>)
          ''abcdefghijklmnopqrstuvwxyzabcdefghijklmnopqrstuvwxyz'' [] [] [] None None None)
     = [OllamaGenerate
          (''Analyze.\<newline>\<newline>Return JSON. "custom_fields":     {}\<newline>        ''
            @ ''"abcdefghijklmnopqrstuvwxyzabcdefghijklmnopqrstuvwxyz"\<newline>        '')
          (generateSystemPrompt ''"custom_fields":     {}'') (Num 10) DocumentAnalysisSchema]
   \<and> js_less (tokenLimit (world0\<lparr>tokenLimit := Num 10\<rparr>))
       (Num (of_int (estimateTokens ''abcdefghijklmnopqrstuvwxyzabcdefghijklmnopqrstuvwxyz'')))
   \<and> snd (ollama_analyzePlayground (world0\<lparr>tokenLimit := Num 10\<rparr>)
            ''abcdefghijklmnopqrstuvwxyzabcdefghijklmnopqrstuvwxyz'' ''Prompt'')
     = [OllamaGenerate
          (''Prompt\<newline>\<newline>"abcdefghijklmnopqrstuvwxyzabcdefghijklmnopqrstuvwxyz"'')
          generatePlaygroundSystemPrompt (Num 10) PlaygroundSchema]\<close>
  by (simp add: world0_def io_defs ollama_defs prompt_defs Let_def)
text \<open>
  C5, as the code has it. \<open>askQuestion\<close> fails, always with the one generic error and
  before anything is sent to the AI service, when the retrieval request fails, and also
  when refreshing the tag cache fails (it is refreshed only when there are sources) or
  when obtaining the AI service fails: both calls stand outside any inner \<^verbatim>\<open>try\<close>. In
  every other case it returns the retrieved sources unchanged, whatever the per-source
  metadata and content fetches do, with the generated answer, or with the fixed apology
  when generation fails.
\<close>

theorem askQuestion_failure_modes:
  "(post_context w q = Inl e \<longrightarrow> askQuestion w q = (Inl generic_failure, []))
   \<and> (post_context w q = Inr (c, Some srcs) \<and> srcs \<noteq> [] \<and> ensureTagCache w = Inl e \<longrightarrow>
        askQuestion w q = (Inl generic_failure, []))
   \<and> (post_context w q = Inr (c, srcs0) \<and> getService w = Inl e \<longrightarrow>
        askQuestion w q = (Inl generic_failure, []))
   \<and> (post_context w q = Inr (c, Some srcs) \<and> srcs \<noteq> [] \<and> ensureTagCache w = Inr cache
        \<and> getService w = Inr u \<longrightarrow>
        fst (askQuestion w q)
          = Inr \<lparr>answer =
                   (case generateText w (compose_prompt q (enhanced_context w c srcs)
                                           (enrich_sources w cache srcs)) of
                      Inl err \<Rightarrow> apology | Inr a \<Rightarrow> a),
                 sources = Some srcs\<rparr>)
   \<and> (post_context w q = Inr (c, srcs0) \<and> (srcs0 = None \<or> srcs0 = Some []) \<and> getService w = Inr u \<longrightarrow>
        fst (askQuestion w q)
          = Inr \<lparr>answer =
                   (case generateText w (compose_prompt q c
                      \<lparr>hasReferenceTag = False, sourceInfo = [], referenceDocuments = []\<rparr>) of
                      Inl err \<Rightarrow> apology | Inr a \<Rightarrow> a),
                 sources = srcs0\<rparr>)
   \<and> (fst (askQuestion w q) = Inl err \<longrightarrow> err = generic_failure \<and> snd (askQuestion w q) = [])"
proof (intro conjI impI)
  show "askQuestion w q = (Inl generic_failure, [])" if "post_context w q = Inl e"
    using that by (rule ask_retrieval_fails)
  show "askQuestion w q = (Inl generic_failure, [])"
    if "post_context w q = Inr (c, Some srcs) \<and> srcs \<noteq> [] \<and> ensureTagCache w = Inl e"
    using that by (simp add: ask_cache_fails)
  show "askQuestion w q = (Inl generic_failure, [])"
    if "post_context w q = Inr (c, srcs0) \<and> getService w = Inl e"
    using that by (simp add: ask_service_fails)
  show "fst (askQuestion w q)
          = Inr \<lparr>answer =
                   (case generateText w (compose_prompt q (enhanced_context w c srcs)
                                           (enrich_sources w cache srcs)) of
                      Inl err \<Rightarrow> apology | Inr a \<Rightarrow> a),
                 sources = Some srcs\<rparr>"
    if "post_context w q = Inr (c, Some srcs) \<and> srcs \<noteq> [] \<and> ensureTagCache w = Inr cache
        \<and> getService w = Inr u"
    using that by (simp add: ask_events)
  show "fst (askQuestion w q)
          = Inr \<lparr>answer =
                   (case generateText w (compose_prompt q c
                      \<lparr>hasReferenceTag = False, sourceInfo = [], referenceDocuments = []\<rparr>) of
                      Inl err \<Rightarrow> apology | Inr a \<Rightarrow> a),
                 sources = srcs0\<rparr>"
    if "post_context w q = Inr (c, srcs0) \<and> (srcs0 = None \<or> srcs0 = Some []) \<and> getService w = Inr u"
    using that by (simp add: ask_without_sources)
  show "err = generic_failure" if "fst (askQuestion w q) = Inl err"
    using that by (simp add: ask_error_is_generic)
  show "snd (askQuestion w q) = []" if "fst (askQuestion w q) = Inl err"
    using that by (simp add: ask_error_is_generic)
qed

theorem askQuestion_failure_modes_witness:
  \<open>askQuestion (rag_world0\<lparr>post_context := (\<lambda>question. Inl (Error ''connect ECONNREFUSED''))\<rparr>)
       ''Who?''
     = (Inl generic_failure, [])
   \<and> askQuestion (rag_world0\<lparr>getService := Inl (Error ''Unsupported AI provider'')\<rparr>) ''Who?''
     = (Inl generic_failure, [])
   \<and> fst (askQuestion rag_world0 ''Who?'')
     = Inr \<lparr>answer = ''The answer.'', sources = Some three_sources\<rparr>
   \<and> fst (askQuestion
            (rag_world0\<lparr>getDocument := (\<lambda>n. Inl (Error ''Request failed with status code 500'')),
               getDocumentContent := (\<lambda>n. Inl (Error ''Request failed with status code 500'')),
               generateText := (\<lambda>prompt. Inl (Error ''Connection error.''))\<rparr>)
            ''Who?'')
     = Inr \<lparr>answer = apology, sources = Some three_sources\<rparr>
   \<and> fst (askQuestion
            (rag_world0\<lparr>post_context := (\<lambda>question. Inr (''Summary.'', Some [])),
               ensureTagCache := Inl (Error ''Request failed with status code 401''),
               generateText := (\<lambda>prompt. Inl (Error ''Connection error.''))\<rparr>)
            ''Who?'')
     = Inr \<lparr>answer = apology, sources = Some []\<rparr>\<close>
proof -
  have a: \<open>askQuestion (rag_world0\<lparr>post_context := (\<lambda>question. Inl (Error ''connect ECONNREFUSED''))\<rparr>)
       ''Who?'' = (Inl generic_failure, [])\<close>
    using askQuestion_failure_modes
      [where w = \<open>rag_world0\<lparr>post_context := (\<lambda>question. Inl (Error ''connect ECONNREFUSED''))\<rparr>\<close>
        and q = "''Who?''" and e = \<open>Error ''connect ECONNREFUSED''\<close>, THEN conjunct1]
    by simp
  have b: \<open>askQuestion (rag_world0\<lparr>getService := Inl (Error ''Unsupported AI provider'')\<rparr>) ''Who?''
     = (Inl generic_failure, [])\<close>
    using askQuestion_failure_modes
      [where w = \<open>rag_world0\<lparr>getService := Inl (Error ''Unsupported AI provider'')\<rparr>\<close>
        and q = "''Who?''" and e = \<open>Error ''Unsupported AI provider''\<close>
        and c = "''Summary.''" and ?srcs0.0 = "Some three_sources",
        THEN conjunct2, THEN conjunct2, THEN conjunct1]
    by (simp add: rag_world0_def)
  have c: \<open>fst (askQuestion rag_world0 ''Who?'')
     = Inr \<lparr>answer = ''The answer.'', sources = Some three_sources\<rparr>\<close>
    using askQuestion_failure_modes
      [where w = rag_world0 and q = "''Who?''" and c = "''Summary.''" and srcs = three_sources
        and cache = tag_cache0 and u = "()",
        THEN conjunct2, THEN conjunct2, THEN conjunct2, THEN conjunct1]
    by (simp add: rag_world0_def three_sources_def)
  have d: \<open>fst (askQuestion
            (rag_world0\<lparr>getDocument := (\<lambda>n. Inl (Error ''Request failed with status code 500'')),
               getDocumentContent := (\<lambda>n. Inl (Error ''Request failed with status code 500'')),
               generateText := (\<lambda>prompt. Inl (Error ''Connection error.''))\<rparr>)
            ''Who?'')
     = Inr \<lparr>answer = apology, sources = Some three_sources\<rparr>\<close>
    using askQuestion_failure_modes
      [where w = \<open>rag_world0\<lparr>getDocument := (\<lambda>n. Inl (Error ''Request failed with status code 500'')),
               getDocumentContent := (\<lambda>n. Inl (Error ''Request failed with status code 500'')),
               generateText := (\<lambda>prompt. Inl (Error ''Connection error.''))\<rparr>\<close>
        and q = "''Who?''" and c = "''Summary.''" and srcs = three_sources
        and cache = tag_cache0 and u = "()",
        THEN conjunct2, THEN conjunct2, THEN conjunct2, THEN conjunct1]
    by (simp add: rag_world0_def three_sources_def)
  have e: \<open>fst (askQuestion
            (rag_world0\<lparr>post_context := (\<lambda>question. Inr (''Summary.'', Some [])),
               ensureTagCache := Inl (Error ''Request failed with status code 401''),
               generateText := (\<lambda>prompt. Inl (Error ''Connection error.''))\<rparr>)
            ''Who?'')
     = Inr \<lparr>answer = apology, sources = Some []\<rparr>\<close>
    using askQuestion_failure_modes
      [where w = \<open>rag_world0\<lparr>post_context := (\<lambda>question. Inr (''Summary.'', Some [])),
               ensureTagCache := Inl (Error ''Request failed with status code 401''),
               generateText := (\<lambda>prompt. Inl (Error ''Connection error.''))\<rparr>\<close>
        and q = "''Who?''" and c = "''Summary.''" and ?srcs0.0 = "Some []" and u = "()",
        THEN conjunct2, THEN conjunct2, THEN conjunct2, THEN conjunct2, THEN conjunct1]
    by (simp add: rag_world0_def)
  show ?thesis using a b c d e by simp
qed

text \<open>
  C5 as stated fails: retrieval succeeds and the call still ends in the generic error,
  once because refreshing the tag cache fails and once because no AI service is
  available.
\<close>

theorem tag_cache_failure_counterexample:
  \<open>post_context (rag_world0\<lparr>ensureTagCache := Inl (Error ''Request failed with status code 401'')\<rparr>)
       ''Who?''
     = Inr (''Summary.'', Some three_sources)
   \<and> askQuestion (rag_world0\<lparr>ensureTagCache := Inl (Error ''Request failed with status code 401'')\<rparr>)
       ''Who?''
     = (Inl (Error ''An error occurred while processing your question. Please try again later.''), [])
   \<and> post_context (rag_world0\<lparr>getService := Inl (Error ''Unsupported AI provider'')\<rparr>) ''Who?''
     = Inr (''Summary.'', Some three_sources)
   \<and> askQuestion (rag_world0\<lparr>getService := Inl (Error ''Unsupported AI provider'')\<rparr>) ''Who?''
     = (Inl (Error ''An error occurred while processing your question. Please try again later.''), [])\<close>
  by (simp add: rag_world0_def three_sources_def askQuestion_def io_defs generic_failure_def)

text \<open>
  C6. In \<open>askQuestion\<close>, the reference documents collected from the sources are
      exactly
  the records of those sources whose resolved tag names include the literal tag
  "Refer\<^verbatim>\<open>\u00EA\<close>ncia", in source order, and the citation flag is set
      exactly when there
  is one. With at least one such source the final prompt holds, after the source
  information, the block that lists exactly those documents and the citation
  instruction; with none it holds the instruction not to mention document numbers or
  source references. The prompt so composed is the one handed to \<open>generateText\<close>. The
  tag, the two instructions and the layout of the block are spelled out.
\<close>

theorem reference_documents_and_citation_mode:
  \<open>referenceDocuments (enrich_sources w cache srcs)
     = List.map_filter (spec_reference_source w cache) srcs
   \<and> hasReferenceTag (enrich_sources w cache srcs)
     = (List.map_filter (spec_reference_source w cache) srcs \<noteq> [])
   \<and> (spec_reference_source w cache s \<noteq> None)
     = (id_truthy (doc_id s)
        \<and> (\<exists>d tagIds. getDocument w (the (doc_id s)) = Inr d \<and> doc_tags d = Some
            tagIds
              \<and> ''Refer'' @ [CHR 0xEA] @ ''ncia'' \<in> set (resolve_tag_names cache
                  tagIds)))
   \<and> (List.map_filter (spec_reference_source w cache) srcs \<noteq> [] \<longrightarrow>
        compose_prompt question c (enrich_sources w cache srcs)
          = prompt_preamble question c @ sourceInfo (enrich_sources w cache srcs)
            @ ''\<newline>\<newline>Reference Documents Metadata:\<newline>''
            @ js_join ''\<newline>\<newline>''
                (map (\<lambda>doc.
                    ''ID: ''
                    @ string_of_nat (ref_id doc)
                    @ ''\<newline>Title: ''
                    @ ref_title doc
                    @ ''\<newline>Created: ''
                    @ field_text (ref_created doc)
                    @ ''\<newline>Correspondent: ''
                    @ field_text (ref_correspondent doc)
                    @ ''\<newline>Tags: ''
                    @ js_join '', '' (ref_tags doc)
                    @ ''\<newline>Excerpt: ''
                    @ ref_content doc)
                  (List.map_filter (spec_reference_source w cache) srcs))
            @ prompt_instructions
            @ ''- Since some documents have the "Refer''
            @ [CHR 0xEA]
            @ ''ncia" tag, include citations to the sources in your answer using the format <c''
            @ ''itation>AUTHORS. Title. Journal/Publication. v.Volume, p.Pages, Year.</citatio''
            @ ''n>\<newline>''
            @ ''        Example: <citation>MADUREIRA, F., COLLEGA, D. G., RODRIGUES, H. F., OL''
            @ ''IVEIRA, T. A. C., FREUDENHEIM, A. M. Valida''
            @ [CHR 0xE7, CHR 0xE3]
            @ ''o de um Instrumento para Avalia''
            @ [CHR 0xE7, CHR 0xE3]
            @ ''o Qualitativa do Nado "Crawl". Revista Brasileira de Educa''
            @ [CHR 0xE7, CHR 0xE3]
            @ ''o F''
            @ [CHR 0xED]
            @ ''sica e Esporte. v.22, p.273-284, 2008.</citation>\<newline>''
            @ ''        Use the document title and available metadata to format the citation a''
            @ ''ppropriately.''
            @ ''\<newline>        '')
   \<and> (List.map_filter (spec_reference_source w cache) srcs = [] \<longrightarrow>
        compose_prompt question c (enrich_sources w cache srcs)
          = prompt_preamble question c @ sourceInfo (enrich_sources w cache srcs)
            @ prompt_instructions
            @ ''- Do not mention document numbers or source references, answer as if it were a''
            @ '' natural conversation''
            @ ''\<newline>        '')
   \<and> (post_context w question = Inr (context', Some srcs) \<and> srcs \<noteq> []
        \<and> ensureTagCache w = Inr cache \<and> getService w = Inr u \<longrightarrow>
        snd (askQuestion w question)
          = [GenerateText (compose_prompt question (enhanced_context w context' srcs)
                             (enrich_sources w cache srcs))])
   \<and> (post_context w question = Inr (context', srcs0) \<and> (srcs0 = None \<or> srcs0 = Some
       [])
        \<and> getService w = Inr u \<longrightarrow>
        snd (askQuestion w question)
          = [GenerateText
               (prompt_preamble question context' @ prompt_instructions
            @ ''- Do not mention document numbers or source references, answer as if it were a''
            @ '' natural conversation''
            @ ''\<newline>        '')])\<close>
proof (intro conjI impI)
  show \<open>referenceDocuments (enrich_sources w cache srcs)
     = List.map_filter (spec_reference_source w cache) srcs\<close>
    by (rule enrich_sources_refs)
  show \<open>hasReferenceTag (enrich_sources w cache srcs)
     = (List.map_filter (spec_reference_source w cache) srcs \<noteq> [])\<close>
    by (simp add: enrich_sources_flag enrich_sources_refs)
  show \<open>(spec_reference_source w cache s \<noteq> None)
     = (id_truthy (doc_id s)
        \<and> (\<exists>d tagIds. getDocument w (the (doc_id s)) = Inr d \<and> doc_tags d = Some
            tagIds
              \<and> ''Refer'' @ [CHR 0xEA] @ ''ncia'' \<in> set (resolve_tag_names cache
                  tagIds)))\<close>
    by (auto simp add: spec_reference_source_def split: sum.splits option.splits)
  show \<open>compose_prompt question c (enrich_sources w cache srcs)
          = prompt_preamble question c @ sourceInfo (enrich_sources w cache srcs)
            @ ''\<newline>\<newline>Reference Documents Metadata:\<newline>''
            @ js_join ''\<newline>\<newline>''
                (map (\<lambda>doc.
                    ''ID: ''
                    @ string_of_nat (ref_id doc)
                    @ ''\<newline>Title: ''
                    @ ref_title doc
                    @ ''\<newline>Created: ''
                    @ field_text (ref_created doc)
                    @ ''\<newline>Correspondent: ''
                    @ field_text (ref_correspondent doc)
                    @ ''\<newline>Tags: ''
                    @ js_join '', '' (ref_tags doc)
                    @ ''\<newline>Excerpt: ''
                    @ ref_content doc)
                  (List.map_filter (spec_reference_source w cache) srcs))
            @ prompt_instructions
            @ ''- Since some documents have the "Refer''
            @ [CHR 0xEA]
            @ ''ncia" tag, include citations to the sources in your answer using the format <c''
            @ ''itation>AUTHORS. Title. Journal/Publication. v.Volume, p.Pages, Year.</citatio''
            @ ''n>\<newline>''
            @ ''        Example: <citation>MADUREIRA, F., COLLEGA, D. G., RODRIGUES, H. F., OL''
            @ ''IVEIRA, T. A. C., FREUDENHEIM, A. M. Valida''
            @ [CHR 0xE7, CHR 0xE3]
            @ ''o de um Instrumento para Avalia''
            @ [CHR 0xE7, CHR 0xE3]
            @ ''o Qualitativa do Nado "Crawl". Revista Brasileira de Educa''
            @ [CHR 0xE7, CHR 0xE3]
            @ ''o F''
            @ [CHR 0xED]
            @ ''sica e Esporte. v.22, p.273-284, 2008.</citation>\<newline>''
            @ ''        Use the document title and available metadata to format the citation a''
            @ ''ppropriately.''
            @ ''\<newline>        ''\<close>
    if \<open>List.map_filter (spec_reference_source w cache) srcs \<noteq> []\<close>
    using that
    by (simp add: compose_prompt_def Let_def enrich_sources_flag enrich_sources_refs
        reference_info_def reference_entry_def [abs_def] citation_instruction_def)
  show \<open>compose_prompt question c (enrich_sources w cache srcs)
          = prompt_preamble question c @ sourceInfo (enrich_sources w cache srcs)
            @ prompt_instructions
            @ ''- Do not mention document numbers or source references, answer as if it were a''
            @ '' natural conversation''
            @ ''\<newline>        ''\<close>
    if \<open>List.map_filter (spec_reference_source w cache) srcs = []\<close>
    using that
    by (simp add: compose_prompt_def Let_def enrich_sources_flag enrich_sources_refs
        no_citation_instruction_def)
  show \<open>snd (askQuestion w question)
          = [GenerateText (compose_prompt question (enhanced_context w context' srcs)
                             (enrich_sources w cache srcs))]\<close>
    if \<open>post_context w question = Inr (context', Some srcs) \<and> srcs \<noteq> []
        \<and> ensureTagCache w = Inr cache \<and> getService w = Inr u\<close>
    using that by (simp add: ask_events)
  show \<open>snd (askQuestion w question)
          = [GenerateText
               (prompt_preamble question context' @ prompt_instructions
            @ ''- Do not mention document numbers or source references, answer as if it were a''
            @ '' natural conversation''
            @ ''\<newline>        '')]\<close>
    if \<open>post_context w question = Inr (context', srcs0) \<and> (srcs0 = None \<or> srcs0 =
        Some [])
        \<and> getService w = Inr u\<close>
    using that by (simp add: ask_without_sources compose_prompt_def no_citation_instruction_def)
qed

theorem reference_documents_and_citation_mode_witness:
  \<open>referenceDocuments (enrich_sources rag_world0 tag_cache0 three_sources)
     = [\<lparr>ref_id = 1, ref_title = ''Swimming'', ref_created = Text ''2008-01-01'',
         ref_correspondent = Number 7,
         ref_tags = [''Refer'' @ [CHR 0xEA] @ ''ncia'', ''Invoice''],
         ref_content = ''Text of the paper...''\<rparr>]
   \<and> hasReferenceTag (enrich_sources rag_world0 tag_cache0 three_sources)
   \<and> spec_reference_source rag_world0 tag_cache0 \<lparr>doc_id = Some 1, title = Some
       ''Paper''\<rparr> \<noteq> None
   \<and> spec_reference_source rag_world0 tag_cache0 \<lparr>doc_id = Some 2, title =
       None\<rparr> = None
   \<and> spec_reference_source rag_world0 tag_cache0 \<lparr>doc_id = Some 3, title = Some
       ''Lost''\<rparr> = None
   \<and> spec_reference_source rag_world0
       [\<lparr>tag_id = 10, tag_name = Some ''Referencia''\<rparr>, \<lparr>tag_id = 11, tag_name
           = Some ''Invoice''\<rparr>]
       \<lparr>doc_id = Some 1, title = Some ''Paper''\<rparr> = None
   \<and> snd (askQuestion rag_world0 ''Who?'')
     = [GenerateText
          (''\<newline>''
               @ ''        You are a helpful assistant that answers questions about documents.''
               @ ''\<newline>''
               @ ''\<newline>''
               @
                   ''        Answer the following question precisely, based on the provided documen''
               @ ''ts:\<newline>''
               @ ''\<newline>        Question: Who?\<newline>''
               @ ''\<newline>        Context from relevant documents:\<newline>''
               @ ''        Summary.\<newline>''
               @ ''\<newline>Full document content for Paper:\<newline>''
               @ ''Full text\<newline>''
               @ ''\<newline>Full document content for Document 2:\<newline>''
               @ ''Full text\<newline>''
               @ ''\<newline>        Source information:\<newline>''
               @ ''        Document: Paper, Tags: Refer''
               @ [CHR 0xEA]
               @ ''ncia, Invoice\<newline>''
               @ ''Document: Document 2, Tags: Invoice\<newline>''
               @ ''\<newline>\<newline>Reference Documents Metadata:\<newline>''
               @ ''ID: 1\<newline>''
               @ ''Title: Swimming\<newline>''
               @ ''Created: 2008-01-01\<newline>''
               @ ''Correspondent: 7\<newline>''
               @ ''Tags: Refer''
               @ [CHR 0xEA]
               @ ''ncia, Invoice\<newline>''
               @ ''Excerpt: Text of the paper...\<newline>''
               @ ''\<newline>        Important instructions:\<newline>''
               @ ''        - Use ONLY information from the provided documents\<newline>''
               @
                   ''        - If the answer is not contained in the documents, respond: "This info''
               @
                   ''rmation is not contained in the documents." (in the same language as the quest''
               @ ''ion)\<newline>''
               @ ''        - Avoid assumptions or speculation beyond the given context\<newline>''
               @ ''        - Answer in the same language as the question was asked\<newline>''
               @
                   ''        - Before providing your final answer, double-check that all informatio''
               @ ''n comes directly from the documents and is accurate\<newline>''
               @ ''        - If you''
               @ [CHR 0x27]
               @
                   ''re unsure about any part of the answer, either omit it or clearly state the un''
               @ ''certainty\<newline>''
               @ ''        - Since some documents have the "Refer''
               @ [CHR 0xEA]
               @
                   ''ncia" tag, include citations to the sources in your answer using the format <c''
               @
                   ''itation>AUTHORS. Title. Journal/Publication. v.Volume, p.Pages, Year.</citatio''
               @ ''n>\<newline>''
               @
                   ''        Example: <citation>MADUREIRA, F., COLLEGA, D. G., RODRIGUES, H. F., OL''
               @ ''IVEIRA, T. A. C., FREUDENHEIM, A. M. Valida''
               @ [CHR 0xE7, CHR 0xE3]
               @ ''o de um Instrumento para Avalia''
               @ [CHR 0xE7, CHR 0xE3]
               @ ''o Qualitativa do Nado "Crawl". Revista Brasileira de Educa''
               @ [CHR 0xE7, CHR 0xE3]
               @ ''o F''
               @ [CHR 0xED]
               @ ''sica e Esporte. v.22, p.273-284, 2008.</citation>\<newline>''
               @
                   ''        Use the document title and available metadata to format the citation a''
               @ ''ppropriately.\<newline>''
               @ ''        '')]
   \<and> \<not> hasReferenceTag (enrich_sources rag_world0 [\<lparr>tag_id = 11, tag_name = Some
       ''Invoice''\<rparr>] three_sources)
   \<and> snd (askQuestion (rag_world0\<lparr>ensureTagCache := Inr [\<lparr>tag_id = 11, tag_name
       = Some ''Invoice''\<rparr>]\<rparr>) ''Who?'')
     = [GenerateText
          (''\<newline>''
               @ ''        You are a helpful assistant that answers questions about documents.''
               @ ''\<newline>''
               @ ''\<newline>''
               @
                   ''        Answer the following question precisely, based on the provided documen''
               @ ''ts:\<newline>''
               @ ''\<newline>        Question: Who?\<newline>''
               @ ''\<newline>        Context from relevant documents:\<newline>''
               @ ''        Summary.\<newline>''
               @ ''\<newline>Full document content for Paper:\<newline>''
               @ ''Full text\<newline>''
               @ ''\<newline>Full document content for Document 2:\<newline>''
               @ ''Full text\<newline>''
               @ ''\<newline>        Source information:\<newline>''
               @ ''        Document: Paper, Tags: Invoice\<newline>''
               @ ''Document: Document 2, Tags: Invoice\<newline>''
               @ ''\<newline>\<newline>        Important instructions:\<newline>''
               @ ''        - Use ONLY information from the provided documents\<newline>''
               @
                   ''        - If the answer is not contained in the documents, respond: "This info''
               @
                   ''rmation is not contained in the documents." (in the same language as the quest''
               @ ''ion)\<newline>''
               @ ''        - Avoid assumptions or speculation beyond the given context\<newline>''
               @ ''        - Answer in the same language as the question was asked\<newline>''
               @
                   ''        - Before providing your final answer, double-check that all informatio''
               @ ''n comes directly from the documents and is accurate\<newline>''
               @ ''        - If you''
               @ [CHR 0x27]
               @
                   ''re unsure about any part of the answer, either omit it or clearly state the un''
               @ ''certainty\<newline>''
               @
                   ''        - Do not mention document numbers or source references, answer as if i''
               @ ''t were a natural conversation\<newline>''
               @ ''        '')]
   \<and> snd (askQuestion (rag_world0\<lparr>post_context := (\<lambda>question. Inr
       (''Summary.'', None))\<rparr>) ''Who?'')
     = [GenerateText
          (''\<newline>''
               @ ''        You are a helpful assistant that answers questions about documents.''
               @ ''\<newline>''
               @ ''\<newline>''
               @
                   ''        Answer the following question precisely, based on the provided documen''
               @ ''ts:\<newline>''
               @ ''\<newline>        Question: Who?\<newline>''
               @ ''\<newline>        Context from relevant documents:\<newline>''
               @ ''        Summary.\<newline>''
               @ ''\<newline>        Source information:\<newline>''
               @ ''        \<newline>\<newline>        Important instructions:\<newline>''
               @ ''        - Use ONLY information from the provided documents\<newline>''
               @
                   ''        - If the answer is not contained in the documents, respond: "This info''
               @
                   ''rmation is not contained in the documents." (in the same language as the quest''
               @ ''ion)\<newline>''
               @ ''        - Avoid assumptions or speculation beyond the given context\<newline>''
               @ ''        - Answer in the same language as the question was asked\<newline>''
               @
                   ''        - Before providing your final answer, double-check that all informatio''
               @ ''n comes directly from the documents and is accurate\<newline>''
               @ ''        - If you''
               @ [CHR 0x27]
               @
                   ''re unsure about any part of the answer, either omit it or clearly state the un''
               @ ''certainty\<newline>''
               @
                   ''        - Do not mention document numbers or source references, answer as if i''
               @ ''t were a natural conversation\<newline>''
               @ ''        '')]\<close>
proof -
  note tagged = reference_documents_and_citation_mode
      [where w = rag_world0 and cache = tag_cache0 and srcs = three_sources
        and question = "''Who?''" and context' = "''Summary.''" and u = "()"
        and c = "enhanced_context rag_world0 ''Summary.'' three_sources"
        and s = \<open>\<lparr>doc_id = Some 1, title = Some ''Paper''\<rparr>\<close>]
  have a: \<open>referenceDocuments (enrich_sources rag_world0 tag_cache0 three_sources)
     = [\<lparr>ref_id = 1, ref_title = ''Swimming'', ref_created = Text ''2008-01-01'',
         ref_correspondent = Number 7,
         ref_tags = [''Refer'' @ [CHR 0xEA] @ ''ncia'', ''Invoice''],
         ref_content = ''Text of the paper...''\<rparr>]\<close>
    using tagged [THEN conjunct1] by (simp add: world0_reference_documents reference_tag_def)
  have b: \<open>hasReferenceTag (enrich_sources rag_world0 tag_cache0 three_sources)\<close>
    using tagged [THEN conjunct2, THEN conjunct1] by (simp add: world0_reference_documents)
  have c: \<open>spec_reference_source rag_world0 tag_cache0 \<lparr>doc_id = Some 1, title = Some
      ''Paper''\<rparr> \<noteq> None\<close>
    using tagged [THEN conjunct2, THEN conjunct2, THEN conjunct1]
    by (simp add: rag_defs)
  have c2: \<open>spec_reference_source rag_world0 tag_cache0 \<lparr>doc_id = Some 2, title =
      None\<rparr> = None\<close>
    by (simp add: rag_defs)
  have c3: \<open>spec_reference_source rag_world0 tag_cache0 \<lparr>doc_id = Some 3, title =
      Some ''Lost''\<rparr> = None\<close>
    by (simp add: rag_defs)
  have c4: \<open>spec_reference_source rag_world0
       [\<lparr>tag_id = 10, tag_name = Some ''Referencia''\<rparr>, \<lparr>tag_id = 11, tag_name
           = Some ''Invoice''\<rparr>]
       \<lparr>doc_id = Some 1, title = Some ''Paper''\<rparr> = None\<close>
    by (simp add: rag_defs)
  have d: \<open>snd (askQuestion rag_world0 ''Who?'')
     = [GenerateText
          (''\<newline>''
               @ ''        You are a helpful assistant that answers questions about documents.''
               @ ''\<newline>''
               @ ''\<newline>''
               @
                   ''        Answer the following question precisely, based on the provided documen''
               @ ''ts:\<newline>''
               @ ''\<newline>        Question: Who?\<newline>''
               @ ''\<newline>        Context from relevant documents:\<newline>''
               @ ''        Summary.\<newline>''
               @ ''\<newline>Full document content for Paper:\<newline>''
               @ ''Full text\<newline>''
               @ ''\<newline>Full document content for Document 2:\<newline>''
               @ ''Full text\<newline>''
               @ ''\<newline>        Source information:\<newline>''
               @ ''        Document: Paper, Tags: Refer''
               @ [CHR 0xEA]
               @ ''ncia, Invoice\<newline>''
               @ ''Document: Document 2, Tags: Invoice\<newline>''
               @ ''\<newline>\<newline>Reference Documents Metadata:\<newline>''
               @ ''ID: 1\<newline>''
               @ ''Title: Swimming\<newline>''
               @ ''Created: 2008-01-01\<newline>''
               @ ''Correspondent: 7\<newline>''
               @ ''Tags: Refer''
               @ [CHR 0xEA]
               @ ''ncia, Invoice\<newline>''
               @ ''Excerpt: Text of the paper...\<newline>''
               @ ''\<newline>        Important instructions:\<newline>''
               @ ''        - Use ONLY information from the provided documents\<newline>''
               @
                   ''        - If the answer is not contained in the documents, respond: "This info''
               @
                   ''rmation is not contained in the documents." (in the same language as the quest''
               @ ''ion)\<newline>''
               @ ''        - Avoid assumptions or speculation beyond the given context\<newline>''
               @ ''        - Answer in the same language as the question was asked\<newline>''
               @
                   ''        - Before providing your final answer, double-check that all informatio''
               @ ''n comes directly from the documents and is accurate\<newline>''
               @ ''        - If you''
               @ [CHR 0x27]
               @
                   ''re unsure about any part of the answer, either omit it or clearly state the un''
               @ ''certainty\<newline>''
               @ ''        - Since some documents have the "Refer''
               @ [CHR 0xEA]
               @
                   ''ncia" tag, include citations to the sources in your answer using the format <c''
               @
                   ''itation>AUTHORS. Title. Journal/Publication. v.Volume, p.Pages, Year.</citatio''
               @ ''n>\<newline>''
               @
                   ''        Example: <citation>MADUREIRA, F., COLLEGA, D. G., RODRIGUES, H. F., OL''
               @ ''IVEIRA, T. A. C., FREUDENHEIM, A. M. Valida''
               @ [CHR 0xE7, CHR 0xE3]
               @ ''o de um Instrumento para Avalia''
               @ [CHR 0xE7, CHR 0xE3]
               @ ''o Qualitativa do Nado "Crawl". Revista Brasileira de Educa''
               @ [CHR 0xE7, CHR 0xE3]
               @ ''o F''
               @ [CHR 0xED]
               @ ''sica e Esporte. v.22, p.273-284, 2008.</citation>\<newline>''
               @
                   ''        Use the document title and available metadata to format the citation a''
               @ ''ppropriately.\<newline>''
               @ ''        '')]\<close>
  proof -
    have ev: \<open>snd (askQuestion rag_world0 ''Who?'')
        = [GenerateText (compose_prompt ''Who?'' (enhanced_context rag_world0 ''Summary.''
            three_sources)
                             (enrich_sources rag_world0 tag_cache0 three_sources))]\<close>
      using tagged [THEN conjunct2, THEN conjunct2, THEN conjunct2, THEN conjunct2,
          THEN conjunct2, THEN conjunct1]
      by (simp add: rag_world0_def three_sources_def)
    show ?thesis
      apply (subst ev)
      apply (subst tagged [THEN conjunct2, THEN conjunct2, THEN conjunct2, THEN conjunct1, THEN
          mp])
       apply (simp add: world0_reference_documents)
      apply (simp add: world0_reference_documents world0_source_info world0_enhanced_context
          prompt_preamble_def prompt_instructions_def reference_tag_def string_of_small_nat)
      done
  qed
  note untagged = reference_documents_and_citation_mode
      [where w = \<open>rag_world0\<lparr>ensureTagCache := Inr [\<lparr>tag_id = 11, tag_name =
          Some ''Invoice''\<rparr>]\<rparr>\<close>
        and cache = \<open>[\<lparr>tag_id = 11, tag_name = Some ''Invoice''\<rparr>]\<close> and
            srcs = three_sources
        and question = "''Who?''" and context' = "''Summary.''" and u = "()"
        and c = "enhanced_context rag_world0 ''Summary.'' three_sources"]
  have same: \<open>enrich_sources (rag_world0\<lparr>ensureTagCache := Inr [\<lparr>tag_id = 11,
      tag_name = Some ''Invoice''\<rparr>]\<rparr>)
                 [\<lparr>tag_id = 11, tag_name = Some ''Invoice''\<rparr>] three_sources
        = enrich_sources rag_world0 [\<lparr>tag_id = 11, tag_name = Some ''Invoice''\<rparr>]
            three_sources
      \<and> enhanced_context (rag_world0\<lparr>ensureTagCache := Inr [\<lparr>tag_id = 11,
          tag_name = Some ''Invoice''\<rparr>]\<rparr>)
           ''Summary.'' three_sources
        = enhanced_context rag_world0 ''Summary.'' three_sources
      \<and> List.map_filter (spec_reference_source
           (rag_world0\<lparr>ensureTagCache := Inr [\<lparr>tag_id = 11, tag_name = Some
               ''Invoice''\<rparr>]\<rparr>)
           [\<lparr>tag_id = 11, tag_name = Some ''Invoice''\<rparr>]) three_sources = []\<close>
    by (simp add: rag_defs)
  have e: \<open>\<not> hasReferenceTag (enrich_sources rag_world0 [\<lparr>tag_id = 11, tag_name
      = Some ''Invoice''\<rparr>] three_sources)\<close>
    using untagged [THEN conjunct2, THEN conjunct1] same by simp
  have f: \<open>snd (askQuestion (rag_world0\<lparr>ensureTagCache := Inr [\<lparr>tag_id = 11,
      tag_name = Some ''Invoice''\<rparr>]\<rparr>) ''Who?'')
     = [GenerateText
          (''\<newline>''
               @ ''        You are a helpful assistant that answers questions about documents.''
               @ ''\<newline>''
               @ ''\<newline>''
               @
                   ''        Answer the following question precisely, based on the provided documen''
               @ ''ts:\<newline>''
               @ ''\<newline>        Question: Who?\<newline>''
               @ ''\<newline>        Context from relevant documents:\<newline>''
               @ ''        Summary.\<newline>''
               @ ''\<newline>Full document content for Paper:\<newline>''
               @ ''Full text\<newline>''
               @ ''\<newline>Full document content for Document 2:\<newline>''
               @ ''Full text\<newline>''
               @ ''\<newline>        Source information:\<newline>''
               @ ''        Document: Paper, Tags: Invoice\<newline>''
               @ ''Document: Document 2, Tags: Invoice\<newline>''
               @ ''\<newline>\<newline>        Important instructions:\<newline>''
               @ ''        - Use ONLY information from the provided documents\<newline>''
               @
                   ''        - If the answer is not contained in the documents, respond: "This info''
               @
                   ''rmation is not contained in the documents." (in the same language as the quest''
               @ ''ion)\<newline>''
               @ ''        - Avoid assumptions or speculation beyond the given context\<newline>''
               @ ''        - Answer in the same language as the question was asked\<newline>''
               @
                   ''        - Before providing your final answer, double-check that all informatio''
               @ ''n comes directly from the documents and is accurate\<newline>''
               @ ''        - If you''
               @ [CHR 0x27]
               @
                   ''re unsure about any part of the answer, either omit it or clearly state the un''
               @ ''certainty\<newline>''
               @
                   ''        - Do not mention document numbers or source references, answer as if i''
               @ ''t were a natural conversation\<newline>''
               @ ''        '')]\<close>
  proof -
    have ev: \<open>snd (askQuestion (rag_world0\<lparr>ensureTagCache := Inr [\<lparr>tag_id =
        11, tag_name = Some ''Invoice''\<rparr>]\<rparr>) ''Who?'')
        = [GenerateText (compose_prompt ''Who?'' (enhanced_context rag_world0 ''Summary.''
            three_sources)
                             (enrich_sources rag_world0 [\<lparr>tag_id = 11, tag_name = Some
                                 ''Invoice''\<rparr>]
                                three_sources))]\<close>
      using untagged [THEN conjunct2, THEN conjunct2, THEN conjunct2, THEN conjunct2,
          THEN conjunct2, THEN conjunct1] same
      by (simp add: rag_world0_def three_sources_def)
    have pr: \<open>compose_prompt ''Who?'' (enhanced_context rag_world0 ''Summary.''
        three_sources)
                (enrich_sources rag_world0 [\<lparr>tag_id = 11, tag_name = Some
                    ''Invoice''\<rparr>] three_sources)
        = prompt_preamble ''Who?'' (enhanced_context rag_world0 ''Summary.'' three_sources)
            @ sourceInfo (enrich_sources rag_world0 [\<lparr>tag_id = 11, tag_name = Some
                ''Invoice''\<rparr>] three_sources)
            @ prompt_instructions
            @ ''- Do not mention document numbers or source references, answer as if it were a''
            @ '' natural conversation''
            @ ''\<newline>        ''\<close>
      using untagged [THEN conjunct2, THEN conjunct2, THEN conjunct2, THEN conjunct2, THEN
          conjunct1]
        same
      by simp
    show ?thesis
      by (subst ev, subst pr)
         (simp add: world0_untagged world0_enhanced_context prompt_preamble_def
            prompt_instructions_def)
  qed
  have g: \<open>snd (askQuestion (rag_world0\<lparr>post_context := (\<lambda>question. Inr
      (''Summary.'', None))\<rparr>) ''Who?'')
     = [GenerateText
          (''\<newline>''
               @ ''        You are a helpful assistant that answers questions about documents.''
               @ ''\<newline>''
               @ ''\<newline>''
               @
                   ''        Answer the following question precisely, based on the provided documen''
               @ ''ts:\<newline>''
               @ ''\<newline>        Question: Who?\<newline>''
               @ ''\<newline>        Context from relevant documents:\<newline>''
               @ ''        Summary.\<newline>''
               @ ''\<newline>        Source information:\<newline>''
               @ ''        \<newline>\<newline>        Important instructions:\<newline>''
               @ ''        - Use ONLY information from the provided documents\<newline>''
               @
                   ''        - If the answer is not contained in the documents, respond: "This info''
               @
                   ''rmation is not contained in the documents." (in the same language as the quest''
               @ ''ion)\<newline>''
               @ ''        - Avoid assumptions or speculation beyond the given context\<newline>''
               @ ''        - Answer in the same language as the question was asked\<newline>''
               @
                   ''        - Before providing your final answer, double-check that all informatio''
               @ ''n comes directly from the documents and is accurate\<newline>''
               @ ''        - If you''
               @ [CHR 0x27]
               @
                   ''re unsure about any part of the answer, either omit it or clearly state the un''
               @ ''certainty\<newline>''
               @
                   ''        - Do not mention document numbers or source references, answer as if i''
               @ ''t were a natural conversation\<newline>''
               @ ''        '')]\<close>
    using reference_documents_and_citation_mode
      [where w = \<open>rag_world0\<lparr>post_context := (\<lambda>question. Inr (''Summary.'',
          None))\<rparr>\<close>
        and question = "''Who?''" and context' = "''Summary.''" and u = "()" and ?srcs0.0 = None,
        THEN conjunct2, THEN conjunct2, THEN conjunct2, THEN conjunct2,
        THEN conjunct2, THEN conjunct2]
    by (simp add: rag_world0_def prompt_preamble_def prompt_instructions_def)
  show ?thesis using a b c c2 c3 c4 d e f g by (intro conjI)
qed


end
